(* ===== verification/Prelude.thy ===== *)
theory Prelude
  imports Main "HOL-Library.Multiset"
begin

text \<open>
  Shared vocabulary of the development: the names of the model's basic types, the
  JavaScript idioms the sources rely on (truthiness of optional strings, the \<open>x || ''\<close>
  default, \<open>Array.prototype.filter\<close> with an index argument, \<open>reduce\<close> as a left fold,
  \<open>map\<close> with a conditional object spread, array methods on a value that may be
  \<open>undefined\<close> and the \<open>TypeError\<close> they throw), and the generic lemmas about them
  that the component theories use through the collections declared here.
\<close>

named_theorems store_simps "equations of the store operations on concrete shapes"
named_theorems inv_simps "unfoldings of the invariants of the order set"

type_synonym cents = int
type_synonym timestamp = nat
type_synonym ident = string

subsection \<open>JavaScript idioms\<close>

text \<open>
  \<open>x ? a : b\<close> on an optional string: \<open>undefined\<close> and the empty string are falsy.
\<close>

definition js_truthy :: "string option \<Rightarrow> bool" where
  "js_truthy x = (case x of None \<Rightarrow> False | Some s \<Rightarrow> s \<noteq> [])"

text \<open>\<open>x || ''\<close> on an optional string.\<close>

definition js_or_empty :: "string option \<Rightarrow> string" where
  "js_or_empty x = (case x of None \<Rightarrow> [] | Some s \<Rightarrow> s)"

text \<open>
  \<open>xs.filter((x, i) => p(x, i))\<close>: the callback receives the element and its index,
  counted from \<open>n\<close>; indices are JavaScript numbers, modelled as \<open>int\<close>.
\<close>

fun filter_idx_from :: "('a \<Rightarrow> int \<Rightarrow> bool) \<Rightarrow> int \<Rightarrow> 'a list \<Rightarrow> 'a list" where
  "filter_idx_from p n [] = []"
| "filter_idx_from p n (x # xs) =
     (if p x n then x # filter_idx_from p (n + 1) xs else filter_idx_from p (n + 1) xs)"

text \<open>\<open>xs.map(o => o.id === k ? f(o) : o)\<close>.\<close>

definition map_where :: "('a \<Rightarrow> bool) \<Rightarrow> ('a \<Rightarrow> 'a) \<Rightarrow> 'a list \<Rightarrow> 'a list" where
  "map_where P f xs = map (\<lambda>x. if P x then f x else x) xs"

text \<open>
  Errors a render can throw. Reading a method of \<open>undefined\<close> (\<open>undefined.find\<close>,
  \<open>undefined.length\<close>, \<open>undefined.filter\<close>) throws a \<open>TypeError\<close> naming the member
  read; there is no \<open>try\<close> in the sources and no React error boundary, so the error
  ends the render. A computation that may throw returns \<open>'a js\<close>, the error on the
  left.
\<close>

datatype js_error = TypeError string

type_synonym 'a js = "js_error + 'a"

definition js_bind :: "'a js \<Rightarrow> ('a \<Rightarrow> 'b js) \<Rightarrow> 'b js" where
  "js_bind m f = (case m of Inl e \<Rightarrow> Inl e | Inr x \<Rightarrow> f x)"

text \<open>
  Array methods called on a value that may be \<open>undefined\<close> (\<open>None\<close>): the method of
  the array, or the \<open>TypeError\<close>.
\<close>

fun js_find :: "('a \<Rightarrow> bool) \<Rightarrow> 'a list option \<Rightarrow> 'a option js" where
  "js_find P None = Inl (TypeError ''find'')"
| "js_find P (Some xs) = Inr (find P xs)"

fun js_filter :: "('a \<Rightarrow> bool) \<Rightarrow> 'a list option \<Rightarrow> 'a list js" where
  "js_filter P None = Inl (TypeError ''filter'')"
| "js_filter P (Some xs) = Inr (filter P xs)"

fun js_length :: "'a list option \<Rightarrow> nat js" where
  "js_length None = Inl (TypeError ''length'')"
| "js_length (Some xs) = Inr (length xs)"

subsection \<open>Generic lemmas\<close>

lemma js_bind_simps [simp]:
  "js_bind (Inl e) f = Inl e"
  "js_bind (Inr x) f = f x"
  by (simp_all add: js_bind_def)

lemma js_bind_isl [simp]:
  "isl (js_bind m f) \<longleftrightarrow> isl m \<or> (\<exists>x. m = Inr x \<and> isl (f x))"
  by (cases m) simp_all

lemma js_truthy_simps [simp]:
  "js_truthy None = False" "js_truthy (Some s) = (s \<noteq> [])"
  by (simp_all add: js_truthy_def)

lemma js_or_empty_simps [simp]:
  "js_or_empty None = []" "js_or_empty (Some s) = s"
  by (simp_all add: js_or_empty_def)

lemma find_Some_mem: "find P xs = Some x \<Longrightarrow> x \<in> set xs \<and> P x"
  by (induction xs) (auto split: if_splits)

lemma foldl_add_sum_list:
  "foldl (\<lambda>acc x. acc + f x) c xs = c + sum_list (map f xs)"
  for c :: "'b :: comm_monoid_add"
  by (induction xs arbitrary: c) (simp_all add: add.assoc)

lemma filter_idx_from_out_of_range:
  "\<not> (n \<le> i \<and> i < n + int (length xs)) \<Longrightarrow> filter_idx_from (\<lambda>_ j. j \<noteq> i) n xs = xs"
  by (induction xs arbitrary: n) auto

lemma filter_idx_from_in_range:
  "n \<le> i \<Longrightarrow> i < n + int (length xs) \<Longrightarrow>
     filter_idx_from (\<lambda>_ j. j \<noteq> i) n xs = take (nat (i - n)) xs @ drop (Suc (nat (i - n))) xs"
proof (induction xs arbitrary: n)
  case Nil
  then show ?case by simp
next
  case (Cons x xs)
  show ?case
  proof (cases "i = n")
    case True
    then show ?thesis by (simp add: filter_idx_from_out_of_range)
  next
    case False
    with Cons.prems have "n + 1 \<le> i" "i < n + 1 + int (length xs)" by auto
    then have "filter_idx_from (\<lambda>_ j. j \<noteq> i) (n + 1) xs =
        take (nat (i - (n + 1))) xs @ drop (Suc (nat (i - (n + 1)))) xs"
      by (rule Cons.IH)
    moreover have "nat (i - n) = Suc (nat (i - (n + 1)))" using \<open>n + 1 \<le> i\<close> by simp
    ultimately show ?thesis using False by simp
  qed
qed

lemma length_map_where [simp]: "length (map_where P f xs) = length xs"
  by (simp add: map_where_def)

lemma map_where_Nil [simp]: "map_where P f [] = []"
  by (simp add: map_where_def)

lemma map_where_Cons [simp]:
  "map_where P f (x # xs) = (if P x then f x else x) # map_where P f xs"
  by (simp add: map_where_def)

lemma map_where_none:
  "\<forall>x \<in> set xs. \<not> P x \<Longrightarrow> map_where P f xs = xs"
  by (induction xs) auto

lemma set_map_where:
  "y \<in> set (map_where P f xs) \<longleftrightarrow> (\<exists>x \<in> set xs. y = (if P x then f x else x))"
  by (auto simp: map_where_def)

lemma map_where_nth:
  "i < length xs \<Longrightarrow> map_where P f xs ! i = (if P (xs ! i) then f (xs ! i) else xs ! i)"
  by (simp add: map_where_def)

end
