(* ===== verification/Types.thy ===== *)
theory Types
  imports Prelude
begin

text \<open>
  The data model of \<open>src/types.ts\<close>: the three enums as datatypes with the source's
  constructors, the interfaces as records. Optional members (\<open>x?: T\<close>) are \<open>T option\<close>.
  Monetary \<open>number\<close> fields are whole cents (\<^typ>\<open>cents\<close> = \<^typ>\<open>int\<close>): every price of
  the catalogue and every fee of the code is a whole number of rand cents, and sums of
  such values are exact in IEEE doubles below \<open>2^53\<close>, so the integer model computes what
  the code computes. Timestamps (ISO strings from \<open>new Date()\<close>) are \<^typ>\<open>timestamp\<close>
  values, whose order is the order of the ISO strings. The presentation-only members
  \<open>logo\<close>, \<open>banner\<close>, \<open>image\<close>, \<open>rating\<close> and \<open>deliveryTime\<close> are strings here: no
  computation reads them. \<open>AnalyticsKPI\<close> is used by no view and is not modelled.
\<close>

datatype user_role = OWNER | RESTAURANT_ADMIN | DRIVER | CUSTOMER

datatype order_status =
    PENDING | RESTAURANT_ACCEPTED | PREPARING | READY_FOR_PICKUP
  | ACCEPTED | PICKED_UP | IN_TRANSIT | DELIVERED | CANCELLED

datatype payment_method = CARD | EFT_POP | CASH | WALLET

record menu_item_variation =
  var_id :: ident
  var_name :: string
  var_price :: cents

record menu_item_modifier =
  mod_id :: ident
  mod_name :: string
  mod_price :: cents

record menu_item =
  item_id :: ident
  item_restaurant_id :: ident
  category_id :: ident
  item_name :: string
  description :: string
  base_price :: cents
  image :: string
  variations :: "menu_item_variation list option"
  modifiers :: "menu_item_modifier list option"
  is_available :: bool

record restaurant =
  rest_id :: ident
  rest_name :: string
  logo :: string
  banner :: string
  address :: string
  zone :: string
  rating :: string
  delivery_time :: string
  categories :: "string list"
  owner_id :: ident
  is_chain :: "bool option"

record cart_item =
  ci_menu_item_id :: ident
  ci_name :: string
  quantity :: nat
  ci_variation :: "menu_item_variation option"
  ci_modifiers :: "menu_item_modifier list option"
  total_price :: cents

record order =
  order_id :: ident
  customer_id :: ident
  restaurant_id :: "ident option"
  driver_id :: "ident option"
  items :: "cart_item list option"
  pickup_address :: string
  dropoff_address :: string
  status :: order_status
  payment :: payment_method
  food_subtotal :: cents
  delivery_fee :: cents
  service_fee :: cents
  total_fee :: cents
  created_at :: timestamp
  updated_at :: timestamp

record user =
  user_id :: ident
  user_name :: string
  email :: string
  role :: user_role

subsection \<open>Status classes used by the views\<close>

text \<open>
  The terminal statuses, and the statuses in which a driver is responsible for the
  order (the ones \<open>DriverApp\<close>'s \<open>handleStatusUpdate\<close> advances, and its end point).
\<close>

fun is_terminal :: "order_status \<Rightarrow> bool" where
  "is_terminal DELIVERED = True"
| "is_terminal CANCELLED = True"
| "is_terminal _ = False"

fun driver_phase :: "order_status \<Rightarrow> bool" where
  "driver_phase ACCEPTED = True"
| "driver_phase PICKED_UP = True"
| "driver_phase IN_TRANSIT = True"
| "driver_phase DELIVERED = True"
| "driver_phase _ = False"

end
