(* ===== verification/Catalog.thy ===== *)
theory Catalog
  imports Types
begin

text \<open>
  The reference catalogue of \<open>src/constants.tsx\<close>: the four demo users the login screen
  offers, the two restaurants and the two menu items. The store holds the restaurants and
  menu items and never changes them; the login operation looks users up in
  \<open>MOCK_USERS\<close>. Prices are in cents (45.00 is 4500). \<open>APP_NAME\<close>,
  \<open>CURRENCY\<close> and \<open>FOOD_CATEGORIES\<close> are only displayed; the categories' emoji icons
  are glyphs no computation reads and are left out of their record.
\<close>

definition APP_NAME :: string where
  "APP_NAME = ''SwiftDrop SA''"

definition CURRENCY :: string where
  "CURRENCY = ''R''"

definition MOCK_USERS :: "user list" where
  "MOCK_USERS =
    [\<lparr>user_id = ''1'', user_name = ''Zanele Khumalo'', email = ''owner@swiftdrop.co.za'', role = OWNER\<rparr>,
     \<lparr>user_id = ''2'', user_name = ''Kota King Admin'', email = ''kota@business.co.za'', role = RESTAURANT_ADMIN\<rparr>,
     \<lparr>user_id = ''3'', user_name = ''Speedy Sipho'', email = ''sipho@driver.co.za'', role = DRIVER\<rparr>,
     \<lparr>user_id = ''4'', user_name = ''Thabo Mokoena'', email = ''thabo@gmail.com'', role = CUSTOMER\<rparr>]"

record food_category =
  cat_id :: ident
  cat_name :: string

definition FOOD_CATEGORIES :: "food_category list" where
  "FOOD_CATEGORIES =
    [\<lparr>cat_id = ''1'', cat_name = ''Kota''\<rparr>, \<lparr>cat_id = ''2'', cat_name = ''Chips''\<rparr>,
     \<lparr>cat_id = ''3'', cat_name = ''Braai''\<rparr>, \<lparr>cat_id = ''4'', cat_name = ''Burgers''\<rparr>,
     \<lparr>cat_id = ''5'', cat_name = ''Drinks''\<rparr>]"

definition MOCK_RESTAURANTS :: "restaurant list" where
  "MOCK_RESTAURANTS =
    [\<lparr>rest_id = ''rest-1'', rest_name = ''The Kota King'',
      logo = ''https://images.unsplash.com/photo-1594212699903-ec8a3eca50f5?w=100&h=100&fit=crop'',
      banner = ''https://images.unsplash.com/photo-1504674900247-0877df9cc836?w=800&h=300&fit=crop'',
      address = ''Vilikazi Street, Orlando West'', zone = ''Soweto'', rating = ''4.9'',
      delivery_time = ''15-25 min'', categories = [''Kota'', ''Chips''], owner_id = ''2'',
      is_chain = None\<rparr>,
     \<lparr>rest_id = ''rest-2'', rest_name = ''Debonairs Pizza - Jabulani'',
      logo = ''https://images.unsplash.com/photo-1513104890138-7c749659a591?w=100&h=100&fit=crop'',
      banner = ''https://images.unsplash.com/photo-1590947132387-155cc02f3212?w=800&h=300&fit=crop'',
      address = ''Jabulani Mall, Soweto'', zone = ''Soweto'', rating = ''4.6'',
      delivery_time = ''30-45 min'', categories = [''Pizza'', ''Drinks''], owner_id = ''deb-corp'',
      is_chain = Some True\<rparr>]"

definition MOCK_MENU_ITEMS :: "menu_item list" where
  "MOCK_MENU_ITEMS =
    [\<lparr>item_id = ''m1'', item_restaurant_id = ''rest-1'', category_id = ''1'',
      item_name = ''The Full House Kota'',
      description = ''Quarter loaf, chips, polony, cheese, egg, and special sauce'',
      base_price = 4500,
      image = ''https://images.unsplash.com/photo-1509722747041-619f382b83bc?w=400'',
      variations = Some
        [\<lparr>var_id = ''v1'', var_name = ''Standard'', var_price = 0\<rparr>,
         \<lparr>var_id = ''v2'', var_name = ''Double Cheese'', var_price = 1000\<rparr>],
      modifiers = None, is_available = True\<rparr>,
     \<lparr>item_id = ''m2'', item_restaurant_id = ''rest-1'', category_id = ''2'',
      item_name = ''Slap Chips'',
      description = ''Freshly cut township style slap chips'',
      base_price = 2000,
      image = ''https://images.unsplash.com/photo-1573080496219-bb080dd4f877?w=400'',
      variations = Some
        [\<lparr>var_id = ''s1'', var_name = ''Small'', var_price = 0\<rparr>,
         \<lparr>var_id = ''s2'', var_name = ''Medium'', var_price = 1500\<rparr>,
         \<lparr>var_id = ''s3'', var_name = ''Large'', var_price = 2500\<rparr>,
         \<lparr>var_id = ''s4'', var_name = ''Extra Large'', var_price = 4000\<rparr>],
      modifiers = None, is_available = True\<rparr>]"

subsection \<open>Well-formedness of the catalogue\<close>

text \<open>
  What the pricing and lifecycle proofs need of the reference data: no negative price
  anywhere, and every user a non-empty identifier (a driver's identifier is stored as
  \<open>driverId\<close> only when it is truthy).
\<close>

definition prices_nonneg :: "menu_item \<Rightarrow> bool" where
  "prices_nonneg it \<longleftrightarrow>
     0 \<le> base_price it
     \<and> (\<forall>v \<in> set (case variations it of None \<Rightarrow> [] | Some vs \<Rightarrow> vs). 0 \<le> var_price v)
     \<and> (\<forall>m \<in> set (case modifiers it of None \<Rightarrow> [] | Some ms \<Rightarrow> ms). 0 \<le> mod_price m)"

lemma catalog_prices_nonneg: "\<forall>it \<in> set MOCK_MENU_ITEMS. prices_nonneg it"
  by (simp add: MOCK_MENU_ITEMS_def prices_nonneg_def)

lemma mock_user_ids_nonempty: "\<forall>u \<in> set MOCK_USERS. user_id u \<noteq> []"
  by (simp add: MOCK_USERS_def)

lemma mock_user_ids_distinct: "distinct (map user_id MOCK_USERS)"
  by (simp add: MOCK_USERS_def)

end
