(* ===== verification/Store.thy ===== *)
theory Store
  imports Catalog
begin

text \<open>
  The zustand store of \<open>src/store.ts\<close>: the one authoritative state of the application
  (\<open>AppState\<close>) and its seven setters. Every setter is a \<open>set\<close> call that merges a partial
  state into the current one; here it is a function from the state to the new state,
  with the fields the partial state does not name left as they are. \<open>new Date()\<close> in
  \<open>updateOrderStatus\<close> is the parameter \<open>now\<close>. None of the setters checks anything:
  \<open>login\<close> ignores an unknown e-mail, \<open>removeFromCart\<close> ignores an index out of range,
  and \<open>updateOrderStatus\<close> writes any status to every order with the given identifier.
\<close>

record app_state =
  current_user :: "user option"
  restaurants :: "restaurant list"
  menu_items :: "menu_item list"
  orders :: "order list"
  cart :: "cart_item list"

definition init_state :: app_state where
  "init_state = \<lparr>current_user = None, restaurants = MOCK_RESTAURANTS,
     menu_items = MOCK_MENU_ITEMS, orders = [], cart = []\<rparr>"

definition login :: "string \<Rightarrow> app_state \<Rightarrow> app_state" where
  "login em s =
     (case find (\<lambda>u. email u = em) MOCK_USERS of
        Some u \<Rightarrow> s\<lparr>current_user := Some u\<rparr>
      | None \<Rightarrow> s)"

definition logout :: "app_state \<Rightarrow> app_state" where
  "logout s = s\<lparr>current_user := None, cart := []\<rparr>"

definition add_to_cart :: "cart_item \<Rightarrow> app_state \<Rightarrow> app_state" where
  "add_to_cart it s = s\<lparr>cart := cart s @ [it]\<rparr>"

definition remove_from_cart :: "int \<Rightarrow> app_state \<Rightarrow> app_state" where
  "remove_from_cart i s = s\<lparr>cart := filter_idx_from (\<lambda>_ j. j \<noteq> i) 0 (cart s)\<rparr>"

definition clear_cart :: "app_state \<Rightarrow> app_state" where
  "clear_cart s = s\<lparr>cart := []\<rparr>"

definition place_order :: "order \<Rightarrow> app_state \<Rightarrow> app_state" where
  "place_order od s = s\<lparr>orders := od # orders s, cart := []\<rparr>"

text \<open>
  The object \<open>{ ...o, status, updatedAt: now, ...(driverId ? { driverId } : {}) }\<close>
  built for a matching order, and the setter that maps it over the order list.
\<close>

definition set_order_status :: "order_status \<Rightarrow> ident option \<Rightarrow> timestamp \<Rightarrow> order \<Rightarrow> order" where
  "set_order_status st d now od =
     (let o' = od\<lparr>status := st, updated_at := now\<rparr>
      in if js_truthy d then o'\<lparr>driver_id := d\<rparr> else o')"

definition update_order_status ::
  "ident \<Rightarrow> order_status \<Rightarrow> ident option \<Rightarrow> timestamp \<Rightarrow> app_state \<Rightarrow> app_state" where
  "update_order_status oid st d now s =
     s\<lparr>orders := map_where (\<lambda>od. order_id od = oid) (set_order_status st d now) (orders s)\<rparr>"

text \<open>
  The order set seen as a dictionary from identifiers to orders, the view the
  specification takes of it (the first order with a given identifier wins, as
  \<open>orders.find\<close> would).
\<close>

definition order_map :: "order list \<Rightarrow> ident \<rightharpoonup> order" where
  "order_map os = map_of (map (\<lambda>od. (order_id od, od)) os)"

text \<open>
  The specification's \<open>applyTransition\<close> (section 4.2) on that dictionary, as far as
  it concerns the effect of a transition: an unknown identifier fails with
  \<open>NotFoundError\<close> (section 7); otherwise the order gets the target status and the
  update time, and the driver when the transition records one (\<open>None\<close> when it
  records none); no other field changes. The authorisation and edge checks are
  compared with the code in \<open>Lifecycle\<close>.
\<close>

datatype lifecycle_error = NotFoundError | UnauthorizedError | IllegalTransitionError

definition apply_transition_effect ::
  "ident \<Rightarrow> order_status \<Rightarrow> ident option \<Rightarrow> timestamp \<Rightarrow> (ident \<rightharpoonup> order)
   \<Rightarrow> lifecycle_error + (ident \<rightharpoonup> order)" where
  "apply_transition_effect oid st d now m =
     (case m oid of
        None \<Rightarrow> Inl NotFoundError
      | Some od \<Rightarrow> Inr (m(oid \<mapsto> od\<lparr>status := st, updated_at := now,
                         driver_id := (case d of None \<Rightarrow> driver_id od | Some x \<Rightarrow> Some x)\<rparr>)))"

text \<open>Example data for the witnesses: one pending order and one cart line.\<close>

definition sample_line :: cart_item where
  "sample_line = \<lparr>ci_menu_item_id = ''m1'', ci_name = ''The Full House Kota'', quantity = 1,
     ci_variation = None, ci_modifiers = Some [], total_price = 4500\<rparr>"

definition sample_order :: order where
  "sample_order = \<lparr>order_id = ''ORD-1'', customer_id = ''4'', restaurant_id = Some ''rest-1'',
     driver_id = None, items = Some [sample_line], pickup_address = ''Vilikazi Street, Orlando West'',
     dropoff_address = ''House 4242, Orlando West, Soweto'', status = PENDING, payment = CARD,
     food_subtotal = 4500, delivery_fee = 2500, service_fee = 500, total_fee = 7500,
     created_at = 1, updated_at = 1\<rparr>"

subsection \<open>Basic facts\<close>

lemma set_order_status_fields [simp]:
  "status (set_order_status st d now od) = st"
  "updated_at (set_order_status st d now od) = now"
  "driver_id (set_order_status st d now od) = (if js_truthy d then d else driver_id od)"
  "order_id (set_order_status st d now od) = order_id od"
  "customer_id (set_order_status st d now od) = customer_id od"
  "restaurant_id (set_order_status st d now od) = restaurant_id od"
  "items (set_order_status st d now od) = items od"
  "pickup_address (set_order_status st d now od) = pickup_address od"
  "dropoff_address (set_order_status st d now od) = dropoff_address od"
  "payment (set_order_status st d now od) = payment od"
  "food_subtotal (set_order_status st d now od) = food_subtotal od"
  "delivery_fee (set_order_status st d now od) = delivery_fee od"
  "service_fee (set_order_status st d now od) = service_fee od"
  "total_fee (set_order_status st d now od) = total_fee od"
  "created_at (set_order_status st d now od) = created_at od"
  by (simp_all add: set_order_status_def Let_def)

lemma update_order_status_frame [simp, store_simps]:
  "current_user (update_order_status oid st d now s) = current_user s"
  "cart (update_order_status oid st d now s) = cart s"
  "restaurants (update_order_status oid st d now s) = restaurants s"
  "menu_items (update_order_status oid st d now s) = menu_items s"
  by (simp_all add: update_order_status_def)

lemma orders_update_order_status [store_simps]:
  "orders (update_order_status oid st d now s) =
     map_where (\<lambda>od. order_id od = oid) (set_order_status st d now) (orders s)"
  by (simp add: update_order_status_def)

lemma order_map_Cons [simp]:
  "order_map (od # os) = (order_map os)(order_id od \<mapsto> od)"
  by (simp add: order_map_def)

lemma order_map_Nil [simp]: "order_map [] = Map.empty"
  by (simp add: order_map_def)

lemma order_map_None_iff: "order_map os k = None \<longleftrightarrow> k \<notin> order_id ` set os"
  by (induction os) auto

lemma map_where_order_id_unmatched:
  "oid \<notin> order_id ` set os \<Longrightarrow> map_where (\<lambda>od. order_id od = oid) f os = os"
  by (rule map_where_none) auto

lemma order_map_map_where:
  "(\<And>od. order_id (f od) = order_id od) \<Longrightarrow> order_map (map_where (\<lambda>od. order_id od = oid) f os) =
     (order_map os)(oid := map_option f (order_map os oid))"
  by (induction os) (auto simp: fun_eq_iff)

lemma map_where_order_id_distinct:
  assumes "distinct (map order_id os)" and "od \<in> set os"
  shows "map_where (\<lambda>x. order_id x = order_id od) f os = map (\<lambda>x. if x = od then f x else x) os"
proof -
  have "\<forall>x \<in> set os. order_id x = order_id od \<longleftrightarrow> x = od"
    using assms by (metis (mono_tags, lifting) distinct_map inj_onD)
  then show ?thesis by (simp add: map_where_def)
qed

lemma set_map_update_one:
  "od \<in> set os \<Longrightarrow> set (map (\<lambda>x. if x = od then f x else x) os) = insert (f od) (set os - {od})"
  by auto

lemma order_ids_map_where [simp]:
  "(\<And>x. order_id (f x) = order_id x) \<Longrightarrow> map order_id (map_where P f os) = map order_id os"
  by (induction os) auto

lemma map_where_mem:
  "x \<in> set os \<Longrightarrow> P x \<Longrightarrow> f x \<in> set (map_where P f os)"
  by (auto simp: map_where_def)

lemma order_map_update_order_status:
  "order_map (orders s) oid = Some x \<Longrightarrow>
   order_map (orders (update_order_status oid st d now s)) oid = Some (set_order_status st d now x)"
  by (simp add: update_order_status_def order_map_map_where)

lemma set_order_status_record:
  "d \<noteq> Some [] \<Longrightarrow> set_order_status st d now od
     = od\<lparr>status := st, updated_at := now, driver_id := (case d of None \<Rightarrow> driver_id od | Some x \<Rightarrow> Some x)\<rparr>"
  by (cases d) (simp_all add: set_order_status_def)

lemma order_map_distinct_mem:
  "distinct (map order_id os) \<Longrightarrow> od \<in> set os \<Longrightarrow> order_map os (order_id od) = Some od"
  by (induction os) (auto simp: rev_image_eqI)

subsection \<open>Properties of the setters\<close>

text \<open>
  C16. \<open>updateOrderStatus\<close> with an identifier that no order carries leaves the whole
  state unchanged: the code raises no \<open>NotFoundError\<close>, it silently does nothing, and
  repeating such a call any number of times never changes the state.
\<close>

theorem update_order_status_unknown_id:
  assumes "oid \<notin> order_id ` set (orders s)"
  shows "update_order_status oid st d now s = s"
  using assms by (simp add: update_order_status_def map_where_order_id_unmatched)

theorem update_order_status_unknown_id_witness:
  "''ORD-7'' \<notin> order_id ` set (orders init_state)
   \<and> update_order_status ''ORD-7'' DELIVERED (Some ''3'') 9 init_state = init_state"
  using update_order_status_unknown_id [of "''ORD-7''" init_state DELIVERED "Some ''3''" 9]
  by (simp add: init_state_def)

text \<open>
  C14. Refinement of \<open>updateOrderStatus\<close> to the specification's \<open>applyTransition\<close> on
  the dictionary of orders: for a known identifier the code's new dictionary is the
  specification's (status, update time and the recorded driver written, nothing else);
  where the specification fails with \<open>NotFoundError\<close> the code raises nothing and
  leaves the dictionary as it was. The driver argument must not be the empty string,
  which the code's truthiness test ignores.
\<close>

theorem update_order_status_refines_spec:
  assumes "d \<noteq> Some []"
  shows "order_map (orders (update_order_status oid st d now s)) =
     (case apply_transition_effect oid st d now (order_map (orders s)) of
        Inl _ \<Rightarrow> order_map (orders s)
      | Inr m \<Rightarrow> m)"
proof (cases "order_map (orders s) oid")
  case None
  then have "oid \<notin> order_id ` set (orders s)" by (simp add: order_map_None_iff)
  with None show ?thesis
    by (simp add: update_order_status_def map_where_order_id_unmatched apply_transition_effect_def)
next
  case (Some od)
  then show ?thesis using assms
    by (simp add: update_order_status_def order_map_map_where apply_transition_effect_def set_order_status_record)
qed

theorem update_order_status_refines_spec_witness:
  "Some ''3'' \<noteq> Some []
   \<and> order_map (orders (update_order_status ''ORD-1'' ACCEPTED (Some ''3'') 9 (init_state\<lparr>orders := [sample_order]\<rparr>)))
     = (case apply_transition_effect ''ORD-1'' ACCEPTED (Some ''3'') 9 (order_map [sample_order]) of
          Inl _ \<Rightarrow> order_map [sample_order] | Inr m \<Rightarrow> m)
   \<and> order_map (orders (update_order_status ''ORD-1'' ACCEPTED (Some ''3'') 9 (init_state\<lparr>orders := [sample_order]\<rparr>))) ''ORD-1''
     = Some (sample_order\<lparr>status := ACCEPTED, updated_at := 9, driver_id := Some ''3''\<rparr>)"
proof -
  have h: "Some ''3'' \<noteq> Some []" by simp
  from update_order_status_refines_spec [OF h, of "''ORD-1''" ACCEPTED 9 "init_state\<lparr>orders := [sample_order]\<rparr>"]
  show ?thesis by (simp add: apply_transition_effect_def sample_order_def)
qed

text \<open>
  C15. Order by order, \<open>updateOrderStatus\<close> changes exactly the status and the update
  time of every order with the identifier, and its driver only when the driver argument
  is truthy; every other member of every order, and every order with another
  identifier, is kept, and the list keeps its length and order.
\<close>

theorem update_order_status_per_order:
  assumes "i < length (orders s)"
  shows "length (orders (update_order_status oid st d now s)) = length (orders s)
    \<and> orders (update_order_status oid st d now s) ! i =
        (if order_id (orders s ! i) = oid
         then (orders s ! i)\<lparr>status := st, updated_at := now,
                driver_id := (if js_truthy d then d else driver_id (orders s ! i))\<rparr>
         else orders s ! i)"
  using assms
  by (simp add: update_order_status_def map_where_nth set_order_status_def Let_def)

theorem update_order_status_per_order_witness:
  "0 < length (orders (init_state\<lparr>orders := [sample_order]\<rparr>))
   \<and> orders (update_order_status ''ORD-1'' ACCEPTED (Some ''3'') 2 (init_state\<lparr>orders := [sample_order]\<rparr>)) ! 0
       = sample_order\<lparr>status := ACCEPTED, updated_at := 2, driver_id := Some ''3''\<rparr>"
  using update_order_status_per_order [of 0 "init_state\<lparr>orders := [sample_order]\<rparr>" "''ORD-1''" ACCEPTED "Some ''3''" 2]
  by (simp add: sample_order_def)

text \<open>
  C36. \<open>removeFromCart(i)\<close> with \<open>0 \<le> i < cart.length\<close> removes exactly the \<open>i\<close>-th
  line and keeps the others in order.
\<close>

theorem remove_from_cart_in_range:
  assumes "0 \<le> i" and "i < int (length (cart s))"
  shows "cart (remove_from_cart i s) = take (nat i) (cart s) @ drop (Suc (nat i)) (cart s)
    \<and> orders (remove_from_cart i s) = orders s
    \<and> current_user (remove_from_cart i s) = current_user s"
  using assms by (simp add: remove_from_cart_def filter_idx_from_in_range)

theorem remove_from_cart_in_range_witness:
  "(0::int) \<le> 1 \<and> 1 < int (length (cart (init_state\<lparr>cart := [sample_line, sample_line\<lparr>total_price := 2000\<rparr>]\<rparr>)))
   \<and> cart (remove_from_cart 1 (init_state\<lparr>cart := [sample_line, sample_line\<lparr>total_price := 2000\<rparr>]\<rparr>)) = [sample_line]"
  using remove_from_cart_in_range [of 1 "init_state\<lparr>cart := [sample_line, sample_line\<lparr>total_price := 2000\<rparr>]\<rparr>"]
  by simp

text \<open>
  C37. \<open>removeFromCart(i)\<close> with an index out of range (negative, or past the end)
  changes nothing: the code has no \<open>IndexOutOfRangeError\<close>.
\<close>

theorem remove_from_cart_out_of_range:
  assumes "\<not> (0 \<le> i \<and> i < int (length (cart s)))"
  shows "remove_from_cart i s = s"
  using assms by (simp add: remove_from_cart_def filter_idx_from_out_of_range)

theorem remove_from_cart_out_of_range_witness:
  "\<not> (0 \<le> (1::int) \<and> 1 < int (length (cart (init_state\<lparr>cart := [sample_line]\<rparr>))))
   \<and> remove_from_cart 1 (init_state\<lparr>cart := [sample_line]\<rparr>) = init_state\<lparr>cart := [sample_line]\<rparr>"
  using remove_from_cart_out_of_range [of 1 "init_state\<lparr>cart := [sample_line]\<rparr>"]
  by simp

text \<open>
  C38. \<open>login\<close> makes the first demo user with the given e-mail current and changes
  nothing else; with an unknown e-mail it changes nothing at all (no \<open>AuthError\<close>).
  \<open>logout\<close> forgets the user and the cart and keeps every order.
\<close>

theorem login_logout_spec:
  "current_user (login em s) =
     (if em \<in> email ` set MOCK_USERS then find (\<lambda>u. email u = em) MOCK_USERS else current_user s)
   \<and> orders (login em s) = orders s \<and> cart (login em s) = cart s
   \<and> current_user (logout s) = None \<and> cart (logout s) = [] \<and> orders (logout s) = orders s"
  by (auto simp: login_def logout_def find_None_iff split: option.splits dest: find_Some_iff [THEN iffD1])

end
