(* ===== verification/Pricing.thy ===== *)
theory Pricing
  imports Catalog
begin

text \<open>
  The pricing computations of \<open>src/views/CustomerApp.tsx\<close>: the unit price of a
  selection built in \<open>handleAddToCart\<close> (line 22), the cart subtotal computed with
  \<open>reduce\<close> (line 15), the flat delivery and service fees (lines 16--17) and the
  order total (line 18). Amounts are whole cents. The code has no separate quantity
  factor: every cart line has quantity 1 and its \<open>totalPrice\<close> is the unit price.
  What these give in the running application, that every stored order is priced from
  the catalogue, is shown in \<open>Integrity\<close>.
\<close>

definition DELIVERY_FEE :: cents where
  "DELIVERY_FEE = 2500"

definition SERVICE_FEE :: cents where
  "SERVICE_FEE = 500"

definition food_subtotal_of :: "cart_item list \<Rightarrow> cents" where
  "food_subtotal_of c = foldl (\<lambda>acc it. acc + total_price it) 0 c"

definition total_order_amount :: "cart_item list \<Rightarrow> cents" where
  "total_order_amount c = food_subtotal_of c + DELIVERY_FEE + SERVICE_FEE"

text \<open>
  \<open>selectedItem.basePrice + (selectedVar?.price || 0) + selectedMods.reduce((a, b) =>
  a + b.price, 0)\<close>.
\<close>

definition final_price ::
  "menu_item \<Rightarrow> menu_item_variation option \<Rightarrow> menu_item_modifier list \<Rightarrow> cents" where
  "final_price it v ms =
     base_price it + (case v of None \<Rightarrow> 0 | Some x \<Rightarrow> var_price x)
     + foldl (\<lambda>a b. a + mod_price b) 0 ms"

text \<open>The variations an item offers, \<open>[]\<close> when the member is absent.\<close>

definition item_variations :: "menu_item \<Rightarrow> menu_item_variation list" where
  "item_variations it = (case variations it of None \<Rightarrow> [] | Some vs \<Rightarrow> vs)"

subsection \<open>Lemmas\<close>

lemma food_subtotal_of_sum_list:
  "food_subtotal_of c = sum_list (map total_price c)"
  by (simp add: food_subtotal_of_def foldl_add_sum_list)

lemma food_subtotal_of_simps [simp]:
  "food_subtotal_of [] = 0"
  "food_subtotal_of (x # c) = total_price x + food_subtotal_of c"
  "food_subtotal_of (c @ d) = food_subtotal_of c + food_subtotal_of d"
  by (simp_all add: food_subtotal_of_sum_list)

lemma final_price_sum_list:
  "final_price it v ms =
     base_price it + (case v of None \<Rightarrow> 0 | Some x \<Rightarrow> var_price x) + sum_list (map mod_price ms)"
  by (simp add: final_price_def foldl_add_sum_list)

lemma fees_nonneg [simp]: "0 \<le> DELIVERY_FEE" "0 \<le> SERVICE_FEE"
  by (simp_all add: DELIVERY_FEE_def SERVICE_FEE_def)

lemma food_subtotal_of_nonneg:
  "\<forall>x \<in> set c. 0 \<le> total_price x \<Longrightarrow> 0 \<le> food_subtotal_of c"
  unfolding food_subtotal_of_sum_list by (rule sum_list_nonneg) auto

lemma final_price_nonneg_gen:
  "0 \<le> base_price it \<Longrightarrow> (\<forall>x. v = Some x \<longrightarrow> 0 \<le> var_price x) \<Longrightarrow> \<forall>m \<in> set ms. 0 \<le> mod_price m
   \<Longrightarrow> 0 \<le> final_price it v ms"
  unfolding final_price_sum_list by (auto split: option.splits intro!: add_nonneg_nonneg sum_list_nonneg)

lemma prices_nonneg_var:
  "prices_nonneg it \<Longrightarrow> v \<in> set (item_variations it) \<Longrightarrow> 0 \<le> var_price v"
  by (auto simp: prices_nonneg_def item_variations_def split: option.splits)

end
