(* ===== verification/Customer.thy ===== *)
theory Customer
  imports Store Pricing
begin

text \<open>
  The customer workflow of \<open>src/views/CustomerApp.tsx\<close>. The component keeps five
  pieces of React state (lines 9--13), modelled as the record \<open>customer_ui\<close>; its two
  handlers \<open>handleAddToCart\<close> and \<open>handlePlaceOrder\<close> read that state and the store
  and call the store's setters, so each is a function from the pair to the new pair.
  The inline handlers of the JSX (choose a restaurant, go back, open and close an item,
  choose a variation, choose a payment method) are one-field updates of the UI state
  and appear as events of the application model in the theory \<open>System\<close>.
  \<open>Math.floor(Math.random() * 90000)\<close> is the parameter \<open>k\<close> of
  \<open>handle_place_order\<close>, and both \<open>new Date()\<close> calls are the one instant \<open>now\<close>.
\<close>

record customer_ui =
  selected_rest :: "restaurant option"
  selected_item :: "menu_item option"
  selected_var :: "menu_item_variation option"
  selected_mods :: "menu_item_modifier list"
  payment_choice :: payment_method

definition customer_ui_init :: customer_ui where
  "customer_ui_init = \<lparr>selected_rest = None, selected_item = None, selected_var = None,
     selected_mods = [], payment_choice = CARD\<rparr>"

text \<open>Decimal rendering of a natural number, as the template literal prints it.\<close>

fun decimal :: "nat \<Rightarrow> string" where
  "decimal n = (if n < 10 then [char_of (48 + n)] else decimal (n div 10) @ [char_of (48 + n mod 10)])"

definition order_number :: "nat \<Rightarrow> ident" where
  "order_number k = ''ORD-'' @ decimal k"

text \<open>\<open>menuItems.filter(m => m.restaurantId === selectedRest.id)\<close> (line 60).\<close>

definition rest_menu :: "restaurant \<Rightarrow> app_state \<Rightarrow> menu_item list" where
  "rest_menu r s = filter (\<lambda>m. item_restaurant_id m = rest_id r) (menu_items s)"

text \<open>The cart line \<open>handleAddToCart\<close> builds (lines 22--30).\<close>

definition cart_line_of ::
  "menu_item \<Rightarrow> menu_item_variation option \<Rightarrow> menu_item_modifier list \<Rightarrow> cart_item" where
  "cart_line_of it v ms =
     \<lparr>ci_menu_item_id = item_id it, ci_name = item_name it, quantity = 1,
      ci_variation = v, ci_modifiers = Some ms, total_price = final_price it v ms\<rparr>"

definition handle_add_to_cart :: "customer_ui \<times> app_state \<Rightarrow> customer_ui \<times> app_state" where
  "handle_add_to_cart us =
     (let (u, s) = us in
      case selected_item u of
        None \<Rightarrow> (u, s)
      | Some it \<Rightarrow>
          (u\<lparr>selected_item := None, selected_var := None, selected_mods := []\<rparr>,
           add_to_cart (cart_line_of it (selected_var u) (selected_mods u)) s))"

text \<open>The order \<open>handlePlaceOrder\<close> builds (lines 39--54).\<close>

definition new_order :: "nat \<Rightarrow> timestamp \<Rightarrow> customer_ui \<Rightarrow> app_state \<Rightarrow> order" where
  "new_order k now u s =
     \<lparr>order_id = order_number k,
      customer_id = js_or_empty (map_option user_id (current_user s)),
      restaurant_id = map_option rest_id (selected_rest u),
      driver_id = None,
      items = Some (cart s),
      pickup_address = js_or_empty (map_option address (selected_rest u)),
      dropoff_address = ''House 4242, Orlando West, Soweto'',
      status = PENDING,
      payment = payment_choice u,
      food_subtotal = food_subtotal_of (cart s),
      delivery_fee = DELIVERY_FEE,
      service_fee = SERVICE_FEE,
      total_fee = total_order_amount (cart s),
      created_at = now,
      updated_at = now\<rparr>"

definition handle_place_order ::
  "nat \<Rightarrow> timestamp \<Rightarrow> customer_ui \<times> app_state \<Rightarrow> customer_ui \<times> app_state" where
  "handle_place_order k now us =
     (let (u, s) = us in
      if cart s = [] then (u, s)
      else (u\<lparr>selected_rest := None\<rparr>, place_order (new_order k now u s) s))"

text \<open>
  Reading a decimal numeral back: the inverse of the template literal, used to state
  that order numbers determine the random draw they were printed from.
\<close>

definition undecimal :: "string \<Rightarrow> nat" where
  "undecimal cs = foldl (\<lambda>acc c. acc * 10 + (of_char c - 48)) 0 cs"

declare decimal.simps [simp del]

subsection \<open>Lemmas\<close>

lemma decimal_nonempty: "decimal n \<noteq> []"
  by (subst decimal.simps) simp

lemma handle_place_order_nonempty [store_simps]:
  "cart s \<noteq> [] \<Longrightarrow>
   handle_place_order k now (u, s) =
     (u\<lparr>selected_rest := None\<rparr>, s\<lparr>orders := new_order k now u s # orders s, cart := []\<rparr>)"
  by (simp add: handle_place_order_def place_order_def)

lemma handle_add_to_cart_Some [store_simps]:
  "selected_item u = Some it \<Longrightarrow>
   handle_add_to_cart (u, s) =
     (u\<lparr>selected_item := None, selected_var := None, selected_mods := []\<rparr>,
      s\<lparr>cart := cart s @ [cart_line_of it (selected_var u) (selected_mods u)]\<rparr>)"
  by (simp add: handle_add_to_cart_def add_to_cart_def)

lemma new_order_fields [simp]:
  "order_id (new_order k now u s) = order_number k"
  "status (new_order k now u s) = PENDING"
  "driver_id (new_order k now u s) = None"
  "restaurant_id (new_order k now u s) = map_option rest_id (selected_rest u)"
  "items (new_order k now u s) = Some (cart s)"
  "food_subtotal (new_order k now u s) = food_subtotal_of (cart s)"
  "delivery_fee (new_order k now u s) = DELIVERY_FEE"
  "service_fee (new_order k now u s) = SERVICE_FEE"
  "total_fee (new_order k now u s) = total_order_amount (cart s)"
  "created_at (new_order k now u s) = now"
  "updated_at (new_order k now u s) = now"
  "customer_id (new_order k now u s) = js_or_empty (map_option user_id (current_user s))"
  by (simp_all add: new_order_def)

lemma undecimal_snoc [simp]: "undecimal (cs @ [c]) = undecimal cs * 10 + (of_char c - 48)"
  by (simp add: undecimal_def)

lemma undecimal_digit [simp]: "d < 10 \<Longrightarrow> of_char (char_of (48 + d)) - 48 = (d::nat)"
  by simp

lemma undecimal_decimal [simp]: "undecimal (decimal n) = n"
proof (induction n rule: decimal.induct)
  case (1 n)
  show ?case
  proof (cases "n < 10")
    case True
    then show ?thesis by (subst decimal.simps) (simp add: undecimal_def)
  next
    case False
    with "1.IH" have "undecimal (decimal (n div 10)) = n div 10" by simp
    with False show ?thesis by (subst decimal.simps) simp
  qed
qed

lemma decimal_digits: "c \<in> set (decimal n) \<Longrightarrow> \<exists>d < (10::nat). c = char_of (48 + d)"
proof (induction n rule: decimal.induct)
  case (1 n)
  show ?case
  proof (cases "n < 10")
    case True
    with "1.prems" have "c = char_of (48 + n)" by (subst (asm) decimal.simps) simp
    with True show ?thesis by blast
  next
    case False
    with "1.prems" have "c \<in> set (decimal (n div 10)) \<or> c = char_of (48 + n mod 10)"
      by (subst (asm) decimal.simps) auto
    moreover have "n mod 10 < (10::nat)" by simp
    ultimately show ?thesis using "1.IH" False by blast
  qed
qed

subsection \<open>Properties\<close>

text \<open>
  C33. Round trip of the order number: reading back the digits of \<open>ORD-k\<close> gives
  \<open>k\<close>, so two orders get the same identifier exactly when the two random draws
  \<open>Math.floor(Math.random() * 90000)\<close> are equal.
\<close>

theorem order_number_roundtrip:
  "undecimal (decimal k) = k \<and> (order_number k = order_number k' \<longleftrightarrow> k = k')"
proof -
  note rt = undecimal_decimal
  have "order_number k = order_number k' \<Longrightarrow> k = k'"
    by (metis rt order_number_def same_append_eq)
  with rt show ?thesis by auto
qed

text \<open>
  C13. \<open>handlePlaceOrder\<close> on a non-empty cart is one atomic update: the new order is put
  in front of the order list, the cart is emptied in the same \<open>set\<close>, the order is
  \<open>PENDING\<close> with no driver, carries the cart lines, and its money fields satisfy
  \<open>totalFee = foodSubtotal + deliveryFee + serviceFee\<close> with the subtotal the sum of
  the lines and the flat fees 25.00 and 5.00.
\<close>

theorem handle_place_order_checkout:
  assumes "cart s \<noteq> []"
    and "handle_place_order k now (u, s) = (u', s')"
  shows "orders s' = new_order k now u s # orders s \<and> cart s' = []
    \<and> current_user s' = current_user s \<and> selected_rest u' = None
    \<and> status (hd (orders s')) = PENDING \<and> driver_id (hd (orders s')) = None
    \<and> items (hd (orders s')) = Some (cart s)
    \<and> food_subtotal (hd (orders s')) = sum_list (map total_price (cart s))
    \<and> delivery_fee (hd (orders s')) = 2500 \<and> service_fee (hd (orders s')) = 500
    \<and> total_fee (hd (orders s')) =
        food_subtotal (hd (orders s')) + delivery_fee (hd (orders s')) + service_fee (hd (orders s'))"
  using assms
  by (auto simp: handle_place_order_nonempty total_order_amount_def food_subtotal_of_sum_list
      DELIVERY_FEE_def SERVICE_FEE_def)

theorem handle_place_order_checkout_witness:
  "cart (init_state\<lparr>cart := [sample_line]\<rparr>) \<noteq> []
   \<and> handle_place_order 42 7 (customer_ui_init, init_state\<lparr>cart := [sample_line]\<rparr>)
       = (customer_ui_init, init_state\<lparr>orders := [new_order 42 7 customer_ui_init (init_state\<lparr>cart := [sample_line]\<rparr>)]\<rparr>)
   \<and> total_fee (new_order 42 7 customer_ui_init (init_state\<lparr>cart := [sample_line]\<rparr>)) = 7500"
proof -
  have c: "cart (init_state\<lparr>cart := [sample_line]\<rparr>) \<noteq> []" by simp
  have e: "handle_place_order 42 7 (customer_ui_init, init_state\<lparr>cart := [sample_line]\<rparr>)
       = (customer_ui_init, init_state\<lparr>orders := [new_order 42 7 customer_ui_init (init_state\<lparr>cart := [sample_line]\<rparr>)]\<rparr>)"
    by (simp add: handle_place_order_nonempty customer_ui_init_def init_state_def)
  from handle_place_order_checkout [OF c e] have
    "total_fee (hd (orders (init_state\<lparr>orders := [new_order 42 7 customer_ui_init (init_state\<lparr>cart := [sample_line]\<rparr>)]\<rparr>))) =
     sum_list (map total_price [sample_line]) + 2500 + 500"
    by simp
  with c e show ?thesis by (simp add: sample_line_def)
qed

text \<open>
  C31. \<open>handlePlaceOrder\<close> on an empty cart returns without any effect: no order is
  created and no \<open>EmptyCartError\<close> is raised, the order set is unchanged.
\<close>

theorem handle_place_order_empty_cart:
  assumes "cart s = []"
  shows "handle_place_order k now (u, s) = (u, s)"
  using assms by (simp add: handle_place_order_def)

theorem handle_place_order_empty_cart_witness:
  "cart init_state = [] \<and> handle_place_order 5 1 (customer_ui_init, init_state) = (customer_ui_init, init_state)"
  using handle_place_order_empty_cart [of init_state 5 1 customer_ui_init] by (simp add: init_state_def)

text \<open>
  C32. \<open>handleAddToCart\<close> with an item open appends exactly one line priced
  \<open>basePrice + variation price + modifier prices\<close>, of quantity 1, and clears the
  selection; it checks neither the item's availability nor that the variation belongs
  to the item.
\<close>

theorem handle_add_to_cart_appends:
  assumes "selected_item u = Some it"
    and "handle_add_to_cart (u, s) = (u', s')"
  shows "cart s' = cart s @ [cart_line_of it (selected_var u) (selected_mods u)]
    \<and> total_price (last (cart s')) =
        base_price it + (case selected_var u of None \<Rightarrow> 0 | Some v \<Rightarrow> var_price v)
        + sum_list (map mod_price (selected_mods u))
    \<and> quantity (last (cart s')) = 1
    \<and> selected_item u' = None \<and> selected_var u' = None \<and> selected_mods u' = []
    \<and> orders s' = orders s"
  using assms
  by (auto simp: handle_add_to_cart_Some cart_line_of_def final_price_sum_list)

theorem handle_add_to_cart_appends_witness:
  "selected_item (customer_ui_init\<lparr>selected_item := Some (hd MOCK_MENU_ITEMS)\<rparr>) = Some (hd MOCK_MENU_ITEMS)
   \<and> handle_add_to_cart (customer_ui_init\<lparr>selected_item := Some (hd MOCK_MENU_ITEMS)\<rparr>, init_state)
       = (customer_ui_init, init_state\<lparr>cart := [cart_line_of (hd MOCK_MENU_ITEMS) None []]\<rparr>)
   \<and> total_price (last (cart (init_state\<lparr>cart := [cart_line_of (hd MOCK_MENU_ITEMS) None []]\<rparr>))) = 4500"
proof -
  have h: "selected_item (customer_ui_init\<lparr>selected_item := Some (hd MOCK_MENU_ITEMS)\<rparr>) = Some (hd MOCK_MENU_ITEMS)"
    by simp
  have e: "handle_add_to_cart (customer_ui_init\<lparr>selected_item := Some (hd MOCK_MENU_ITEMS)\<rparr>, init_state)
       = (customer_ui_init, init_state\<lparr>cart := [cart_line_of (hd MOCK_MENU_ITEMS) None []]\<rparr>)"
    by (simp add: handle_add_to_cart_Some customer_ui_init_def init_state_def)
  from handle_add_to_cart_appends [OF h e] have
    "total_price (last (cart (init_state\<lparr>cart := [cart_line_of (hd MOCK_MENU_ITEMS) None []]\<rparr>))) =
       base_price (hd MOCK_MENU_ITEMS)"
    by (simp add: customer_ui_init_def)
  with h e show ?thesis by (simp add: MOCK_MENU_ITEMS_def)
qed

end
