(* ===== verification/Lifecycle.thy ===== *)
theory Lifecycle
  imports Store
begin

text \<open>
  The order lifecycle as the code has it. There is no transition engine: the store's
  \<open>updateOrderStatus\<close> writes any status, and the only guards are the lists the two
  working views render, each with buttons that call the setter.
  \<^item> \<open>src/views/RestaurantAdminDashboard.tsx\<close>: the admin's restaurant is the first one
    they own (line 12), their orders the ones with its identifier (line 14); pending
    orders get Decline / Accept buttons (lines 77--78), accepted, preparing and ready
    ones get Prep / Ready buttons (lines 103--104).
  \<^item> \<open>src/views/DriverApp.tsx\<close>: ready orders and pending orders without a restaurant
    are offered for acceptance (lines 11, 133); the driver's own undelivered orders get
    one button that advances them (lines 12, 18--25, 95).
  A click is a pair of an action and the rendered order it belongs to; the click is
  offered when the order is in the list the view renders for that action, and its
  effect is the handler's call of the setter. \<open>ui_edge\<close> collects the status changes
  these buttons can make; \<open>spec_edge\<close> is the transition table of the specification
  (section 4.2), which no code implements.
\<close>

subsection \<open>Driver view\<close>

definition available_orders :: "order list \<Rightarrow> order list" where
  "available_orders os =
     filter (\<lambda>od. status od = READY_FOR_PICKUP \<or> (status od = PENDING \<and> \<not> js_truthy (restaurant_id od))) os"

definition my_active_orders :: "user option \<Rightarrow> order list \<Rightarrow> order list" where
  "my_active_orders cu os =
     filter (\<lambda>od. driver_id od = map_option user_id cu \<and> status od \<noteq> DELIVERED) os"

definition handle_accept :: "ident \<Rightarrow> timestamp \<Rightarrow> app_state \<Rightarrow> app_state" where
  "handle_accept oid now s = update_order_status oid ACCEPTED (map_option user_id (current_user s)) now s"

fun next_status :: "order_status \<Rightarrow> order_status" where
  "next_status ACCEPTED = PICKED_UP"
| "next_status PICKED_UP = IN_TRANSIT"
| "next_status IN_TRANSIT = DELIVERED"
| "next_status st = st"

definition handle_status_update :: "ident \<Rightarrow> order_status \<Rightarrow> timestamp \<Rightarrow> app_state \<Rightarrow> app_state" where
  "handle_status_update oid cur now s = update_order_status oid (next_status cur) None now s"

datatype driver_action = DrvAccept | DrvAdvance

fun driver_offers :: "driver_action \<Rightarrow> order \<Rightarrow> app_state \<Rightarrow> bool" where
  "driver_offers DrvAccept od s = (od \<in> set (available_orders (orders s)))"
| "driver_offers DrvAdvance od s = (od \<in> set (my_active_orders (current_user s) (orders s)))"

fun driver_click :: "driver_action \<Rightarrow> order \<Rightarrow> timestamp \<Rightarrow> app_state \<Rightarrow> app_state" where
  "driver_click DrvAccept od now s = handle_accept (order_id od) now s"
| "driver_click DrvAdvance od now s = handle_status_update (order_id od) (status od) now s"

text \<open>The status a driver click writes: \<open>ACCEPTED\<close> (line 15) or the next status of the
  order as rendered (lines 19--24).\<close>

fun driver_target :: "driver_action \<Rightarrow> order \<Rightarrow> order_status" where
  "driver_target DrvAccept od = ACCEPTED"
| "driver_target DrvAdvance od = next_status (status od)"

subsection \<open>Restaurant admin view\<close>

definition my_rest :: "app_state \<Rightarrow> restaurant option" where
  "my_rest s = find (\<lambda>r. Some (owner_id r) = map_option user_id (current_user s)) (restaurants s)"

definition my_orders :: "app_state \<Rightarrow> order list" where
  "my_orders s = filter (\<lambda>od. restaurant_id od = map_option rest_id (my_rest s)) (orders s)"

definition pending_orders :: "app_state \<Rightarrow> order list" where
  "pending_orders s = filter (\<lambda>od. status od = PENDING) (my_orders s)"

definition active_orders :: "app_state \<Rightarrow> order list" where
  "active_orders s =
     filter (\<lambda>od. status od \<in> set [RESTAURANT_ACCEPTED, PREPARING, READY_FOR_PICKUP]) (my_orders s)"

datatype restaurant_action = RDecline | RAccept | RPrep | RReady

fun restaurant_target :: "restaurant_action \<Rightarrow> order_status" where
  "restaurant_target RDecline = CANCELLED"
| "restaurant_target RAccept = RESTAURANT_ACCEPTED"
| "restaurant_target RPrep = PREPARING"
| "restaurant_target RReady = READY_FOR_PICKUP"

fun restaurant_offers :: "restaurant_action \<Rightarrow> order \<Rightarrow> app_state \<Rightarrow> bool" where
  "restaurant_offers RDecline od s = (od \<in> set (pending_orders s))"
| "restaurant_offers RAccept od s = (od \<in> set (pending_orders s))"
| "restaurant_offers RPrep od s = (od \<in> set (active_orders s))"
| "restaurant_offers RReady od s = (od \<in> set (active_orders s))"

definition restaurant_click :: "restaurant_action \<Rightarrow> order \<Rightarrow> timestamp \<Rightarrow> app_state \<Rightarrow> app_state" where
  "restaurant_click a od now s = update_order_status (order_id od) (restaurant_target a) None now s"

subsection \<open>Transition tables\<close>

text \<open>The status changes the buttons of the two views can make.\<close>

fun ui_edge :: "order_status \<Rightarrow> order_status \<Rightarrow> bool" where
  "ui_edge PENDING t = (t \<in> {RESTAURANT_ACCEPTED, CANCELLED, ACCEPTED})"
| "ui_edge RESTAURANT_ACCEPTED t = (t \<in> {PREPARING, READY_FOR_PICKUP})"
| "ui_edge PREPARING t = (t \<in> {PREPARING, READY_FOR_PICKUP})"
| "ui_edge READY_FOR_PICKUP t = (t \<in> {PREPARING, READY_FOR_PICKUP, ACCEPTED})"
| "ui_edge ACCEPTED t = (t = PICKED_UP)"
| "ui_edge PICKED_UP t = (t = IN_TRANSIT)"
| "ui_edge IN_TRANSIT t = (t = DELIVERED)"
| "ui_edge DELIVERED t = False"
| "ui_edge CANCELLED t = False"

text \<open>The legal transitions of the specification's table (section 4.2).\<close>

fun spec_edge :: "order_status \<Rightarrow> order_status \<Rightarrow> bool" where
  "spec_edge PENDING t = (t \<in> {RESTAURANT_ACCEPTED, CANCELLED, ACCEPTED})"
| "spec_edge RESTAURANT_ACCEPTED t = (t \<in> {PREPARING, CANCELLED})"
| "spec_edge PREPARING t = (t = READY_FOR_PICKUP)"
| "spec_edge READY_FOR_PICKUP t = (t = ACCEPTED)"
| "spec_edge ACCEPTED t = (t = PICKED_UP)"
| "spec_edge PICKED_UP t = (t = IN_TRANSIT)"
| "spec_edge IN_TRANSIT t = (t = DELIVERED)"
| "spec_edge DELIVERED t = False"
| "spec_edge CANCELLED t = False"

subsection \<open>The per-order invariant\<close>

text \<open>
  What every order of the store satisfies in the states the application reaches: the
  money fields agree with the lines (\<open>totalFee = foodSubtotal + deliveryFee +
  serviceFee\<close>, all non-negative), the update time is not before the creation time,
  and a driver is recorded exactly in the statuses a driver is responsible for.
\<close>

definition order_ok :: "order \<Rightarrow> bool" where
  "order_ok od \<longleftrightarrow>
     total_fee od = food_subtotal od + delivery_fee od + service_fee od
     \<and> 0 \<le> food_subtotal od \<and> 0 \<le> delivery_fee od \<and> 0 \<le> service_fee od
     \<and> created_at od \<le> updated_at od
     \<and> (driver_id od \<noteq> None \<longleftrightarrow> driver_phase (status od))"

definition orders_ok :: "order list \<Rightarrow> bool" where
  "orders_ok os \<longleftrightarrow> distinct (map order_id os) \<and> (\<forall>od \<in> set os. order_ok od)"

text \<open>Example states for the witnesses: the Kota King admin and the driver logged in.\<close>

definition admin_state :: app_state where
  "admin_state = init_state\<lparr>current_user := Some (MOCK_USERS ! 1), orders := [sample_order]\<rparr>"

definition driver_state :: app_state where
  "driver_state = init_state\<lparr>current_user := Some (MOCK_USERS ! 2),
     orders := [sample_order\<lparr>status := READY_FOR_PICKUP\<rparr>]\<rparr>"

subsection \<open>Lemmas\<close>

lemma order_ok_set_order_status:
  assumes "order_ok od" and "created_at od \<le> now"
    and "driver_phase st \<longleftrightarrow> (if js_truthy d then d \<noteq> None else driver_id od \<noteq> None)"
  shows "order_ok (set_order_status st d now od)"
  using assms by (simp add: order_ok_def)

text \<open>
  With distinct identifiers, a click on a rendered order updates that order and no
  other: the shape every preservation proof below starts from.
\<close>

lemma orders_ok_update_one:
  assumes ok: "orders_ok (orders s)" and mem: "od \<in> set (orders s)"
    and now: "created_at od \<le> now"
    and drv: "driver_phase st \<longleftrightarrow> (if js_truthy d then d \<noteq> None else driver_id od \<noteq> None)"
  shows "orders_ok (orders (update_order_status (order_id od) st d now s))"
proof -
  have dist: "distinct (map order_id (orders s))" using ok by (simp add: orders_ok_def)
  have eq: "orders (update_order_status (order_id od) st d now s) =
      map (\<lambda>x. if x = od then set_order_status st d now x else x) (orders s)"
    using dist mem by (simp add: update_order_status_def map_where_order_id_distinct)
  have "order_ok od" using ok mem by (simp add: orders_ok_def)
  then have "order_ok (set_order_status st d now od)"
    using now drv by (rule order_ok_set_order_status)
  moreover have "map order_id (orders (update_order_status (order_id od) st d now s)) = map order_id (orders s)"
    by (simp add: update_order_status_def)
  ultimately show ?thesis
    using ok mem by (auto simp: orders_ok_def eq set_map_update_one simp del: map_map)
qed

lemma restaurant_offers_status:
  "restaurant_offers a od s \<Longrightarrow>
     od \<in> set (orders s) \<and> restaurant_id od = map_option rest_id (my_rest s)
     \<and> (a \<in> {RDecline, RAccept} \<longrightarrow> status od = PENDING)
     \<and> (a \<in> {RPrep, RReady} \<longrightarrow> status od \<in> {RESTAURANT_ACCEPTED, PREPARING, READY_FOR_PICKUP})"
  by (cases a) (auto simp: pending_orders_def active_orders_def my_orders_def)

lemma driver_offers_status:
  "driver_offers a od s \<Longrightarrow>
     od \<in> set (orders s)
     \<and> (a = DrvAccept \<longrightarrow> status od = READY_FOR_PICKUP \<or> (status od = PENDING \<and> \<not> js_truthy (restaurant_id od)))
     \<and> (a = DrvAdvance \<longrightarrow> driver_id od = map_option user_id (current_user s) \<and> status od \<noteq> DELIVERED)"
  by (cases a) (auto simp: available_orders_def my_active_orders_def)

lemma driver_phase_next_status:
  "driver_phase st \<Longrightarrow> st \<noteq> DELIVERED \<Longrightarrow> driver_phase (next_status st) \<and> ui_edge st (next_status st)"
  by (cases st) auto

lemmas click_simps = restaurant_click_def handle_accept_def handle_status_update_def

lemma kota_admin_offers:
  "restaurant_offers act (sample_order\<lparr>status := a\<rparr>) (admin_state\<lparr>orders := [sample_order\<lparr>status := a\<rparr>]\<rparr>)
   \<longleftrightarrow> (act \<in> {RDecline, RAccept} \<and> a = PENDING)
       \<or> (act \<in> {RPrep, RReady} \<and> a \<in> {RESTAURANT_ACCEPTED, PREPARING, READY_FOR_PICKUP})"
  by (cases act) (auto simp: admin_state_def init_state_def pending_orders_def active_orders_def my_orders_def
      my_rest_def MOCK_USERS_def MOCK_RESTAURANTS_def sample_order_def)

lemma restaurant_edge_realised:
  assumes "(a = PENDING \<and> b \<in> {RESTAURANT_ACCEPTED, CANCELLED})
    \<or> (a \<in> {RESTAURANT_ACCEPTED, PREPARING, READY_FOR_PICKUP} \<and> b \<in> {PREPARING, READY_FOR_PICKUP})"
  shows "\<exists>s od act. restaurant_offers act od s \<and> status od = a \<and> restaurant_target act = b"
proof (intro exI conjI)
  let ?act = "case b of CANCELLED \<Rightarrow> RDecline | RESTAURANT_ACCEPTED \<Rightarrow> RAccept | PREPARING \<Rightarrow> RPrep | _ \<Rightarrow> RReady"
  show "restaurant_offers ?act (sample_order\<lparr>status := a\<rparr>) (admin_state\<lparr>orders := [sample_order\<lparr>status := a\<rparr>]\<rparr>)"
    using assms by (cases b) (auto simp: kota_admin_offers)
  show "status (sample_order\<lparr>status := a\<rparr>) = a" by simp
  show "restaurant_target ?act = b" using assms by (cases b) auto
qed

lemma driver_edge_realised:
  assumes "(b = ACCEPTED \<and> a \<in> {READY_FOR_PICKUP, PENDING}) \<or> (driver_phase a \<and> a \<noteq> DELIVERED \<and> b = next_status a)"
  shows "\<exists>s od act. order_ok od \<and> current_user s \<noteq> None \<and> driver_offers act od s \<and> status od = a
           \<and> driver_target act od = b"
  using assms
proof (elim disjE conjE)
  assume b: "b = ACCEPTED" and a: "a \<in> {READY_FOR_PICKUP, PENDING}"
  let ?od = "sample_order\<lparr>status := a, restaurant_id := None\<rparr>"
  have "order_ok ?od \<and> current_user (driver_state\<lparr>orders := [?od]\<rparr>) \<noteq> None
      \<and> driver_offers DrvAccept ?od (driver_state\<lparr>orders := [?od]\<rparr>) \<and> status ?od = a \<and> driver_target DrvAccept ?od = b"
    using a b by (auto simp: order_ok_def sample_order_def driver_state_def available_orders_def)
  then show ?thesis by blast
next
  assume a: "driver_phase a" "a \<noteq> DELIVERED" and b: "b = next_status a"
  let ?od = "sample_order\<lparr>status := a, driver_id := Some ''3''\<rparr>"
  have "order_ok ?od \<and> current_user (driver_state\<lparr>orders := [?od]\<rparr>) \<noteq> None
      \<and> driver_offers DrvAdvance ?od (driver_state\<lparr>orders := [?od]\<rparr>) \<and> status ?od = a
      \<and> driver_target DrvAdvance ?od = b"
    using a b by (simp add: order_ok_def sample_order_def driver_state_def my_active_orders_def MOCK_USERS_def)
  then show ?thesis by blast
qed

subsection \<open>Properties\<close>

text \<open>
  C17. Every click the restaurant admin view offers keeps the order invariant: with
  distinct identifiers it changes only the clicked order, to a status without a driver.
\<close>

theorem restaurant_click_preserves_orders_ok:
  assumes "orders_ok (orders s)" and "restaurant_offers a od s"
    and "\<forall>x \<in> set (orders s). created_at x \<le> now"
  shows "orders_ok (orders (restaurant_click a od now s))"
proof -
  from restaurant_offers_status [OF assms(2)] have mem: "od \<in> set (orders s)"
    and st: "status od \<in> {PENDING, RESTAURANT_ACCEPTED, PREPARING, READY_FOR_PICKUP}"
    by (cases a; auto)+
  have "order_ok od" using assms(1) mem by (simp add: orders_ok_def)
  then have "driver_id od = None" using st by (auto simp: order_ok_def)
  moreover have "\<not> driver_phase (restaurant_target a)" by (cases a) auto
  ultimately show ?thesis
    using assms(1,3) mem
    by (auto simp: restaurant_click_def intro!: orders_ok_update_one)
qed

text \<open>
  C18. Every click the driver view offers keeps the order invariant, for a logged-in
  driver with a non-empty identifier: accepting records the driver, advancing keeps
  the order with its driver and moves it one step along the delivery chain.
\<close>

theorem driver_click_preserves_orders_ok:
  assumes "orders_ok (orders s)" and "driver_offers a od s"
    and "current_user s = Some u" and "user_id u \<noteq> []"
    and "\<forall>x \<in> set (orders s). created_at x \<le> now"
  shows "orders_ok (orders (driver_click a od now s))"
proof -
  from driver_offers_status [OF assms(2)] have mem: "od \<in> set (orders s)" by simp
  have ok: "order_ok od" using assms(1) mem by (simp add: orders_ok_def)
  have now: "created_at od \<le> now" using assms(5) mem by simp
  show ?thesis
  proof (cases a)
    case DrvAccept
    with driver_offers_status [OF assms(2)] ok have "driver_id od = None"
      by (auto simp: order_ok_def)
    with DrvAccept show ?thesis
      using assms(1,3,4) mem now by (auto simp: handle_accept_def intro!: orders_ok_update_one)
  next
    case DrvAdvance
    with driver_offers_status [OF assms(2)] assms(3)
    have "driver_id od = Some (user_id u)" and "status od \<noteq> DELIVERED" by auto
    with ok have "driver_phase (status od)" by (simp add: order_ok_def)
    with \<open>status od \<noteq> DELIVERED\<close> have "driver_phase (next_status (status od))"
      using driver_phase_next_status by blast
    with DrvAdvance \<open>driver_id od = Some (user_id u)\<close> show ?thesis
      using assms(1) mem now by (auto simp: handle_status_update_def intro!: orders_ok_update_one)
  qed
qed

theorem restaurant_click_preserves_orders_ok_witness:
  "orders_ok (orders admin_state) \<and> restaurant_offers RAccept sample_order admin_state
   \<and> list_all (\<lambda>x. created_at x \<le> 3) (orders admin_state)
   \<and> orders_ok (orders (restaurant_click RAccept sample_order 3 admin_state))"
proof -
  have h1: "orders_ok (orders admin_state)"
    by (simp add: admin_state_def init_state_def orders_ok_def order_ok_def sample_order_def)
  have h2: "restaurant_offers RAccept sample_order admin_state"
    by (simp add: admin_state_def init_state_def pending_orders_def my_orders_def my_rest_def
        MOCK_USERS_def MOCK_RESTAURANTS_def sample_order_def)
  have h3: "\<forall>x \<in> set (orders admin_state). created_at x \<le> 3"
    by (simp add: admin_state_def init_state_def sample_order_def)
  show ?thesis using h1 h2 h3 restaurant_click_preserves_orders_ok [OF h1 h2 h3] by (simp add: list_all_iff)
qed

theorem driver_click_preserves_orders_ok_witness:
  "orders_ok (orders driver_state) \<and> driver_offers DrvAccept (sample_order\<lparr>status := READY_FOR_PICKUP\<rparr>) driver_state
   \<and> current_user driver_state = Some (MOCK_USERS ! 2) \<and> user_id (MOCK_USERS ! 2) \<noteq> []
   \<and> list_all (\<lambda>x. created_at x \<le> 3) (orders driver_state)
   \<and> orders_ok (orders (driver_click DrvAccept (sample_order\<lparr>status := READY_FOR_PICKUP\<rparr>) 3 driver_state))"
proof -
  have h1: "orders_ok (orders driver_state)"
    by (simp add: driver_state_def init_state_def orders_ok_def order_ok_def sample_order_def)
  have h2: "driver_offers DrvAccept (sample_order\<lparr>status := READY_FOR_PICKUP\<rparr>) driver_state"
    by (simp add: driver_state_def init_state_def available_orders_def)
  have h3: "current_user driver_state = Some (MOCK_USERS ! 2)" by (simp add: driver_state_def)
  have h4: "user_id (MOCK_USERS ! 2) \<noteq> []" by (simp add: MOCK_USERS_def)
  have h5: "\<forall>x \<in> set (orders driver_state). created_at x \<le> 3"
    by (simp add: driver_state_def init_state_def sample_order_def)
  show ?thesis using h1 h2 h3 h4 h5 driver_click_preserves_orders_ok [OF h1 h2 h3 h4 h5] by (simp add: list_all_iff)
qed

text \<open>
  C19. Every click either view offers changes the clicked order only, and only along
  \<open>ui_edge\<close>: the restaurant buttons write their fixed target, accepting writes
  \<open>ACCEPTED\<close> from a ready or restaurant-less pending order, advancing moves a
  driver-phase order one step along the delivery chain.
\<close>

theorem offered_clicks_follow_ui_edge:
  assumes ok: "orders_ok (orders s)" and cu: "current_user s = Some u"
  shows "(restaurant_offers a od s \<longrightarrow>
            orders (restaurant_click a od now s)
              = map (\<lambda>x. if x = od then set_order_status (restaurant_target a) None now x else x) (orders s)
            \<and> ui_edge (status od) (restaurant_target a))
       \<and> (driver_offers b od s \<longrightarrow>
            (\<exists>d. orders (driver_click b od now s)
                   = map (\<lambda>x. if x = od then set_order_status (case b of DrvAccept \<Rightarrow> ACCEPTED
                                 | DrvAdvance \<Rightarrow> next_status (status od)) d now x else x) (orders s))
            \<and> ui_edge (status od) (case b of DrvAccept \<Rightarrow> ACCEPTED | DrvAdvance \<Rightarrow> next_status (status od)))"
proof (intro conjI impI)
  have dist: "distinct (map order_id (orders s))" using ok by (simp add: orders_ok_def)
  {
    assume r: "restaurant_offers a od s"
    from restaurant_offers_status [OF r] have mem: "od \<in> set (orders s)" by simp
    show "orders (restaurant_click a od now s)
        = map (\<lambda>x. if x = od then set_order_status (restaurant_target a) None now x else x) (orders s)"
      using dist mem by (simp add: restaurant_click_def update_order_status_def map_where_order_id_distinct)
    show "ui_edge (status od) (restaurant_target a)"
      using restaurant_offers_status [OF r] by (cases a) auto
  next
    assume d: "driver_offers b od s"
    from driver_offers_status [OF d] have mem: "od \<in> set (orders s)" by simp
    show "\<exists>d. orders (driver_click b od now s)
          = map (\<lambda>x. if x = od then set_order_status (case b of DrvAccept \<Rightarrow> ACCEPTED
                  | DrvAdvance \<Rightarrow> next_status (status od)) d now x else x) (orders s)"
      using dist mem by (cases b) (auto simp: click_simps update_order_status_def map_where_order_id_distinct)
    have "order_ok od" using ok mem by (simp add: orders_ok_def)
    then show "ui_edge (status od) (case b of DrvAccept \<Rightarrow> ACCEPTED | DrvAdvance \<Rightarrow> next_status (status od))"
      using driver_offers_status [OF d] cu driver_phase_next_status
      by (cases b) (auto simp: order_ok_def)
  }
qed

theorem offered_clicks_follow_ui_edge_witness:
  "orders_ok (orders admin_state) \<and> current_user admin_state = Some (MOCK_USERS ! 1)
   \<and> restaurant_offers RDecline sample_order admin_state
   \<and> ui_edge (status sample_order) (restaurant_target RDecline)"
proof -
  have h1: "orders_ok (orders admin_state)"
    by (simp add: admin_state_def init_state_def orders_ok_def order_ok_def sample_order_def)
  have h2: "current_user admin_state = Some (MOCK_USERS ! 1)" by (simp add: admin_state_def)
  have h3: "restaurant_offers RDecline sample_order admin_state"
    by (simp add: admin_state_def init_state_def pending_orders_def my_orders_def my_rest_def
        MOCK_USERS_def MOCK_RESTAURANTS_def sample_order_def)
  from offered_clicks_follow_ui_edge [OF h1 h2, of RDecline sample_order 4 DrvAccept] h3
  have "ui_edge (status sample_order) (restaurant_target RDecline)" by blast
  with h1 h2 h3 show ?thesis by simp
qed

text \<open>
  C20. The status changes the offered buttons make are exactly \<open>ui_edge\<close>, and they
  differ from the specification's transition table. A change from \<open>a\<close> to \<open>b\<close> is made
  by some offered click (a restaurant button on an order of its list, or a driver
  button on a well-formed order of its lists with a driver logged in) if and only if
  \<open>ui_edge a b\<close>. Compared with the table, the buttons make four changes it forbids (a
  restaurant can jump from accepted straight to ready, send a ready order back to
  preparing, and re-press Prep or Ready), and no button makes one it allows
  (cancelling an order the restaurant has accepted).
\<close>

theorem offered_clicks_vs_spec_edge:
  "(((\<exists>s od act. restaurant_offers act od s \<and> status od = a \<and> restaurant_target act = b)
     \<or> (\<exists>s od act. order_ok od \<and> current_user s \<noteq> None \<and> driver_offers act od s \<and> status od = a
                    \<and> driver_target act od = b))
      \<longleftrightarrow> ui_edge a b)
   \<and> (spec_edge a b \<and> \<not> ui_edge a b \<longleftrightarrow> (a, b) = (RESTAURANT_ACCEPTED, CANCELLED))
   \<and> (ui_edge a b \<and> \<not> spec_edge a b \<longleftrightarrow>
        (a, b) \<in> {(RESTAURANT_ACCEPTED, READY_FOR_PICKUP), (PREPARING, PREPARING),
                   (READY_FOR_PICKUP, PREPARING), (READY_FOR_PICKUP, READY_FOR_PICKUP)})"
proof (intro conjI)
  let ?R = "\<exists>s od act. restaurant_offers act od s \<and> status od = a \<and> restaurant_target act = b"
  let ?D = "\<exists>s od act. order_ok od \<and> current_user s \<noteq> None \<and> driver_offers act od s \<and> status od = a
                    \<and> driver_target act od = b"
  show "?R \<or> ?D \<longleftrightarrow> ui_edge a b"
  proof
    assume "?R \<or> ?D"
    then show "ui_edge a b"
    proof
      assume ?R
      then obtain s od act where r: "restaurant_offers act od s" and "status od = a" "restaurant_target act = b"
        by blast
      with restaurant_offers_status [OF r] show ?thesis by (cases act) auto
    next
      assume ?D
      then obtain s od act where ok: "order_ok od" and cu: "current_user s \<noteq> None"
        and d: "driver_offers act od s" and st: "status od = a" and tg: "driver_target act od = b"
        by blast
      show ?thesis
      proof (cases act)
        case DrvAccept
        with driver_offers_status [OF d] st tg show ?thesis by auto
      next
        case DrvAdvance
        with driver_offers_status [OF d] cu have "driver_id od \<noteq> None" and nd: "status od \<noteq> DELIVERED" by auto
        with ok have "driver_phase (status od)" by (simp add: order_ok_def)
        with nd driver_phase_next_status st tg DrvAdvance show ?thesis by auto
      qed
    qed
  next
    assume e: "ui_edge a b"
    have "((a = PENDING \<and> b \<in> {RESTAURANT_ACCEPTED, CANCELLED})
        \<or> (a \<in> {RESTAURANT_ACCEPTED, PREPARING, READY_FOR_PICKUP} \<and> b \<in> {PREPARING, READY_FOR_PICKUP}))
      \<or> ((b = ACCEPTED \<and> a \<in> {READY_FOR_PICKUP, PENDING}) \<or> (driver_phase a \<and> a \<noteq> DELIVERED \<and> b = next_status a))"
      using e by (cases a; cases b) simp_all
    then show "?R \<or> ?D"
    proof
      assume "(a = PENDING \<and> b \<in> {RESTAURANT_ACCEPTED, CANCELLED})
        \<or> (a \<in> {RESTAURANT_ACCEPTED, PREPARING, READY_FOR_PICKUP} \<and> b \<in> {PREPARING, READY_FOR_PICKUP})"
      then have ?R by (rule restaurant_edge_realised)
      then show ?thesis ..
    next
      assume "(b = ACCEPTED \<and> a \<in> {READY_FOR_PICKUP, PENDING}) \<or> (driver_phase a \<and> a \<noteq> DELIVERED \<and> b = next_status a)"
      then have ?D by (rule driver_edge_realised)
      then show ?thesis ..
    qed
  qed
qed (cases a; cases b; simp)+

text \<open>
  C21. Two drivers accepting the same order one after the other (each from a list
  rendered before the other's click) both succeed: the second call overwrites the first
  driver, no \<open>IllegalTransitionError\<close> is raised and the first assignment is lost.
\<close>

theorem handle_accept_last_writer_wins:
  assumes "order_map (orders s) oid = Some x"
    and "user_id a \<noteq> []" and "user_id b \<noteq> []"
  shows "order_map (orders (handle_accept oid t2
            ((handle_accept oid t1 (s\<lparr>current_user := Some a\<rparr>))\<lparr>current_user := Some b\<rparr>))) oid
         = Some (x\<lparr>status := ACCEPTED, updated_at := t2, driver_id := Some (user_id b)\<rparr>)"
proof -
  let ?s1 = "handle_accept oid t1 (s\<lparr>current_user := Some a\<rparr>)"
  have "order_map (orders ?s1) oid = Some (set_order_status ACCEPTED (Some (user_id a)) t1 x)"
    using assms(1) by (simp add: handle_accept_def order_map_update_order_status)
  then have "order_map (orders (handle_accept oid t2 (?s1\<lparr>current_user := Some b\<rparr>))) oid
      = Some (set_order_status ACCEPTED (Some (user_id b)) t2 (set_order_status ACCEPTED (Some (user_id a)) t1 x))"
    by (simp add: handle_accept_def order_map_update_order_status)
  then show ?thesis using assms(2,3) by (simp add: set_order_status_def)
qed

theorem handle_accept_last_writer_wins_witness:
  "order_map (orders driver_state) ''ORD-1'' = Some (sample_order\<lparr>status := READY_FOR_PICKUP\<rparr>)
   \<and> user_id (MOCK_USERS ! 2) \<noteq> [] \<and> user_id \<lparr>user_id = ''9'', user_name = ''Other'', email = ''x'', role = DRIVER\<rparr> \<noteq> []
   \<and> order_map (orders (handle_accept ''ORD-1'' 5
        ((handle_accept ''ORD-1'' 4 (driver_state\<lparr>current_user := Some (MOCK_USERS ! 2)\<rparr>))
           \<lparr>current_user := Some \<lparr>user_id = ''9'', user_name = ''Other'', email = ''x'', role = DRIVER\<rparr>\<rparr>))) ''ORD-1''
     = Some (sample_order\<lparr>status := ACCEPTED, updated_at := 5, driver_id := Some ''9''\<rparr>)"
proof -
  have h1: "order_map (orders driver_state) ''ORD-1'' = Some (sample_order\<lparr>status := READY_FOR_PICKUP\<rparr>)"
    by (simp add: driver_state_def init_state_def sample_order_def)
  have h2: "user_id (MOCK_USERS ! 2) \<noteq> []" by (simp add: MOCK_USERS_def)
  have h3: "user_id \<lparr>user_id = ''9'', user_name = ''Other'', email = ''x'', role = DRIVER\<rparr> \<noteq> []" by simp
  show ?thesis using h1 h2 h3 handle_accept_last_writer_wins [OF h1 h2 h3, of 5 4] by simp
qed

text \<open>
  C22. The specification's race: two restaurant sessions press Ready on the same
  preparing order, rendered from the same state. Both clicks apply; the second does
  not fail with \<open>IllegalTransitionError\<close>, it writes \<open>READY_FOR_PICKUP\<close> again and
  moves the update time, and the order is still offered for another Ready.
\<close>

theorem restaurant_ready_race:
  assumes "restaurant_offers RReady od s" and "order_map (orders s) (order_id od) = Some od"
  shows "order_map (orders (restaurant_click RReady od t2 (restaurant_click RReady od t1 s))) (order_id od)
           = Some (od\<lparr>status := READY_FOR_PICKUP, updated_at := t2\<rparr>)
         \<and> restaurant_offers RReady (od\<lparr>status := READY_FOR_PICKUP, updated_at := t1\<rparr>) (restaurant_click RReady od t1 s)"
proof
  show "order_map (orders (restaurant_click RReady od t2 (restaurant_click RReady od t1 s))) (order_id od)
      = Some (od\<lparr>status := READY_FOR_PICKUP, updated_at := t2\<rparr>)"
    using assms(2) by (simp add: restaurant_click_def order_map_update_order_status set_order_status_def)
  have mem: "od \<in> set (my_orders s)"
    using assms(1) by (simp add: active_orders_def)
  then have "set_order_status READY_FOR_PICKUP None t1 od \<in> set (orders (restaurant_click RReady od t1 s))"
    by (simp add: restaurant_click_def update_order_status_def my_orders_def map_where_mem)
  moreover have "my_rest (restaurant_click RReady od t1 s) = my_rest s"
    by (simp add: restaurant_click_def my_rest_def)
  ultimately show "restaurant_offers RReady (od\<lparr>status := READY_FOR_PICKUP, updated_at := t1\<rparr>) (restaurant_click RReady od t1 s)"
    using mem by (simp add: active_orders_def my_orders_def set_order_status_def)
qed

theorem restaurant_ready_race_witness:
  "restaurant_offers RReady (sample_order\<lparr>status := PREPARING\<rparr>) (admin_state\<lparr>orders := [sample_order\<lparr>status := PREPARING\<rparr>]\<rparr>)
   \<and> order_map (orders (admin_state\<lparr>orders := [sample_order\<lparr>status := PREPARING\<rparr>]\<rparr>)) ''ORD-1'' = Some (sample_order\<lparr>status := PREPARING\<rparr>)
   \<and> order_map (orders (restaurant_click RReady (sample_order\<lparr>status := PREPARING\<rparr>) 6
        (restaurant_click RReady (sample_order\<lparr>status := PREPARING\<rparr>) 5 (admin_state\<lparr>orders := [sample_order\<lparr>status := PREPARING\<rparr>]\<rparr>)))) ''ORD-1''
     = Some (sample_order\<lparr>status := READY_FOR_PICKUP, updated_at := 6\<rparr>)"
proof -
  have h1: "restaurant_offers RReady (sample_order\<lparr>status := PREPARING\<rparr>) (admin_state\<lparr>orders := [sample_order\<lparr>status := PREPARING\<rparr>]\<rparr>)"
    by (simp add: admin_state_def init_state_def active_orders_def my_orders_def my_rest_def
        MOCK_USERS_def MOCK_RESTAURANTS_def sample_order_def)
  have h2: "order_map (orders (admin_state\<lparr>orders := [sample_order\<lparr>status := PREPARING\<rparr>]\<rparr>)) (order_id (sample_order\<lparr>status := PREPARING\<rparr>))
      = Some (sample_order\<lparr>status := PREPARING\<rparr>)"
    by simp
  from restaurant_ready_race [OF h1 h2, of 6 5] h1 h2 show ?thesis by (simp add: sample_order_def)
qed

text \<open>
  C23. Scenario B of the specification: a driver who is not the order's driver is not
  offered the advance button for it, since the driver view lists only the driver's own
  orders; but the handler itself checks nothing, and called for that order it moves it
  from \<open>ACCEPTED\<close> to \<open>PICKED_UP\<close>. There is no \<open>UnauthorizedError\<close>.
\<close>

theorem scenario_B_advance_unguarded:
  assumes "current_user s = Some u" and "driver_id od = Some y" and "y \<noteq> user_id u"
    and "status od = ACCEPTED" and "order_map (orders s) (order_id od) = Some od"
  shows "\<not> driver_offers DrvAdvance od s
    \<and> order_map (orders (handle_status_update (order_id od) (status od) now s)) (order_id od)
        = Some (od\<lparr>status := PICKED_UP, updated_at := now\<rparr>)"
  using assms
  by (simp add: my_active_orders_def handle_status_update_def order_map_update_order_status set_order_status_def)

theorem scenario_B_advance_unguarded_witness:
  "current_user driver_state = Some (MOCK_USERS ! 2)
   \<and> driver_id (sample_order\<lparr>status := ACCEPTED, driver_id := Some ''7''\<rparr>) = Some ''7''
   \<and> ''7'' \<noteq> user_id (MOCK_USERS ! 2)
   \<and> status (sample_order\<lparr>status := ACCEPTED, driver_id := Some ''7''\<rparr>) = ACCEPTED
   \<and> \<not> driver_offers DrvAdvance (sample_order\<lparr>status := ACCEPTED, driver_id := Some ''7''\<rparr>)
        (driver_state\<lparr>orders := [sample_order\<lparr>status := ACCEPTED, driver_id := Some ''7''\<rparr>]\<rparr>)"
proof -
  let ?o = "sample_order\<lparr>status := ACCEPTED, driver_id := Some ''7''\<rparr>"
  let ?s = "driver_state\<lparr>orders := [?o]\<rparr>"
  have h1: "current_user ?s = Some (MOCK_USERS ! 2)" by (simp add: driver_state_def)
  have h2: "driver_id ?o = Some ''7''" by simp
  have h3: "''7'' \<noteq> user_id (MOCK_USERS ! 2)" by (simp add: MOCK_USERS_def)
  have h4: "status ?o = ACCEPTED" by simp
  have h5: "order_map (orders ?s) (order_id ?o) = Some ?o" by simp
  from scenario_B_advance_unguarded [OF h1 h2 h3 h4 h5, of 8] h1 h2 h3 h4
  show ?thesis by (simp add: driver_state_def)
qed

end
