(* ===== verification/System.thy ===== *)
theory System
  imports Customer Lifecycle
begin

text \<open>
  The whole application as one state machine. The state is the store, the customer
  view's React state, a clock supplying \<open>new Date()\<close>, and whether the React tree has
  crashed. An event is one click the rendered screen offers (\<open>src/views/Login.tsx\<close>
  line 25, \<open>src/components/Layout.tsx\<close> line 29, the customer, restaurant and driver
  buttons), or the clock advancing. \<open>src/App.tsx\<close> chooses the screen from the
  current user's role (lines 16--29, 34--46).

  Two screens cannot render: \<open>DriverApp\<close> (line 9, \<open>drivers.find\<close>) and
  \<open>PlatformOwnerDashboard\<close> (line 22, \<open>drivers.length\<close>) read a member \<open>drivers\<close> the
  store does not have, so the render throws a \<open>TypeError\<close>. With no error boundary
  React unmounts the tree and no further click is possible: the model's \<open>crashed\<close>
  state, in which no event is enabled.
\<close>

datatype screen = LoginScreen | OwnerScreen | RestaurantAdminScreen | CustomerScreen | DriverScreen

fun dashboard_by_role :: "user_role \<Rightarrow> screen" where
  "dashboard_by_role OWNER = OwnerScreen"
| "dashboard_by_role RESTAURANT_ADMIN = RestaurantAdminScreen"
| "dashboard_by_role CUSTOMER = CustomerScreen"
| "dashboard_by_role DRIVER = DriverScreen"

definition app_screen :: "app_state \<Rightarrow> screen" where
  "app_screen s = (case current_user s of None \<Rightarrow> LoginScreen | Some u \<Rightarrow> dashboard_by_role (role u))"

fun screen_renders :: "screen \<Rightarrow> bool" where
  "screen_renders OwnerScreen = False"
| "screen_renders DriverScreen = False"
| "screen_renders _ = True"

record sys =
  store :: app_state
  ui :: customer_ui
  clock :: timestamp
  crashed :: bool

definition init_sys :: sys where
  "init_sys = \<lparr>store = init_state, ui = customer_ui_init, clock = 0, crashed = False\<rparr>"

datatype event =
    EvLogin string
  | EvLogout
  | EvSelectRest restaurant
  | EvBack
  | EvSelectItem menu_item
  | EvCloseItem
  | EvSelectVar menu_item_variation
  | EvAddToCart
  | EvSetPayment payment_method
  | EvPlaceOrder nat
  | EvRestaurant restaurant_action order
  | EvDriver driver_action order
  | EvTick

text \<open>
  The customer screen (\<open>CustomerApp.tsx\<close>): the restaurant list when no restaurant is
  chosen (line 224), otherwise its menu (line 87), the back button (line 63) and, when
  the cart is not empty, the checkout tray (lines 142--181). An open item is a modal
  overlay above everything else (lines 102--139): while it is open only its close
  button (line 107), its variation radios (line 122) and Add to Cart (line 133) can be
  clicked. \<open>k\<close> of \<open>EvPlaceOrder\<close> is the value of \<open>Math.floor(Math.random() * 90000)\<close>.
\<close>

fun customer_event :: "sys \<Rightarrow> event \<Rightarrow> sys option" where
  "customer_event \<sigma> (EvSelectRest r) =
     (if selected_rest (ui \<sigma>) = None \<and> r \<in> set (restaurants (store \<sigma>))
      then Some (\<sigma>\<lparr>ui := (ui \<sigma>)\<lparr>selected_rest := Some r\<rparr>\<rparr>) else None)"
| "customer_event \<sigma> EvBack =
     (if selected_rest (ui \<sigma>) \<noteq> None \<and> selected_item (ui \<sigma>) = None
      then Some (\<sigma>\<lparr>ui := (ui \<sigma>)\<lparr>selected_rest := None\<rparr>\<rparr>) else None)"
| "customer_event \<sigma> (EvSelectItem it) =
     (case selected_rest (ui \<sigma>) of
        Some r \<Rightarrow> if selected_item (ui \<sigma>) = None \<and> it \<in> set (rest_menu r (store \<sigma>))
                  then Some (\<sigma>\<lparr>ui := (ui \<sigma>)\<lparr>selected_item := Some it\<rparr>\<rparr>) else None
      | None \<Rightarrow> None)"
| "customer_event \<sigma> EvCloseItem =
     (if selected_rest (ui \<sigma>) \<noteq> None \<and> selected_item (ui \<sigma>) \<noteq> None
      then Some (\<sigma>\<lparr>ui := (ui \<sigma>)\<lparr>selected_item := None\<rparr>\<rparr>) else None)"
| "customer_event \<sigma> (EvSelectVar v) =
     (case selected_item (ui \<sigma>) of
        Some it \<Rightarrow> if selected_rest (ui \<sigma>) \<noteq> None \<and> v \<in> set (item_variations it)
                   then Some (\<sigma>\<lparr>ui := (ui \<sigma>)\<lparr>selected_var := Some v\<rparr>\<rparr>) else None
      | None \<Rightarrow> None)"
| "customer_event \<sigma> EvAddToCart =
     (if selected_rest (ui \<sigma>) \<noteq> None \<and> selected_item (ui \<sigma>) \<noteq> None
      then (let (u, s) = handle_add_to_cart (ui \<sigma>, store \<sigma>) in Some (\<sigma>\<lparr>ui := u, store := s\<rparr>))
      else None)"
| "customer_event \<sigma> (EvSetPayment pm) =
     (if selected_rest (ui \<sigma>) \<noteq> None \<and> selected_item (ui \<sigma>) = None \<and> cart (store \<sigma>) \<noteq> []
      then Some (\<sigma>\<lparr>ui := (ui \<sigma>)\<lparr>payment_choice := pm\<rparr>\<rparr>) else None)"
| "customer_event \<sigma> (EvPlaceOrder k) =
     (if selected_rest (ui \<sigma>) \<noteq> None \<and> selected_item (ui \<sigma>) = None \<and> cart (store \<sigma>) \<noteq> [] \<and> k < 90000
      then (let (u, s) = handle_place_order k (clock \<sigma>) (ui \<sigma>, store \<sigma>) in Some (\<sigma>\<lparr>ui := u, store := s\<rparr>))
      else None)"
| "customer_event \<sigma> _ = None"

text \<open>One click on the screen the current state shows; \<open>None\<close> when it is not offered.\<close>

fun ui_event :: "sys \<Rightarrow> event \<Rightarrow> sys option" where
  "ui_event \<sigma> (EvLogin em) =
     (if app_screen (store \<sigma>) = LoginScreen \<and> em \<in> set (map email MOCK_USERS)
      then Some (\<sigma>\<lparr>store := login em (store \<sigma>), ui := customer_ui_init\<rparr>) else None)"
| "ui_event \<sigma> EvLogout =
     (if app_screen (store \<sigma>) \<noteq> LoginScreen then Some (\<sigma>\<lparr>store := logout (store \<sigma>)\<rparr>) else None)"
| "ui_event \<sigma> (EvRestaurant a od) =
     (if app_screen (store \<sigma>) = RestaurantAdminScreen \<and> restaurant_offers a od (store \<sigma>)
      then Some (\<sigma>\<lparr>store := restaurant_click a od (clock \<sigma>) (store \<sigma>)\<rparr>) else None)"
| "ui_event \<sigma> (EvDriver a od) =
     (if app_screen (store \<sigma>) = DriverScreen \<and> driver_offers a od (store \<sigma>)
      then Some (\<sigma>\<lparr>store := driver_click a od (clock \<sigma>) (store \<sigma>)\<rparr>) else None)"
| "ui_event \<sigma> EvTick = Some (\<sigma>\<lparr>clock := Suc (clock \<sigma>)\<rparr>)"
| "ui_event \<sigma> e =
     (if app_screen (store \<sigma>) = CustomerScreen then customer_event \<sigma> e else None)"

definition sys_step :: "sys \<Rightarrow> event \<Rightarrow> sys option" where
  "sys_step \<sigma> e =
     (if crashed \<sigma> then None
      else map_option (\<lambda>\<sigma>'. \<sigma>'\<lparr>crashed := \<not> screen_renders (app_screen (store \<sigma>'))\<rparr>) (ui_event \<sigma> e))"

fun run :: "sys \<Rightarrow> event list \<Rightarrow> sys option" where
  "run \<sigma> [] = Some \<sigma>"
| "run \<sigma> (e # es) = (case sys_step \<sigma> e of None \<Rightarrow> None | Some \<sigma>' \<Rightarrow> run \<sigma>' es)"

inductive reachable :: "sys \<Rightarrow> bool" where
  init: "reachable init_sys"
| step: "reachable \<sigma> \<Longrightarrow> sys_step \<sigma> e = Some \<sigma>' \<Longrightarrow> reachable \<sigma>'"

text \<open>
  The runs in which every random draw gives an identifier no order has yet: the
  environment assumption under which the lifecycle's safety holds.
\<close>

fun fresh_event :: "sys \<Rightarrow> event \<Rightarrow> bool" where
  "fresh_event \<sigma> (EvPlaceOrder k) = (order_number k \<notin> order_id ` set (orders (store \<sigma>)))"
| "fresh_event \<sigma> _ = True"

inductive reachable_fresh :: "sys \<Rightarrow> bool" where
  init: "reachable_fresh init_sys"
| step: "reachable_fresh \<sigma> \<Longrightarrow> fresh_event \<sigma> e \<Longrightarrow> sys_step \<sigma> e = Some \<sigma>' \<Longrightarrow> reachable_fresh \<sigma>'"

definition status_map :: "sys \<Rightarrow> ident \<rightharpoonup> order_status" where
  "status_map \<sigma> = (\<lambda>k. map_option status (order_map (orders (store \<sigma>)) k))"

subsection \<open>Invariant of the running application\<close>

text \<open>
  What every reachable state satisfies: the catalogue is untouched, the current user is
  a demo user, the cart lines and the customer's selection carry non-negative prices,
  and every order is well-formed (\<open>order_ok\<close>), was last updated no later than the
  clock, and is in no driver status. \<open>sys_inv\<close> adds that a state that has not
  crashed shows a screen that renders.
\<close>

definition core_inv :: "sys \<Rightarrow> bool" where
  "core_inv \<sigma> \<longleftrightarrow>
     restaurants (store \<sigma>) = MOCK_RESTAURANTS \<and> menu_items (store \<sigma>) = MOCK_MENU_ITEMS
     \<and> (\<forall>u. current_user (store \<sigma>) = Some u \<longrightarrow> u \<in> set MOCK_USERS)
     \<and> (\<forall>li \<in> set (cart (store \<sigma>)). 0 \<le> total_price li)
     \<and> (\<forall>it. selected_item (ui \<sigma>) = Some it \<longrightarrow> prices_nonneg it)
     \<and> (\<forall>v. selected_var (ui \<sigma>) = Some v \<longrightarrow> 0 \<le> var_price v)
     \<and> selected_mods (ui \<sigma>) = []
     \<and> (\<forall>od \<in> set (orders (store \<sigma>)). order_ok od \<and> updated_at od \<le> clock \<sigma> \<and> \<not> driver_phase (status od))"

definition sys_inv :: "sys \<Rightarrow> bool" where
  "sys_inv \<sigma> \<longleftrightarrow> core_inv \<sigma> \<and> (\<not> crashed \<sigma> \<longrightarrow> screen_renders (app_screen (store \<sigma>)))"

definition ui_ok :: "customer_ui \<Rightarrow> bool" where
  "ui_ok u \<longleftrightarrow> (\<forall>it. selected_item u = Some it \<longrightarrow> prices_nonneg it)
     \<and> (\<forall>v. selected_var u = Some v \<longrightarrow> 0 \<le> var_price v) \<and> selected_mods u = []"


text \<open>A run all of whose random draws are fresh.\<close>

fun fresh_run :: "sys \<Rightarrow> event list \<Rightarrow> bool" where
  "fresh_run \<sigma> [] = True"
| "fresh_run \<sigma> (e # es) =
     (fresh_event \<sigma> e \<and> (case sys_step \<sigma> e of None \<Rightarrow> False | Some \<sigma>' \<Rightarrow> fresh_run \<sigma>' es))"

subsection \<open>Scenario data\<close>

text \<open>
  Concrete runs used by the witnesses and the findings: the customer orders one plain
  Kota from The Kota King with random draw \<open>k\<close>, and the Kota King admin presses one
  button on a rendered order. Every run starts with a clock tick, so the orders of
  successive runs carry successive timestamps.
\<close>

definition kota_line :: cart_item where
  "kota_line = cart_line_of (MOCK_MENU_ITEMS ! 0) None []"

definition kota_order :: "nat \<Rightarrow> timestamp \<Rightarrow> order" where
  "kota_order k t = new_order k t (customer_ui_init\<lparr>selected_rest := Some (MOCK_RESTAURANTS ! 0)\<rparr>)
     (init_state\<lparr>current_user := Some (MOCK_USERS ! 3), cart := [kota_line]\<rparr>)"

definition order_kota_events :: "nat \<Rightarrow> event list" where
  "order_kota_events k = [EvTick, EvLogin ''thabo@gmail.com'', EvSelectRest (MOCK_RESTAURANTS ! 0),
     EvSelectItem (MOCK_MENU_ITEMS ! 0), EvAddToCart, EvPlaceOrder k, EvLogout]"

definition restaurant_events :: "restaurant_action \<Rightarrow> order \<Rightarrow> event list" where
  "restaurant_events a od = [EvTick, EvLogin ''kota@business.co.za'', EvRestaurant a od, EvLogout]"

definition two_orders_state :: sys where
  "two_orders_state = \<lparr>store = init_state\<lparr>current_user := Some (MOCK_USERS ! 1),
     orders := [kota_order 8 3, (kota_order 7 1)\<lparr>status := CANCELLED, updated_at := 2\<rparr>]\<rparr>,
     ui = customer_ui_init, clock = 4, crashed = False\<rparr>"

definition two_orders_accepted :: sys where
  "two_orders_accepted = \<lparr>store = init_state\<lparr>current_user := Some (MOCK_USERS ! 1),
     orders := [(kota_order 8 3)\<lparr>status := RESTAURANT_ACCEPTED, updated_at := 4\<rparr>,
                (kota_order 7 1)\<lparr>status := CANCELLED, updated_at := 2\<rparr>]\<rparr>,
     ui = customer_ui_init, clock = 4, crashed = False\<rparr>"

definition customer_state :: sys where
  "customer_state = \<lparr>store = init_state\<lparr>current_user := Some (MOCK_USERS ! 3), cart := [kota_line]\<rparr>,
     ui = customer_ui_init\<lparr>selected_rest := Some (MOCK_RESTAURANTS ! 0)\<rparr>, clock = 1, crashed = False\<rparr>"

subsection \<open>Lemmas\<close>

lemmas run_simps = customer_state_def sys_step_def app_screen_def login_def logout_def MOCK_USERS_def MOCK_RESTAURANTS_def
  MOCK_MENU_ITEMS_def customer_ui_init_def rest_menu_def item_variations_def handle_add_to_cart_def
  add_to_cart_def cart_line_of_def final_price_def handle_place_order_def place_order_def
  new_order_def total_order_amount_def food_subtotal_of_def DELIVERY_FEE_def SERVICE_FEE_def
  restaurant_click_def update_order_status_def set_order_status_def pending_orders_def active_orders_def
  my_orders_def my_rest_def init_sys_def init_state_def kota_order_def kota_line_def
  order_kota_events_def restaurant_events_def order_number_def



lemma sys_step_Some:
  "sys_step \<sigma> e = Some \<sigma>' \<longleftrightarrow>
     \<not> crashed \<sigma> \<and> (\<exists>\<tau>. ui_event \<sigma> e = Some \<tau> \<and> \<sigma>' = \<tau>\<lparr>crashed := \<not> screen_renders (app_screen (store \<tau>))\<rparr>)"
  by (auto simp: sys_step_def)

lemma orders_nodriver_update:
  assumes "\<forall>od \<in> set os. order_ok od \<and> updated_at od \<le> now \<and> \<not> driver_phase (status od)"
    and "\<not> driver_phase st"
  shows "\<forall>od \<in> set (map_where P (set_order_status st None now) os).
           order_ok od \<and> updated_at od \<le> now \<and> \<not> driver_phase (status od)"
proof
  fix y assume "y \<in> set (map_where P (set_order_status st None now) os)"
  then obtain x where x: "x \<in> set os" and y: "y = (if P x then set_order_status st None now x else x)"
    by (auto simp: set_map_where)
  from assms(1) x have "order_ok x \<and> updated_at x \<le> now \<and> \<not> driver_phase (status x)" by blast
  with assms(2) y show "order_ok y \<and> updated_at y \<le> now \<and> \<not> driver_phase (status y)"
    by (cases "P x") (auto simp: order_ok_def)
qed

lemma sys_inv_init: "sys_inv init_sys"
  by (simp add: sys_inv_def core_inv_def init_sys_def init_state_def app_screen_def customer_ui_init_def)

lemma core_inv_tick: "core_inv \<sigma> \<Longrightarrow> core_inv (\<sigma>\<lparr>clock := Suc (clock \<sigma>)\<rparr>)"
  by (auto simp: core_inv_def)

lemma app_screen_upd [simp]:
  "app_screen (s\<lparr>cart := c\<rparr>) = app_screen s"
  "app_screen (s\<lparr>orders := os\<rparr>) = app_screen s"
  "app_screen (s\<lparr>orders := os, cart := c\<rparr>) = app_screen s"
  "app_screen (update_order_status oid st d now s) = app_screen s"
  by (simp_all add: app_screen_def)

lemma core_inv_ui_ok: "core_inv \<sigma> \<Longrightarrow> ui_ok (ui \<sigma>)"
  by (simp add: core_inv_def ui_ok_def)

lemma core_inv_ui_update:
  "core_inv \<sigma> \<Longrightarrow> ui_ok u \<Longrightarrow> core_inv (\<sigma>\<lparr>ui := u\<rparr>)"
  by (simp add: core_inv_def ui_ok_def)

lemma customer_event_inv:
  assumes inv: "core_inv \<sigma>" and ev: "customer_event \<sigma> e = Some \<tau>"
  shows "core_inv \<tau>"
proof -
  have uo: "ui_ok (ui \<sigma>)" using inv by (simp add: core_inv_ui_ok)
  show ?thesis
  proof (cases e)
    case (EvSelectItem it)
    with ev obtain r where "selected_rest (ui \<sigma>) = Some r" "it \<in> set (rest_menu r (store \<sigma>))"
      and \<tau>: "\<tau> = \<sigma>\<lparr>ui := (ui \<sigma>)\<lparr>selected_item := Some it\<rparr>\<rparr>"
      by (auto split: option.splits if_splits)
    moreover have "it \<in> set MOCK_MENU_ITEMS"
      using calculation inv by (auto simp: rest_menu_def core_inv_def)
    ultimately show ?thesis using inv uo catalog_prices_nonneg
      by (auto simp: ui_ok_def intro!: core_inv_ui_update)
  next
    case (EvSelectVar v)
    with ev obtain it where "selected_item (ui \<sigma>) = Some it" "v \<in> set (item_variations it)"
      and \<tau>: "\<tau> = \<sigma>\<lparr>ui := (ui \<sigma>)\<lparr>selected_var := Some v\<rparr>\<rparr>"
      by (auto split: option.splits if_splits)
    with inv uo show ?thesis
      by (auto simp: ui_ok_def intro!: core_inv_ui_update prices_nonneg_var)
  next
    case EvAddToCart
    with ev obtain it where it: "selected_item (ui \<sigma>) = Some it"
      and \<tau>: "\<tau> = \<sigma>\<lparr>ui := (ui \<sigma>)\<lparr>selected_item := None, selected_var := None, selected_mods := []\<rparr>,
                 store := (store \<sigma>)\<lparr>cart := cart (store \<sigma>) @ [cart_line_of it (selected_var (ui \<sigma>)) []]\<rparr>\<rparr>"
      using uo by (auto simp: handle_add_to_cart_Some ui_ok_def split: if_splits)
    have "0 \<le> final_price it (selected_var (ui \<sigma>)) []"
      using uo it by (intro final_price_nonneg_gen) (auto simp: ui_ok_def prices_nonneg_def)
    with inv \<tau> show ?thesis by (auto simp: core_inv_def cart_line_of_def)
  next
    case (EvPlaceOrder k)
    with ev have ne: "cart (store \<sigma>) \<noteq> []"
      and \<tau>: "\<tau> = \<sigma>\<lparr>ui := (ui \<sigma>)\<lparr>selected_rest := None\<rparr>,
                 store := (store \<sigma>)\<lparr>orders := new_order k (clock \<sigma>) (ui \<sigma>) (store \<sigma>) # orders (store \<sigma>), cart := []\<rparr>\<rparr>"
      by (auto simp: handle_place_order_nonempty split: if_splits)
    have "0 \<le> food_subtotal_of (cart (store \<sigma>))"
      using inv by (intro food_subtotal_of_nonneg) (simp add: core_inv_def)
    then have "order_ok (new_order k (clock \<sigma>) (ui \<sigma>) (store \<sigma>))"
      by (simp add: order_ok_def total_order_amount_def)
    with inv uo \<tau> show ?thesis by (auto simp: core_inv_def ui_ok_def)
  next
    case (EvSelectRest r)
    with ev have "\<tau> = \<sigma>\<lparr>ui := (ui \<sigma>)\<lparr>selected_rest := Some r\<rparr>\<rparr>" by (simp split: if_splits)
    with inv uo show ?thesis by (simp add: ui_ok_def core_inv_ui_update)
  next
    case EvBack
    with ev have "\<tau> = \<sigma>\<lparr>ui := (ui \<sigma>)\<lparr>selected_rest := None\<rparr>\<rparr>" by (simp split: if_splits)
    with inv uo show ?thesis by (simp add: ui_ok_def core_inv_ui_update)
  next
    case EvCloseItem
    with ev have "\<tau> = \<sigma>\<lparr>ui := (ui \<sigma>)\<lparr>selected_item := None\<rparr>\<rparr>" by (simp split: if_splits)
    with inv uo show ?thesis by (simp add: ui_ok_def core_inv_ui_update)
  next
    case (EvSetPayment pm)
    with ev have "\<tau> = \<sigma>\<lparr>ui := (ui \<sigma>)\<lparr>payment_choice := pm\<rparr>\<rparr>" by (simp split: if_splits)
    with inv uo show ?thesis by (simp add: ui_ok_def core_inv_ui_update)
  qed (use ev in simp_all)
qed

lemma core_inv_crashed [simp]: "core_inv (\<sigma>\<lparr>crashed := c\<rparr>) = core_inv \<sigma>"
  by (simp add: core_inv_def)

lemma ui_event_inv:
  assumes inv: "sys_inv \<sigma>" and nc: "\<not> crashed \<sigma>" and ev: "ui_event \<sigma> e = Some \<tau>"
  shows "core_inv \<tau>"
proof -
  have ci: "core_inv \<sigma>" and rn: "screen_renders (app_screen (store \<sigma>))"
    using inv nc by (simp_all add: sys_inv_def)
  show ?thesis
  proof (cases e)
    case (EvLogin em)
    with ev have \<tau>: "\<tau> = \<sigma>\<lparr>store := login em (store \<sigma>), ui := customer_ui_init\<rparr>"
      by (simp split: if_splits)
    have "\<forall>u. current_user (login em (store \<sigma>)) = Some u \<longrightarrow> u \<in> set MOCK_USERS"
      using ci by (auto simp: login_def core_inv_def split: option.splits dest: find_Some_iff [THEN iffD1])
    with ci \<tau> show ?thesis by (simp add: core_inv_def login_def customer_ui_init_def split: option.splits)
  next
    case EvLogout
    with ev ci show ?thesis by (auto simp: core_inv_def logout_def split: if_splits)
  next
    case (EvRestaurant a od)
    with ev have \<tau>: "\<tau> = \<sigma>\<lparr>store := restaurant_click a od (clock \<sigma>) (store \<sigma>)\<rparr>"
      by (simp split: if_splits)
    have nd: "\<not> driver_phase (restaurant_target a)" by (cases a) auto
    from ci have "\<forall>x \<in> set (orders (store \<sigma>)). order_ok x \<and> updated_at x \<le> clock \<sigma> \<and> \<not> driver_phase (status x)"
      by (simp add: core_inv_def)
    from orders_nodriver_update [OF this nd] ci \<tau> show ?thesis
      by (simp add: core_inv_def restaurant_click_def update_order_status_def)
  next
    case (EvDriver a od)
    with ev rn show ?thesis by (simp split: if_splits)
  next
    case EvTick
    with ev have "\<tau> = \<sigma>\<lparr>clock := Suc (clock \<sigma>)\<rparr>" by simp
    with ci show ?thesis by (simp add: core_inv_tick)
  qed (use ev ci customer_event_inv in \<open>auto simp del: customer_event.simps split: if_splits\<close>)
qed

lemma sys_inv_step:
  assumes "sys_inv \<sigma>" and "sys_step \<sigma> e = Some \<sigma>'"
  shows "sys_inv \<sigma>'"
proof -
  from assms(2) obtain \<tau> where nc: "\<not> crashed \<sigma>" and ev: "ui_event \<sigma> e = Some \<tau>"
    and \<sigma>': "\<sigma>' = \<tau>\<lparr>crashed := \<not> screen_renders (app_screen (store \<tau>))\<rparr>"
    by (auto simp: sys_step_Some)
  from assms(1) nc ev have "core_inv \<tau>" by (rule ui_event_inv)
  with \<sigma>' show ?thesis by (simp add: sys_inv_def)
qed

lemma reachable_sys_inv: "reachable \<sigma> \<Longrightarrow> sys_inv \<sigma>"
  by (induction rule: reachable.induct) (auto intro: sys_inv_init sys_inv_step)

lemma sys_step_orders_cases:
  assumes st: "sys_step \<sigma> e = Some \<sigma>'" and inv: "sys_inv \<sigma>"
  shows "orders (store \<sigma>') = orders (store \<sigma>)
    \<or> (\<exists>k. e = EvPlaceOrder k \<and> orders (store \<sigma>') = new_order k (clock \<sigma>) (ui \<sigma>) (store \<sigma>) # orders (store \<sigma>))
    \<or> (\<exists>a od. e = EvRestaurant a od \<and> restaurant_offers a od (store \<sigma>)
         \<and> orders (store \<sigma>') = orders (restaurant_click a od (clock \<sigma>) (store \<sigma>)))"
proof -
  from st obtain \<tau> where nc: "\<not> crashed \<sigma>" and ev: "ui_event \<sigma> e = Some \<tau>"
    and \<sigma>': "store \<sigma>' = store \<tau>"
    by (auto simp: sys_step_Some)
  have rn: "screen_renders (app_screen (store \<sigma>))" using inv nc by (simp add: sys_inv_def)
  show ?thesis
  proof (cases e)
    case EvAddToCart
    with ev \<sigma>' show ?thesis
      by (auto simp: handle_add_to_cart_def add_to_cart_def split: if_splits option.splits)
  next
    case (EvPlaceOrder k)
    with ev \<sigma>' show ?thesis
      by (auto simp: handle_place_order_nonempty split: if_splits)
  next
    case (EvDriver a od)
    with ev rn show ?thesis by (simp split: if_splits)
  next
    case (EvLogin em)
    with ev \<sigma>' show ?thesis by (auto simp: login_def split: if_splits option.splits)
  next
    case EvLogout
    with ev \<sigma>' show ?thesis by (auto simp: logout_def split: if_splits)
  qed (use ev \<sigma>' in \<open>auto split: if_splits option.splits\<close>)
qed

lemma reachable_fresh_distinct:
  "reachable_fresh \<sigma> \<Longrightarrow> reachable \<sigma> \<and> distinct (map order_id (orders (store \<sigma>)))"
proof (induction rule: reachable_fresh.induct)
  case init
  have "distinct (map order_id (orders (store init_sys)))" by (simp add: init_sys_def init_state_def)
  with reachable.init show ?case by blast
next
  case (step \<sigma> e \<sigma>')
  then have r: "reachable \<sigma>'" by (blast intro: reachable.step)
  have inv: "sys_inv \<sigma>" using step.IH reachable_sys_inv by blast
  from sys_step_orders_cases [OF step.hyps(3) inv] step.IH step.hyps(2) show ?case
    by (auto simp: r restaurant_click_def update_order_status_def)
qed

lemma restaurant_click_orders_distinct:
  assumes "distinct (map order_id (orders s))" and "restaurant_offers a od s"
  shows "orders (restaurant_click a od now s)
           = map (\<lambda>x. if x = od then set_order_status (restaurant_target a) None now x else x) (orders s)"
  using assms restaurant_offers_status [OF assms(2)]
  by (simp add: restaurant_click_def update_order_status_def map_where_order_id_distinct)


lemma run_reachable:
  "reachable \<sigma> \<Longrightarrow> run \<sigma> es = Some \<sigma>' \<Longrightarrow> reachable \<sigma>'"
  by (induction es arbitrary: \<sigma>) (auto intro: reachable.step split: option.splits)

lemma run_reachable_fresh:
  "reachable_fresh \<sigma> \<Longrightarrow> fresh_run \<sigma> es \<Longrightarrow> run \<sigma> es = Some \<sigma>' \<Longrightarrow> reachable_fresh \<sigma>'"
  by (induction es arbitrary: \<sigma>) (auto intro: reachable_fresh.step split: option.splits)

lemma collision_run:
  "run init_sys (order_kota_events 7 @ restaurant_events RDecline (kota_order 7 1) @ order_kota_events 7
                 @ [EvTick, EvLogin ''kota@business.co.za''])
   = Some \<lparr>store = init_state\<lparr>current_user := Some (MOCK_USERS ! 1),
            orders := [kota_order 7 3, (kota_order 7 1)\<lparr>status := CANCELLED, updated_at := 2\<rparr>]\<rparr>,
          ui = customer_ui_init, clock = 4, crashed = False\<rparr>"
  by (simp add: run_simps decimal.simps)

lemma collision_step:
  "sys_step \<lparr>store = init_state\<lparr>current_user := Some (MOCK_USERS ! 1),
            orders := [kota_order 7 3, (kota_order 7 1)\<lparr>status := CANCELLED, updated_at := 2\<rparr>]\<rparr>,
          ui = customer_ui_init, clock = 4, crashed = False\<rparr> (EvRestaurant RAccept (kota_order 7 3))
   = Some \<lparr>store = init_state\<lparr>current_user := Some (MOCK_USERS ! 1),
            orders := [(kota_order 7 3)\<lparr>status := RESTAURANT_ACCEPTED, updated_at := 4\<rparr>,
                       (kota_order 7 1)\<lparr>status := RESTAURANT_ACCEPTED, updated_at := 4\<rparr>]\<rparr>,
          ui = customer_ui_init, clock = 4, crashed = False\<rparr>"
  by (simp add: run_simps decimal.simps)

text \<open>
  C4. Without fresh order numbers the lifecycle's safety fails in a reachable run: the
  customer orders twice, both draws give \<open>ORD-7\<close>, the restaurant has declined the
  first order; accepting the second rewrites every order with that identifier, and the
  cancelled order becomes \<open>RESTAURANT_ACCEPTED\<close> again.
\<close>

theorem id_collision_reopens_cancelled_order:
  "\<exists>\<sigma> e \<sigma>' od. reachable \<sigma> \<and> sys_step \<sigma> e = Some \<sigma>'
     \<and> od \<in> set (orders (store \<sigma>)) \<and> status od = CANCELLED
     \<and> od \<notin> set (orders (store \<sigma>')) \<and> od\<lparr>status := RESTAURANT_ACCEPTED, updated_at := clock \<sigma>'\<rparr> \<in> set (orders (store \<sigma>'))"
proof -
  let ?\<sigma> = "\<lparr>store = init_state\<lparr>current_user := Some (MOCK_USERS ! 1),
            orders := [kota_order 7 3, (kota_order 7 1)\<lparr>status := CANCELLED, updated_at := 2\<rparr>]\<rparr>,
          ui = customer_ui_init, clock = 4, crashed = False\<rparr>"
  let ?\<sigma>' = "\<lparr>store = init_state\<lparr>current_user := Some (MOCK_USERS ! 1),
            orders := [(kota_order 7 3)\<lparr>status := RESTAURANT_ACCEPTED, updated_at := 4\<rparr>,
                       (kota_order 7 1)\<lparr>status := RESTAURANT_ACCEPTED, updated_at := 4\<rparr>]\<rparr>,
          ui = customer_ui_init, clock = 4, crashed = False\<rparr>"
  let ?od = "(kota_order 7 1)\<lparr>status := CANCELLED, updated_at := 2\<rparr>"
  have r: "reachable ?\<sigma>" by (rule run_reachable [OF reachable.init collision_run])
  have s: "sys_step ?\<sigma> (EvRestaurant RAccept (kota_order 7 3)) = Some ?\<sigma>'" by (rule collision_step)
  have "?od \<in> set (orders (store ?\<sigma>)) \<and> status ?od = CANCELLED \<and> ?od \<notin> set (orders (store ?\<sigma>'))
      \<and> ?od\<lparr>status := RESTAURANT_ACCEPTED, updated_at := clock ?\<sigma>'\<rparr> \<in> set (orders (store ?\<sigma>'))"
    by (simp add: kota_order_def new_order_def)
  with r s show ?thesis by blast
qed


lemma two_orders_run:
  "fresh_run init_sys (order_kota_events 7 @ restaurant_events RDecline (kota_order 7 1) @ order_kota_events 8
                 @ [EvTick, EvLogin ''kota@business.co.za''])
   \<and> run init_sys (order_kota_events 7 @ restaurant_events RDecline (kota_order 7 1) @ order_kota_events 8
                 @ [EvTick, EvLogin ''kota@business.co.za'']) = Some two_orders_state"
  by (simp add: run_simps two_orders_state_def decimal.simps)

lemma two_orders_step:
  "sys_step two_orders_state (EvRestaurant RAccept (kota_order 8 3)) = Some two_orders_accepted"
  by (simp add: run_simps two_orders_state_def two_orders_accepted_def decimal.simps)

lemma reachable_fresh_two_orders: "reachable_fresh two_orders_state"
  using two_orders_run run_reachable_fresh [OF reachable_fresh.init] by blast

subsection \<open>Properties\<close>

text \<open>
  C1. In every run where the random order numbers are fresh, a cancelled or delivered
  order is never changed again: whatever button is pressed next, the very same order
  (every field) is still in the store.
\<close>

theorem terminal_orders_stable:
  assumes "reachable_fresh \<sigma>" and "sys_step \<sigma> e = Some \<sigma>'"
    and "od \<in> set (orders (store \<sigma>))" and "is_terminal (status od)"
  shows "od \<in> set (orders (store \<sigma>'))"
proof -
  have r: "reachable \<sigma>" and d: "distinct (map order_id (orders (store \<sigma>)))"
    using reachable_fresh_distinct [OF assms(1)] by simp_all
  from sys_step_orders_cases [OF assms(2) reachable_sys_inv [OF r]] show ?thesis
  proof (elim disjE exE conjE)
    fix a od' assume offers: "restaurant_offers a od' (store \<sigma>)"
      and eq: "orders (store \<sigma>') = orders (restaurant_click a od' (clock \<sigma>) (store \<sigma>))"
    have "\<not> is_terminal (status od')"
      using restaurant_offers_status [OF offers] by (cases a) auto
    with assms(4) have "od \<noteq> od'" by auto
    with assms(3) show ?thesis
      by (auto simp: eq restaurant_click_orders_distinct [OF d offers] image_iff intro!: bexI [of _ od])
  qed (use assms(3) in auto)
qed

text \<open>
  C3. Refinement: under fresh order numbers, every step of the application, seen
  through the status of each order identifier, is a step of the abstract per-order
  machine whose transitions are \<open>ui_edge\<close>, or creates a new \<open>PENDING\<close> order, or
  leaves the status as it is.
\<close>

theorem sys_step_refines_status_machine:
  assumes "reachable_fresh \<sigma>" and "fresh_event \<sigma> e" and "sys_step \<sigma> e = Some \<sigma>'"
  shows "status_map \<sigma>' k = status_map \<sigma> k
    \<or> (status_map \<sigma> k = None \<and> status_map \<sigma>' k = Some PENDING)
    \<or> (\<exists>a b. status_map \<sigma> k = Some a \<and> status_map \<sigma>' k = Some b \<and> ui_edge a b)"
proof -
  have r: "reachable \<sigma>" and d: "distinct (map order_id (orders (store \<sigma>)))"
    using reachable_fresh_distinct [OF assms(1)] by simp_all
  from sys_step_orders_cases [OF assms(3) reachable_sys_inv [OF r]] show ?thesis
  proof (elim disjE exE conjE)
    assume "orders (store \<sigma>') = orders (store \<sigma>)"
    then show ?thesis by (simp add: status_map_def)
  next
    fix n assume e: "e = EvPlaceOrder n"
      and eq: "orders (store \<sigma>') = new_order n (clock \<sigma>) (ui \<sigma>) (store \<sigma>) # orders (store \<sigma>)"
    have "order_number n \<notin> order_id ` set (orders (store \<sigma>))" using assms(2) e by simp
    then show ?thesis using eq
      by (cases "k = order_number n") (auto simp: status_map_def order_map_None_iff [symmetric])
  next
    fix a od assume offers: "restaurant_offers a od (store \<sigma>)"
      and eq: "orders (store \<sigma>') = orders (restaurant_click a od (clock \<sigma>) (store \<sigma>))"
    have mem: "od \<in> set (orders (store \<sigma>))" using restaurant_offers_status [OF offers] by simp
    have m: "order_map (orders (store \<sigma>')) = (order_map (orders (store \<sigma>)))(order_id od :=
        map_option (set_order_status (restaurant_target a) None (clock \<sigma>)) (order_map (orders (store \<sigma>)) (order_id od)))"
      by (simp add: eq restaurant_click_def update_order_status_def order_map_map_where)
    have edge: "ui_edge (status od) (restaurant_target a)"
      using restaurant_offers_status [OF offers] by (cases a) auto
    show ?thesis
    proof (cases "k = order_id od")
      case True
      with m edge order_map_distinct_mem [OF d mem] show ?thesis by (simp add: status_map_def)
    next
      case False
      with m show ?thesis by (simp add: status_map_def)
    qed
  qed
qed


theorem terminal_orders_stable_witness:
  "reachable_fresh two_orders_state
   \<and> sys_step two_orders_state (EvRestaurant RAccept (kota_order 8 3)) = Some two_orders_accepted
   \<and> (kota_order 7 1)\<lparr>status := CANCELLED, updated_at := 2\<rparr> \<in> set (orders (store two_orders_state))
   \<and> is_terminal (status ((kota_order 7 1)\<lparr>status := CANCELLED, updated_at := 2\<rparr>))
   \<and> (kota_order 7 1)\<lparr>status := CANCELLED, updated_at := 2\<rparr> \<in> set (orders (store two_orders_accepted))"
proof -
  have h3: "(kota_order 7 1)\<lparr>status := CANCELLED, updated_at := 2\<rparr> \<in> set (orders (store two_orders_state))"
    by (simp add: two_orders_state_def)
  have h4: "is_terminal (status ((kota_order 7 1)\<lparr>status := CANCELLED, updated_at := 2\<rparr>))" by simp
  show ?thesis
    using reachable_fresh_two_orders two_orders_step h3 h4
      terminal_orders_stable [OF reachable_fresh_two_orders two_orders_step h3 h4] by simp
qed

theorem sys_step_refines_status_machine_witness:
  "reachable_fresh two_orders_state \<and> fresh_event two_orders_state (EvRestaurant RAccept (kota_order 8 3))
   \<and> sys_step two_orders_state (EvRestaurant RAccept (kota_order 8 3)) = Some two_orders_accepted
   \<and> status_map two_orders_state (order_number 8) = Some PENDING
   \<and> status_map two_orders_accepted (order_number 8) = Some RESTAURANT_ACCEPTED
   \<and> ui_edge PENDING RESTAURANT_ACCEPTED"
proof -
  have f: "fresh_event two_orders_state (EvRestaurant RAccept (kota_order 8 3))" by simp
  have m: "status_map two_orders_state (order_number 8) = Some PENDING"
      "status_map two_orders_accepted (order_number 8) = Some RESTAURANT_ACCEPTED"
    by (simp_all add: status_map_def two_orders_state_def two_orders_accepted_def kota_order_def
        new_order_def order_number_def decimal.simps)
  have "status_map two_orders_accepted (order_number 8) = status_map two_orders_state (order_number 8)
    \<or> (status_map two_orders_state (order_number 8) = None \<and> status_map two_orders_accepted (order_number 8) = Some PENDING)
    \<or> (\<exists>a b. status_map two_orders_state (order_number 8) = Some a \<and> status_map two_orders_accepted (order_number 8) = Some b \<and> ui_edge a b)"
    by (rule sys_step_refines_status_machine [OF reachable_fresh_two_orders f two_orders_step])
  with f m reachable_fresh_two_orders two_orders_step show ?thesis by simp
qed

text \<open>
  C2. In every reachable state every order is well-formed: \<open>totalFee = foodSubtotal +
  deliveryFee + serviceFee\<close>, no amount is negative, and it was created no later than
  it was last updated, which is no later than the present. This holds with or without
  colliding identifiers: no operation touches the money fields after checkout, and
  every update stamps the current time.
\<close>

theorem reachable_orders_well_formed:
  assumes "reachable \<sigma>"
  shows "\<forall>od \<in> set (orders (store \<sigma>)).
           total_fee od = food_subtotal od + delivery_fee od + service_fee od
           \<and> 0 \<le> food_subtotal od \<and> 0 \<le> delivery_fee od \<and> 0 \<le> service_fee od
           \<and> created_at od \<le> updated_at od \<and> updated_at od \<le> clock \<sigma>"
  using reachable_sys_inv [OF assms] by (auto simp: sys_inv_def core_inv_def order_ok_def)

theorem reachable_orders_well_formed_witness:
  "reachable two_orders_state
   \<and> total_fee (kota_order 8 3) = 7500 \<and> kota_order 8 3 \<in> set (orders (store two_orders_state))"
proof -
  have r: "reachable two_orders_state" using reachable_fresh_distinct [OF reachable_fresh_two_orders] by simp
  have m: "kota_order 8 3 \<in> set (orders (store two_orders_state))" by (simp add: two_orders_state_def)
  from reachable_orders_well_formed [OF r] m
  have "total_fee (kota_order 8 3) = food_subtotal (kota_order 8 3) + delivery_fee (kota_order 8 3) + service_fee (kota_order 8 3)"
    by blast
  with r m show ?thesis by (simp add: kota_order_def kota_line_def cart_line_of_def final_price_def
      MOCK_MENU_ITEMS_def DELIVERY_FEE_def SERVICE_FEE_def)
qed

text \<open>
  C5. Logging in as the driver or as the platform owner crashes the application: the
  screen \<open>App.tsx\<close> chooses reads the store member \<open>drivers\<close>, which does not exist,
  and from then on no click is possible.
\<close>

theorem driver_and_owner_screens_crash:
  assumes "sys_step \<sigma> (EvLogin em) = Some \<sigma>'" and "current_user (store \<sigma>') = Some u"
    and "role u \<in> {DRIVER, OWNER}"
  shows "crashed \<sigma>' \<and> (\<forall>e. sys_step \<sigma>' e = None)"
proof -
  from assms(1) obtain \<tau> where \<sigma>': "\<sigma>' = \<tau>\<lparr>crashed := \<not> screen_renders (app_screen (store \<tau>))\<rparr>"
    by (auto simp: sys_step_Some)
  with assms(2,3) have "\<not> screen_renders (app_screen (store \<tau>))"
    by (auto simp: app_screen_def)
  with \<sigma>' show ?thesis by (simp add: sys_step_def)
qed

theorem driver_and_owner_screens_crash_witness:
  "sys_step init_sys (EvLogin ''sipho@driver.co.za'')
     = Some \<lparr>store = init_state\<lparr>current_user := Some (MOCK_USERS ! 2)\<rparr>, ui = customer_ui_init, clock = 0, crashed = True\<rparr>
   \<and> current_user (store \<lparr>store = init_state\<lparr>current_user := Some (MOCK_USERS ! 2)\<rparr>, ui = customer_ui_init, clock = 0, crashed = True\<rparr>)
       = Some (MOCK_USERS ! 2)
   \<and> role (MOCK_USERS ! 2) \<in> {DRIVER, OWNER}
   \<and> crashed \<lparr>store = init_state\<lparr>current_user := Some (MOCK_USERS ! 2)\<rparr>, ui = customer_ui_init, clock = 0, crashed = True\<rparr>"
proof -
  have h1: "sys_step init_sys (EvLogin ''sipho@driver.co.za'')
     = Some \<lparr>store = init_state\<lparr>current_user := Some (MOCK_USERS ! 2)\<rparr>, ui = customer_ui_init, clock = 0, crashed = True\<rparr>"
    by (simp add: run_simps)
  have h2: "current_user (store \<lparr>store = init_state\<lparr>current_user := Some (MOCK_USERS ! 2)\<rparr>, ui = customer_ui_init, clock = 0, crashed = True\<rparr>)
       = Some (MOCK_USERS ! 2)" by simp
  have h3: "role (MOCK_USERS ! 2) \<in> {DRIVER, OWNER}" by (simp add: MOCK_USERS_def)
  show ?thesis using h1 h2 h3 driver_and_owner_screens_crash [OF h1 h2 h3] by simp
qed

text \<open>
  C7. Consequently no order of the running application ever gets a driver or reaches a
  driver status (\<open>ACCEPTED\<close> and after): the delivery half of the lifecycle is
  unreachable in the code as it is.
\<close>

theorem no_order_reaches_driver_phase:
  assumes "reachable \<sigma>"
  shows "\<forall>od \<in> set (orders (store \<sigma>)). driver_id od = None \<and> \<not> driver_phase (status od)"
  using reachable_sys_inv [OF assms] by (auto simp: sys_inv_def core_inv_def order_ok_def)

theorem no_order_reaches_driver_phase_witness:
  "reachable two_orders_state \<and> kota_order 8 3 \<in> set (orders (store two_orders_state))
   \<and> driver_id (kota_order 8 3) = None \<and> \<not> driver_phase (status (kota_order 8 3))"
proof -
  have r: "reachable two_orders_state" using reachable_fresh_distinct [OF reachable_fresh_two_orders] by simp
  have m: "kota_order 8 3 \<in> set (orders (store two_orders_state))" by (simp add: two_orders_state_def)
  from no_order_reaches_driver_phase [OF r] m r show ?thesis by blast
qed

text \<open>
  C24. Scenario C of the specification: the customer screen offers no button that
  changes an existing order. A customer's click leaves the order list as it is, or puts
  one new pending order in front of it; in particular a customer cannot mark an order
  delivered.
\<close>

theorem customer_screen_only_appends:
  assumes "app_screen (store \<sigma>) = CustomerScreen" and "sys_step \<sigma> e = Some \<sigma>'" and "reachable \<sigma>"
  shows "\<exists>new. orders (store \<sigma>') = new @ orders (store \<sigma>) \<and> length new \<le> 1
           \<and> (\<forall>od \<in> set new. status od = PENDING)"
proof -
  from sys_step_orders_cases [OF assms(2) reachable_sys_inv [OF assms(3)]] show ?thesis
  proof (elim disjE exE conjE)
    assume "orders (store \<sigma>') = orders (store \<sigma>)"
    then show ?thesis by (intro exI [of _ "[]"]) simp
  next
    fix k assume "orders (store \<sigma>') = new_order k (clock \<sigma>) (ui \<sigma>) (store \<sigma>) # orders (store \<sigma>)"
    then show ?thesis by (intro exI [of _ "[new_order k (clock \<sigma>) (ui \<sigma>) (store \<sigma>)]"]) simp
  next
    fix a od assume "e = EvRestaurant a od"
    with assms(1,2) have False by (auto simp: sys_step_def split: if_splits)
    then show ?thesis ..
  qed
qed

theorem customer_screen_only_appends_witness:
  "app_screen (store customer_state) = CustomerScreen
   \<and> sys_step customer_state (EvPlaceOrder 11)
       = Some \<lparr>store = init_state\<lparr>current_user := Some (MOCK_USERS ! 3), orders := [kota_order 11 1]\<rparr>,
               ui = customer_ui_init, clock = 1, crashed = False\<rparr>
   \<and> reachable customer_state"
proof -
  have h1: "app_screen (store customer_state) = CustomerScreen" by (simp add: run_simps)
  have h2: "sys_step customer_state (EvPlaceOrder 11)
       = Some \<lparr>store = init_state\<lparr>current_user := Some (MOCK_USERS ! 3), orders := [kota_order 11 1]\<rparr>,
               ui = customer_ui_init, clock = 1, crashed = False\<rparr>"
    by (simp add: run_simps)
  have "run init_sys [EvTick, EvLogin ''thabo@gmail.com'', EvSelectRest (MOCK_RESTAURANTS ! 0),
      EvSelectItem (MOCK_MENU_ITEMS ! 0), EvAddToCart] = Some customer_state"
    by (simp add: run_simps)
  then have h3: "reachable customer_state" by (rule run_reachable [OF reachable.init])
  from customer_screen_only_appends [OF h1 h2 h3] h1 h2 h3 show ?thesis by simp
qed

text \<open>
  C25. Round trip of checkout: after the Place button, the orders of the current
  customer are exactly the new order followed by the ones they had; the new order is
  \<open>PENDING\<close>, carries the cart that was there, its total is subtotal plus fees, and the
  cart is empty. With an empty cart the button is not offered at all (Scenario D).
\<close>

theorem checkout_roundtrip:
  assumes "sys_step \<sigma> (EvPlaceOrder k) = Some \<sigma>'" and "current_user (store \<sigma>) = Some u"
  shows "filter (\<lambda>od. customer_id od = user_id u) (orders (store \<sigma>'))
           = new_order k (clock \<sigma>) (ui \<sigma>) (store \<sigma>) # filter (\<lambda>od. customer_id od = user_id u) (orders (store \<sigma>))
    \<and> cart (store \<sigma>) \<noteq> [] \<and> cart (store \<sigma>') = []
    \<and> items (new_order k (clock \<sigma>) (ui \<sigma>) (store \<sigma>)) = Some (cart (store \<sigma>))
    \<and> status (new_order k (clock \<sigma>) (ui \<sigma>) (store \<sigma>)) = PENDING
    \<and> total_fee (new_order k (clock \<sigma>) (ui \<sigma>) (store \<sigma>)) =
        food_subtotal (new_order k (clock \<sigma>) (ui \<sigma>) (store \<sigma>)) + DELIVERY_FEE + SERVICE_FEE"
proof -
  from assms(1) have ne: "cart (store \<sigma>) \<noteq> []"
    and eq: "store \<sigma>' = (store \<sigma>)\<lparr>orders := new_order k (clock \<sigma>) (ui \<sigma>) (store \<sigma>) # orders (store \<sigma>), cart := []\<rparr>"
    by (auto simp: sys_step_def handle_place_order_nonempty split: if_splits)
  with assms(2) show ?thesis by (simp add: total_order_amount_def)
qed

theorem checkout_roundtrip_witness:
  "sys_step customer_state (EvPlaceOrder 11)
       = Some \<lparr>store = init_state\<lparr>current_user := Some (MOCK_USERS ! 3), orders := [kota_order 11 1]\<rparr>,
               ui = customer_ui_init, clock = 1, crashed = False\<rparr>
   \<and> current_user (store customer_state) = Some (MOCK_USERS ! 3)
   \<and> filter (\<lambda>od. customer_id od = ''4'') [kota_order 11 1] = [new_order 11 1 (ui customer_state) (store customer_state)]"
proof -
  have h1: "sys_step customer_state (EvPlaceOrder 11)
       = Some \<lparr>store = init_state\<lparr>current_user := Some (MOCK_USERS ! 3), orders := [kota_order 11 1]\<rparr>,
               ui = customer_ui_init, clock = 1, crashed = False\<rparr>"
    by (simp add: run_simps)
  have h2: "current_user (store customer_state) = Some (MOCK_USERS ! 3)" by (simp add: customer_state_def)
  have u: "user_id (MOCK_USERS ! 3) = ''4''" by (simp add: MOCK_USERS_def)
  from checkout_roundtrip [OF h1 h2] h1 h2 u show ?thesis by (simp add: customer_state_def init_state_def)
qed

end
