(* ===== verification/Dashboards.thy ===== *)
theory Dashboards
  imports Complex_Main System
begin

text \<open>
  What each screen computes when React renders it, before its markup: the values the
  components derive from the store, and the \<open>TypeError\<close> three of them throw.
  \<open>AppState\<close> (\<open>src/store.ts\<close> lines 6--19) declares no member \<open>drivers\<close>, so
  destructuring it from \<open>useStore()\<close> gives \<open>undefined\<close> in every state;
  \<open>DriverApp\<close> calls \<open>drivers.find\<close> (line 9), \<open>PlatformOwnerDashboard\<close> reads
  \<open>drivers.length\<close> (line 22) and the unrouted \<open>AdminDashboard\<close> calls
  \<open>drivers.filter\<close> (line 18). The shape of a driver record is the one those calls
  read (\<open>d.id\<close>, \<open>d.isOnline\<close>); no such value ever exists.

  Amounts are cents, as everywhere in the development; the dashboards' historical
  offsets (R145000 and R125000) are therefore \<open>14500000\<close> and \<open>12500000\<close>. The 20\%
  commission \<open>gmv * 0.20\<close> is computed exactly, as a rational number.
\<close>

record driver_profile =
  dp_id :: ident
  dp_is_online :: bool

definition store_drivers :: "app_state \<Rightarrow> driver_profile list option" where
  "store_drivers s = None"

subsection \<open>The driver screen (\<open>DriverApp.tsx\<close> lines 8--12)\<close>

record driver_view =
  dv_driver :: "driver_profile option"
  dv_available :: "order list"
  dv_active :: "order list"

definition driver_render :: "app_state \<Rightarrow> driver_view js" where
  "driver_render s =
     js_bind (js_find (\<lambda>d. Some (dp_id d) = map_option user_id (current_user s)) (store_drivers s))
       (\<lambda>dd. Inr \<lparr>dv_driver = dd, dv_available = available_orders (orders s),
                 dv_active = my_active_orders (current_user s) (orders s)\<rparr>)"

subsection \<open>The owner dashboard (\<open>PlatformOwnerDashboard.tsx\<close> lines 14--24)\<close>

definition owner_gmv :: "order list \<Rightarrow> cents" where
  "owner_gmv os = foldl (\<lambda>acc od. acc + total_fee od) 0 os + 14500000"

definition platform_revenue :: "cents \<Rightarrow> rat" where
  "platform_revenue g = of_int g * (1 / 5)"

record owner_kpis =
  kpi_gmv :: cents
  kpi_commission :: rat
  kpi_active_drivers :: nat

definition owner_render :: "app_state \<Rightarrow> owner_kpis js" where
  "owner_render s =
     (let gmv = owner_gmv (orders s); rev = platform_revenue gmv
      in js_bind (js_length (store_drivers s))
           (\<lambda>n. Inr \<lparr>kpi_gmv = gmv, kpi_commission = rev, kpi_active_drivers = n + 84\<rparr>))"

subsection \<open>The unrouted admin dashboard (\<open>AdminDashboard.tsx\<close> lines 14--24, 104)\<close>

definition admin_gmv :: "order list \<Rightarrow> cents" where
  "admin_gmv os = foldl (\<lambda>acc od. acc + total_fee od) 0 os + 12500000"

definition status_distribution :: "order list \<Rightarrow> (string \<times> nat) list" where
  "status_distribution os =
     [(''Delivered'', length (filter (\<lambda>od. status od = DELIVERED) os) + 420),
      (''Active'', length (filter (\<lambda>od. status od \<noteq> DELIVERED \<and> status od \<noteq> CANCELLED) os) + 32),
      (''Cancelled'', length (filter (\<lambda>od. status od = CANCELLED) os) + 12)]"

text \<open>The centre of the pie chart: \<open>statusDistribution.reduce((a,b) => a+b.value, 0)\<close>.\<close>

definition distribution_total :: "(string \<times> nat) list \<Rightarrow> nat" where
  "distribution_total d = foldl (\<lambda>a b. a + snd b) 0 d"

record admin_insights =
  ai_gmv :: cents
  ai_revenue :: rat
  ai_active_fleet :: nat
  ai_distribution :: "(string \<times> nat) list"

definition admin_render :: "app_state \<Rightarrow> admin_insights js" where
  "admin_render s =
     (let g = admin_gmv (orders s); r = platform_revenue g
      in js_bind (js_filter dp_is_online (store_drivers s))
           (\<lambda>ds. Inr \<lparr>ai_gmv = g, ai_revenue = r, ai_active_fleet = length ds,
                     ai_distribution = status_distribution (orders s)\<rparr>))"

subsection \<open>The screens that render\<close>

text \<open>
  The restaurant admin screen (\<open>RestaurantAdminDashboard.tsx\<close> lines 12--22, 53): its
  restaurant, the \<open>Today Orders\<close> count and the two lists. Optional chaining
  (\<open>myRest?.logo\<close>) makes a missing restaurant harmless.
\<close>

record restaurant_view =
  rv_rest :: "restaurant option"
  rv_today_orders :: nat
  rv_pending :: "order list"
  rv_active :: "order list"

definition restaurant_admin_render :: "app_state \<Rightarrow> restaurant_view js" where
  "restaurant_admin_render s =
     Inr \<lparr>rv_rest = my_rest s, rv_today_orders = length (my_orders s),
          rv_pending = pending_orders s, rv_active = active_orders s\<rparr>"

text \<open>
  The customer screen (\<open>CustomerApp.tsx\<close> lines 15--18, 60): the chosen restaurant's
  menu and the tray's amounts. Every read is of a defined value or guarded by
  \<open>&&\<close>.
\<close>

record customer_view =
  cv_menu :: "menu_item list option"
  cv_subtotal :: cents
  cv_total :: cents

definition customer_render :: "customer_ui \<Rightarrow> app_state \<Rightarrow> customer_view js" where
  "customer_render u s =
     Inr \<lparr>cv_menu = map_option (\<lambda>r. rest_menu r s) (selected_rest u),
          cv_subtotal = food_subtotal_of (cart s), cv_total = total_order_amount (cart s)\<rparr>"

text \<open>The login screen (\<open>Login.tsx\<close> lines 22--25): one button per demo user, which calls \<open>login(user.email)\<close>.\<close>

definition login_buttons :: "string list" where
  "login_buttons = map email MOCK_USERS"

definition login_render :: "app_state \<Rightarrow> string list js" where
  "login_render s = Inr login_buttons"

text \<open>The render of the screen \<open>App.tsx\<close> routes to, forgetting what it computed.\<close>

fun screen_render :: "screen \<Rightarrow> sys \<Rightarrow> unit js" where
  "screen_render LoginScreen \<sigma> = js_bind (login_render (store \<sigma>)) (\<lambda>_. Inr ())"
| "screen_render OwnerScreen \<sigma> = js_bind (owner_render (store \<sigma>)) (\<lambda>_. Inr ())"
| "screen_render RestaurantAdminScreen \<sigma> = js_bind (restaurant_admin_render (store \<sigma>)) (\<lambda>_. Inr ())"
| "screen_render CustomerScreen \<sigma> = js_bind (customer_render (ui \<sigma>) (store \<sigma>)) (\<lambda>_. Inr ())"
| "screen_render DriverScreen \<sigma> = js_bind (driver_render (store \<sigma>)) (\<lambda>_. Inr ())"

subsection \<open>Lemmas\<close>

lemma owner_gmv_sum_list: "owner_gmv os = sum_list (map total_fee os) + 14500000"
  by (simp add: owner_gmv_def foldl_add_sum_list)

lemma distribution_total_sum_list: "distribution_total d = sum_list (map snd d)"
  by (simp add: distribution_total_def foldl_add_sum_list)

lemma total_fee_map_where [simp]:
  "map total_fee (map_where P (set_order_status st d now) os) = map total_fee os"
  by (induction os) simp_all

lemma new_order_total_nonneg:
  assumes "\<forall>li \<in> set (cart s). 0 \<le> total_price li"
  shows "0 \<le> total_fee (new_order k now u s)"
proof -
  have "0 \<le> food_subtotal_of (cart s)" using assms by (rule food_subtotal_of_nonneg)
  then show ?thesis by (simp add: total_order_amount_def DELIVERY_FEE_def SERVICE_FEE_def)
qed

lemma reachable_totals_nonneg:
  "reachable \<sigma> \<Longrightarrow> 0 \<le> sum_list (map total_fee (orders (store \<sigma>)))"
  using reachable_sys_inv [of \<sigma>]
  by (intro sum_list_nonneg) (auto simp: sys_inv_def core_inv_def order_ok_def)

subsection \<open>Properties\<close>

text \<open>
  C6. The crash flag of the application model is the code's behaviour: for every
  screen and every state, the screen renders in the model (\<open>screen_renders\<close>) exactly
  when its render computation returns a value instead of throwing. The driver and
  owner screens throw their \<open>TypeError\<close> in every state; the others never throw.
\<close>

theorem screen_renders_iff_render:
  "screen_renders sc = (\<not> isl (screen_render sc \<sigma>))"
  by (cases sc) (simp_all add: driver_render_def owner_render_def restaurant_admin_render_def
      customer_render_def login_render_def store_drivers_def Let_def)

text \<open>
  C29. The owner's gross merchandise value never decreases and never drops below its
  historical offset: in every reachable state it is at least R145000, and a step
  leaves it unchanged (status changes keep every \<open>totalFee\<close>, also when an order is
  declined) or adds the new order's non-negative total. Cancelled orders stay counted.
\<close>

theorem owner_gmv_monotone:
  assumes "reachable \<sigma>" and "sys_step \<sigma> e = Some \<sigma>'"
  shows "14500000 \<le> owner_gmv (orders (store \<sigma>))
    \<and> owner_gmv (orders (store \<sigma>)) \<le> owner_gmv (orders (store \<sigma>'))"
proof -
  have inv: "sys_inv \<sigma>" using reachable_sys_inv assms(1) .
  have cart: "\<forall>li \<in> set (cart (store \<sigma>)). 0 \<le> total_price li"
    using inv by (simp add: sys_inv_def core_inv_def)
  have base: "14500000 \<le> owner_gmv (orders (store \<sigma>))"
    using reachable_totals_nonneg [OF assms(1)] by (simp add: owner_gmv_sum_list)
  from sys_step_orders_cases [OF assms(2) inv]
  have "owner_gmv (orders (store \<sigma>)) \<le> owner_gmv (orders (store \<sigma>'))"
  proof (elim disjE exE conjE)
    fix k assume "orders (store \<sigma>') = new_order k (clock \<sigma>) (ui \<sigma>) (store \<sigma>) # orders (store \<sigma>)"
    with new_order_total_nonneg [OF cart] show ?thesis by (simp add: owner_gmv_sum_list)
  qed (simp_all add: owner_gmv_sum_list restaurant_click_def orders_update_order_status)
  with base show ?thesis by simp
qed

theorem owner_gmv_monotone_witness:
  "reachable two_orders_state
   \<and> sys_step two_orders_state (EvRestaurant RAccept (kota_order 8 3)) = Some two_orders_accepted
   \<and> 14500000 \<le> owner_gmv (orders (store two_orders_state))
   \<and> owner_gmv (orders (store two_orders_state)) \<le> owner_gmv (orders (store two_orders_accepted))"
proof -
  have r: "reachable two_orders_state" using reachable_fresh_distinct [OF reachable_fresh_two_orders] by simp
  have s: "sys_step two_orders_state (EvRestaurant RAccept (kota_order 8 3)) = Some two_orders_accepted"
    by (rule two_orders_step)
  from owner_gmv_monotone [OF r s] r s show ?thesis by simp
qed

text \<open>
  Each button of the login screen logs in the user it shows: the \<open>i\<close>-th button
  calls \<open>login\<close> with the \<open>i\<close>-th demo user's e-mail, which makes exactly that user
  current (the e-mails are distinct, so \<open>find\<close> hits the right one) and routes to the
  dashboard of that user's role.
\<close>

theorem login_button_logs_in:
  assumes "i < length login_buttons"
  shows "login (login_buttons ! i) s = s\<lparr>current_user := Some (MOCK_USERS ! i)\<rparr>
    \<and> app_screen (login (login_buttons ! i) s) = dashboard_by_role (role (MOCK_USERS ! i))"
proof -
  have "i < 4" using assms by (simp add: login_buttons_def MOCK_USERS_def)
  then have "i = 0 \<or> i = 1 \<or> i = 2 \<or> i = 3" by linarith
  then show ?thesis
    by (elim disjE) (simp_all add: login_buttons_def MOCK_USERS_def login_def app_screen_def)
qed

theorem login_button_logs_in_witness:
  "2 < length login_buttons
   \<and> login (login_buttons ! 2) init_state = init_state\<lparr>current_user := Some (MOCK_USERS ! 2)\<rparr>
   \<and> app_screen (login (login_buttons ! 2) init_state) = DriverScreen"
proof -
  have h: "2 < length login_buttons" by (simp add: login_buttons_def MOCK_USERS_def)
  from login_button_logs_in [OF h, of init_state] h show ?thesis by (simp add: MOCK_USERS_def app_screen_def)
qed

text \<open>
  The pie chart of the unrouted admin dashboard partitions the orders: every
  order is in exactly one of Delivered, Active and Cancelled, so the total in the
  chart's centre is the number of orders plus the 464 historical ones.
\<close>

theorem status_distribution_partition:
  "distribution_total (status_distribution os) = length os + 464"
  by (induction os) (auto simp: status_distribution_def distribution_total_sum_list)

end
