(* ===== verification/RestaurantDashboard.thy ===== *)
theory RestaurantDashboard
  imports Lifecycle
begin

text \<open>
  \<open>src/views/RestaurantDashboard.tsx\<close>, a second restaurant screen that \<open>App.tsx\<close> does
  not route to. It computes its lists with its own code (lines 9--13), sends every
  button through its own \<open>handleUpdate\<close> (lines 15--17) with the status literal of
  the button (lines 79--80, 106--107), and shows two counters (lines 33--36). The
  theory shows that it is observationally the routed \<open>RestaurantAdminDashboard\<close>: the
  same buttons on the same orders with the same effect.
\<close>

definition rd_my_rest :: "app_state \<Rightarrow> restaurant option" where
  "rd_my_rest s = find (\<lambda>r. Some (owner_id r) = map_option user_id (current_user s)) (restaurants s)"

definition rd_my_orders :: "app_state \<Rightarrow> order list" where
  "rd_my_orders s = filter (\<lambda>od. restaurant_id od = map_option rest_id (rd_my_rest s)) (orders s)"

definition rd_pending_orders :: "app_state \<Rightarrow> order list" where
  "rd_pending_orders s = filter (\<lambda>od. status od = PENDING) (rd_my_orders s)"

definition rd_active_orders :: "app_state \<Rightarrow> order list" where
  "rd_active_orders s =
     filter (\<lambda>od. status od \<in> set [RESTAURANT_ACCEPTED, PREPARING, READY_FOR_PICKUP]) (rd_my_orders s)"

definition rd_handle_update :: "ident \<Rightarrow> order_status \<Rightarrow> timestamp \<Rightarrow> app_state \<Rightarrow> app_state" where
  "rd_handle_update oid st now s = update_order_status oid st None now s"

fun rd_button_status :: "restaurant_action \<Rightarrow> order_status" where
  "rd_button_status RDecline = CANCELLED"
| "rd_button_status RAccept = RESTAURANT_ACCEPTED"
| "rd_button_status RPrep = PREPARING"
| "rd_button_status RReady = READY_FOR_PICKUP"

fun rd_offers :: "restaurant_action \<Rightarrow> order \<Rightarrow> app_state \<Rightarrow> bool" where
  "rd_offers RDecline od s = (od \<in> set (rd_pending_orders s))"
| "rd_offers RAccept od s = (od \<in> set (rd_pending_orders s))"
| "rd_offers RPrep od s = (od \<in> set (rd_active_orders s))"
| "rd_offers RReady od s = (od \<in> set (rd_active_orders s))"

definition rd_click :: "restaurant_action \<Rightarrow> order \<Rightarrow> timestamp \<Rightarrow> app_state \<Rightarrow> app_state" where
  "rd_click a od now s = rd_handle_update (order_id od) (rd_button_status a) now s"

text \<open>\<open>Unchecked Orders\<close> and \<open>Kitchen Prep\<close>.\<close>

definition rd_counters :: "app_state \<Rightarrow> nat \<times> nat" where
  "rd_counters s = (length (rd_pending_orders s), length (rd_active_orders s))"

subsection \<open>Lemmas\<close>

lemma rd_lists_agree:
  "rd_my_rest s = my_rest s" "rd_my_orders s = my_orders s"
  "rd_pending_orders s = pending_orders s" "rd_active_orders s = active_orders s"
  by (simp_all add: rd_my_rest_def my_rest_def rd_my_orders_def my_orders_def
      rd_pending_orders_def pending_orders_def rd_active_orders_def active_orders_def)

subsection \<open>Properties\<close>

text \<open>
  C30. The unrouted \<open>RestaurantDashboard\<close> is equivalent to the routed admin screen:
  in every state it offers each button on exactly the same orders, each click changes
  the store exactly as the admin screen's click does, and its two counters count the
  admin screen's pending and active lists.
\<close>

theorem restaurant_dashboard_equiv:
  "rd_offers a od s = restaurant_offers a od s
   \<and> rd_click a od now s = restaurant_click a od now s
   \<and> rd_counters s = (length (pending_orders s), length (active_orders s))"
  by (cases a) (simp_all add: rd_lists_agree rd_click_def rd_handle_update_def restaurant_click_def rd_counters_def)

end
