(* ===== verification/Display.thy ===== *)
theory Display
  imports Dashboards RestaurantDashboard
begin

text \<open>
  The text the screens print from the model's data. Three library functions of
  JavaScript carry it: \<open>Number.prototype.toFixed(2)\<close>, which every amount goes through
  after the \<open>CURRENCY\<close> sign (\<open>money\<close>); \<open>String.prototype.replace\<close> with a string
  pattern, which replaces the first occurrence only (\<open>replace_first\<close>); and
  \<open>Array.prototype.join\<close>. Enum members print as their string values
  (\<open>src/types.ts\<close> lines 2--26). Amounts are cents; \<open>toFixed(2)\<close> of a number of
  whole cents prints its integer part, a point and two digits, with a minus sign for a
  negative amount (every amount of the catalogue is below \<open>10^21\<close>, where
  \<open>toFixed\<close> would switch to exponent notation). The separator \<open>' \<bullet> '\<close> of the
  home page's cards is written as its UTF-8 bytes.

  The cards and headers are the data the components print, in the order they print
  it; markup, icons and the constant figures (\<open>Received 4m ago\<close>, \<open>+R18.00\<close>
  payouts) are left out.
\<close>

subsection \<open>Library functions\<close>

fun order_status_str :: "order_status \<Rightarrow> string" where
  "order_status_str PENDING = ''PENDING''"
| "order_status_str RESTAURANT_ACCEPTED = ''RESTAURANT_ACCEPTED''"
| "order_status_str PREPARING = ''PREPARING''"
| "order_status_str READY_FOR_PICKUP = ''READY_FOR_PICKUP''"
| "order_status_str ACCEPTED = ''ACCEPTED''"
| "order_status_str PICKED_UP = ''PICKED_UP''"
| "order_status_str IN_TRANSIT = ''IN_TRANSIT''"
| "order_status_str DELIVERED = ''DELIVERED''"
| "order_status_str CANCELLED = ''CANCELLED''"

fun user_role_str :: "user_role \<Rightarrow> string" where
  "user_role_str OWNER = ''OWNER''"
| "user_role_str RESTAURANT_ADMIN = ''RESTAURANT_ADMIN''"
| "user_role_str DRIVER = ''DRIVER''"
| "user_role_str CUSTOMER = ''CUSTOMER''"

fun payment_method_str :: "payment_method \<Rightarrow> string" where
  "payment_method_str CARD = ''CARD''"
| "payment_method_str EFT_POP = ''EFT_POP''"
| "payment_method_str CASH = ''CASH''"
| "payment_method_str WALLET = ''WALLET''"

text \<open>\<open>s.replace(p, r)\<close> for a string \<open>p\<close>: the first occurrence of \<open>p\<close>, if any, is replaced.\<close>

fun replace_first :: "string \<Rightarrow> string \<Rightarrow> string \<Rightarrow> string" where
  "replace_first p r [] = (if p = [] then r else [])"
| "replace_first p r (c # cs) =
     (if take (length p) (c # cs) = p then r @ drop (length p) (c # cs) else c # replace_first p r cs)"

definition fixed2_nat :: "nat \<Rightarrow> string" where
  "fixed2_nat n = decimal (n div 100) @ ''.'' @ [char_of (48 + n mod 100 div 10), char_of (48 + n mod 10)]"

definition to_fixed2 :: "cents \<Rightarrow> string" where
  "to_fixed2 c = (if c < 0 then ''-'' else []) @ fixed2_nat (nat \<bar>c\<bar>)"

definition money :: "cents \<Rightarrow> string" where
  "money c = CURRENCY @ to_fixed2 c"

fun js_join :: "string \<Rightarrow> string list \<Rightarrow> string" where
  "js_join sep [] = []"
| "js_join sep [x] = x"
| "js_join sep (x # y # xs) = x @ sep @ js_join sep (y # xs)"

definition BULLET_SEP :: string where
  "BULLET_SEP = [CHR '' '', CHR 0xE2, CHR 0x80, CHR 0xA2, CHR '' '']"

text \<open>\<open>` ${n}`\<close> of an optional number: \<open>undefined\<close> prints as the word.\<close>

fun js_num_str :: "nat option \<Rightarrow> string" where
  "js_num_str None = ''undefined''"
| "js_num_str (Some n) = decimal n"

text \<open>Reading a printed amount back: the inverse of \<open>money\<close> on its image.\<close>

definition parse_fixed2 :: "string \<Rightarrow> nat option" where
  "parse_fixed2 s =
     (case dropWhile (\<lambda>c. c \<noteq> CHR ''.'') s of
        [_, a, b] \<Rightarrow> Some (undecimal (takeWhile (\<lambda>c. c \<noteq> CHR ''.'') s) * 100 + undecimal [a, b])
      | _ \<Rightarrow> None)"

definition parse_money :: "string \<Rightarrow> cents option" where
  "parse_money s =
     (case s of
        c # rest \<Rightarrow>
          if c \<noteq> CHR ''R'' then None
          else (case rest of
                  d # rest' \<Rightarrow> if d = CHR ''-'' then map_option (\<lambda>n. - int n) (parse_fixed2 rest')
                              else map_option int (parse_fixed2 rest)
                | [] \<Rightarrow> None)
      | [] \<Rightarrow> None)"

subsection \<open>Labels\<close>

text \<open>\<open>order.status.replace('_', ' ')\<close> (\<open>RestaurantAdminDashboard.tsx\<close> line 99).\<close>

definition status_label :: "order_status \<Rightarrow> string" where
  "status_label st = replace_first ''_'' '' '' (order_status_str st)"

text \<open>\<open>user.role.replace('_', ' ')\<close> (\<open>Login.tsx\<close> line 30).\<close>

definition role_label :: "user_role \<Rightarrow> string" where
  "role_label r = replace_first ''_'' '' '' (user_role_str r)"

text \<open>\<open>order.paymentMethod.replace('_', ' ')\<close> (\<open>RestaurantDashboard.tsx\<close> line 62).\<close>

definition payment_label :: "payment_method \<Rightarrow> string" where
  "payment_label m = replace_first ''_'' '' '' (payment_method_str m)"

subsection \<open>Cards and headers\<close>

text \<open>A line of an order as the restaurant screens print it: \<open>{item.quantity}x {item.name}\<close> and its price.\<close>

definition item_row :: "cart_item \<Rightarrow> string \<times> string" where
  "item_row li = (decimal (quantity li) @ ''x '' @ ci_name li, money (total_price li))"

text \<open>\<open>order.items?.map(...)\<close>: no rows when the member is absent.\<close>

definition item_rows :: "order \<Rightarrow> (string \<times> string) list" where
  "item_rows od = (case items od of None \<Rightarrow> [] | Some ls \<Rightarrow> map item_row ls)"

record pending_card =
  pc_title :: string
  pc_total :: string
  pc_rows :: "(string \<times> string) list"

definition admin_pending_card :: "order \<Rightarrow> pending_card" where
  "admin_pending_card od =
     \<lparr>pc_title = ''Order #'' @ order_id od, pc_total = money (total_fee od), pc_rows = item_rows od\<rparr>"

definition admin_active_card :: "order \<Rightarrow> string \<times> string" where
  "admin_active_card od = (''Order #'' @ order_id od, status_label (status od))"

text \<open>
  The pending card of the unrouted \<open>RestaurantDashboard\<close> (lines 53--76) adds the payment
  method and a \<open>Size:\<close> line for a line with a variation.
\<close>

definition rd_item_row :: "cart_item \<Rightarrow> string \<times> string \<times> string option" where
  "rd_item_row li = (decimal (quantity li) @ ''x '' @ ci_name li, money (total_price li),
                     map_option (\<lambda>v. ''Size: '' @ var_name v) (ci_variation li))"

definition rd_pending_card :: "order \<Rightarrow> string \<times> string \<times> string \<times> (string \<times> string \<times> string option) list" where
  "rd_pending_card od =
     (''Order #'' @ order_id od, money (total_fee od), payment_label (payment od),
      case items od of None \<Rightarrow> [] | Some ls \<Rightarrow> map rd_item_row ls)"

definition rd_active_card :: "order \<Rightarrow> string \<times> string" where
  "rd_active_card od =
     (''Order #'' @ order_id od,
      js_num_str (map_option length (items od)) @ '' Items'' @ BULLET_SEP @ ''Preparing'')"

text \<open>The driver's active card (\<open>DriverApp.tsx\<close> lines 55--96) and its button label.\<close>

record driver_card =
  dc_title :: string
  dc_kind :: string
  dc_total :: string
  dc_pickup :: string
  dc_dropoff :: string
  dc_button :: string

definition driver_active_card :: "order \<Rightarrow> driver_card" where
  "driver_active_card od =
     \<lparr>dc_title = ''Order #'' @ order_id od,
      dc_kind = (if js_truthy (restaurant_id od) then ''Food Collective'' else ''Parcel Logistic''),
      dc_total = money (total_fee od), dc_pickup = pickup_address od, dc_dropoff = dropoff_address od,
      dc_button = (if status od = ACCEPTED then ''Arrived at Pickup''
                   else if status od = PICKED_UP then ''Order Collected'' else ''Mark as Delivered'')\<rparr>"

text \<open>An available order (\<open>DriverApp.tsx\<close> lines 112--127): its restaurant's name and zone, or the defaults.\<close>

definition driver_available_card :: "restaurant list \<Rightarrow> order \<Rightarrow> string \<times> string" where
  "driver_available_card rs od =
     (let r = find (\<lambda>r. Some (rest_id r) = restaurant_id od) rs
      in (case r of Some x \<Rightarrow> if rest_name x \<noteq> [] then rest_name x else ''Logistic Package''
                  | None \<Rightarrow> ''Logistic Package'',
          case r of Some x \<Rightarrow> if zone x \<noteq> [] then zone x else ''Central Zone''
                  | None \<Rightarrow> ''Central Zone''))"

text \<open>The customer screen: a menu card (lines 87--93), a variation of the modal (lines 119--126), the restaurant header (lines 70--78), the tray's header (lines 146--151) and the home page's cards (lines 203--244).\<close>

definition menu_card :: "menu_item \<Rightarrow> string \<times> string \<times> string" where
  "menu_card it = (item_name it, description it, money (base_price it))"

definition variation_option :: "menu_item_variation option \<Rightarrow> menu_item_variation \<Rightarrow> bool \<times> string \<times> string" where
  "variation_option sv v = (map_option var_id sv = Some (var_id v), var_name v, ''+'' @ money (var_price v))"

definition rest_header :: "restaurant \<Rightarrow> bool \<times> string \<times> string \<times> string" where
  "rest_header r =
     (is_chain r = Some True, zone r, rest_name r,
      rating r @ BULLET_SEP @ delivery_time r @ BULLET_SEP @ js_join '', '' (categories r))"

definition tray_header :: "restaurant \<Rightarrow> app_state \<Rightarrow> string \<times> string" where
  "tray_header r s = (decimal (length (cart s)) @ '' Items from '' @ rest_name r, money (total_order_amount (cart s)))"

definition payment_options :: "(payment_method \<times> string) list" where
  "payment_options = [(CARD, ''Card''), (CASH, ''Cash on Delivery''), (EFT_POP, ''EFT (Upload POP)''), (WALLET, ''Wallet'')]"

definition home_card :: "restaurant \<Rightarrow> string \<times> string \<times> bool \<times> string" where
  "home_card r = (rest_name r, js_join BULLET_SEP (categories r), is_chain r = Some True, CURRENCY @ ''25.00 Delivery'')"

definition category_strip :: "string list" where
  "category_strip = map cat_name FOOD_CATEGORIES"

text \<open>The shell: a login button (\<open>Login.tsx\<close> lines 29--30) and the header of \<open>Layout.tsx\<close> (lines 17--27), which prints the raw role.\<close>

definition login_button :: "user \<Rightarrow> string \<times> string" where
  "login_button u = (user_name u, role_label (role u))"

definition layout_header :: "user option \<Rightarrow> string \<times> string \<times> string \<times> string" where
  "layout_header cu =
     (APP_NAME, case cu of None \<Rightarrow> [] | Some u \<Rightarrow> user_role_str (role u),
      case cu of None \<Rightarrow> [] | Some u \<Rightarrow> user_name u,
      case cu of None \<Rightarrow> [] | Some u \<Rightarrow> email u)"

subsection \<open>Lemmas\<close>

lemma digit_char_not_dot: "d < (10::nat) \<Longrightarrow> char_of (48 + d) \<noteq> CHR ''.''"
proof
  assume "d < 10" and "char_of (48 + d) = CHR ''.''"
  then have "of_char (char_of (48 + d)) = (of_char (CHR ''.'') :: nat)" by simp
  with \<open>d < 10\<close> show False by simp
qed

lemma dot_not_in_decimal: "CHR ''.'' \<notin> set (decimal n)"
proof
  assume "CHR ''.'' \<in> set (decimal n)"
  then obtain d where "d < (10::nat)" and "CHR ''.'' = char_of (48 + d)" using decimal_digits by blast
  with digit_char_not_dot show False by metis
qed

lemma undecimal_two_digits:
  "a < 10 \<Longrightarrow> b < 10 \<Longrightarrow> undecimal [char_of (48 + a), char_of (48 + b)] = a * 10 + b"
  by (simp add: undecimal_def)

lemma parse_fixed2_nat: "parse_fixed2 (fixed2_nat n) = Some n"
proof -
  have nd: "\<And>x. x \<in> set (decimal (n div 100)) \<Longrightarrow> x \<noteq> CHR ''.''"
    using dot_not_in_decimal [of "n div 100"] by auto
  have tw: "takeWhile (\<lambda>c. c \<noteq> CHR ''.'') (fixed2_nat n) = decimal (n div 100)"
    unfolding fixed2_nat_def by (subst takeWhile_append2) (simp_all add: nd)
  have dw: "dropWhile (\<lambda>c. c \<noteq> CHR ''.'') (fixed2_nat n)
      = [CHR ''.'', char_of (48 + n mod 100 div 10), char_of (48 + n mod 10)]"
    unfolding fixed2_nat_def by (subst dropWhile_append2) (simp_all add: nd)
  have a: "n mod 100 div 10 < 10" by simp
  have b: "n mod (10::nat) < 10" by simp
  have e1: "n mod 100 div 10 * 10 + n mod 100 mod 10 = n mod (100::nat)" by (rule div_mult_mod_eq)
  have e2: "n mod 100 mod 10 = n mod (10::nat)" by (rule mod_mod_cancel) simp
  have "n mod 100 div 10 * 10 + n mod 10 = n mod 100" using e1 e2 by simp
  then have "undecimal [char_of (48 + n mod 100 div 10), char_of (48 + n mod 10)] = n mod 100"
    using undecimal_two_digits [OF a b] by simp
  with tw dw show ?thesis by (simp add: parse_fixed2_def)
qed
lemma digit_char_not_minus: "d < (10::nat) \<Longrightarrow> char_of (48 + d) \<noteq> CHR ''-''"
proof
  assume "d < 10" and "char_of (48 + d) = CHR ''-''"
  then have "of_char (char_of (48 + d)) = (of_char (CHR ''-'') :: nat)" by simp
  with \<open>d < 10\<close> show False by simp
qed

lemma fixed2_nat_head: "\<exists>c cs. fixed2_nat n = c # cs \<and> c \<noteq> CHR ''-''"
proof -
  obtain c cs where dc: "decimal (n div 100) = c # cs" using decimal_nonempty by (cases "decimal (n div 100)") auto
  then have "c \<in> set (decimal (n div 100))" by simp
  then obtain d where "d < (10::nat)" "c = char_of (48 + d)" using decimal_digits by blast
  with dc show ?thesis by (auto simp: fixed2_nat_def digit_char_not_minus)
qed

lemma ready_status_label: "status_label READY_FOR_PICKUP = ''READY FOR_PICKUP''"
  by (simp add: status_label_def)

lemma money_delivery_fee: "money DELIVERY_FEE = ''R25.00''"
  by code_simp

lemma home_card_fee_is_delivery_fee:
  "snd (snd (snd (home_card r))) = money DELIVERY_FEE @ '' Delivery''"
  by (simp add: home_card_def money_delivery_fee CURRENCY_def)

lemma parse_money_R:
  "parse_money (CHR ''R'' # s) =
     (case s of d # rest \<Rightarrow> if d = CHR ''-'' then map_option (\<lambda>n. - int n) (parse_fixed2 rest)
                             else map_option int (parse_fixed2 s)
              | [] \<Rightarrow> None)"
  by (simp add: parse_money_def split: list.splits)

subsection \<open>Properties\<close>

text \<open>
  C34. Amounts print faithfully: the text \<open>CURRENCY + x.toFixed(2)\<close> that the screens
  show for an amount of \<open>x\<close> cents reads back as exactly \<open>x\<close>, negative amounts
  included, so two different amounts never print alike and the total a card or the
  tray shows is the total the order carries.
\<close>

theorem money_roundtrip:
  "parse_money (money c) = Some c \<and> (money a = money b \<longleftrightarrow> a = b)"
proof -
  have rt: "parse_money (money x) = Some x" for x
  proof (cases "x < 0")
    case True
    then have "money x = CHR ''R'' # CHR ''-'' # fixed2_nat (nat \<bar>x\<bar>)"
      by (simp add: money_def CURRENCY_def to_fixed2_def)
    moreover have "- int (nat \<bar>x\<bar>) = x" using True by simp
    ultimately show ?thesis by (simp add: parse_money_R parse_fixed2_nat)
  next
    case False
    obtain d ds where h: "fixed2_nat (nat \<bar>x\<bar>) = d # ds" and nd: "d \<noteq> CHR ''-''"
      using fixed2_nat_head by blast
    from False have m: "money x = CHR ''R'' # fixed2_nat (nat \<bar>x\<bar>)"
      by (simp add: money_def CURRENCY_def to_fixed2_def)
    have p: "parse_fixed2 (d # ds) = Some (nat \<bar>x\<bar>)"
      using parse_fixed2_nat [of "nat \<bar>x\<bar>"] unfolding h .
    have "int (nat \<bar>x\<bar>) = x" using False by simp
    with p have "map_option int (parse_fixed2 (d # ds)) = Some x" by simp
    with m h nd show ?thesis by (simp add: parse_money_R)
  qed
  have "a = b" if "money a = money b"
  proof -
    have "Some a = Some b" using rt [of a] rt [of b] that by (metis)
    then show ?thesis by simp
  qed
  with rt show ?thesis by auto
qed

end
