(* ===== verification/Pages.thy ===== *)
theory Pages
  imports Display
begin

text \<open>
  Whole screens as the components lay them out: which cards a screen shows for a
  state, in which order, which button is highlighted and which message replaces an
  empty list. The cards themselves are those of \<open>Display\<close>; class names, images,
  icons and the charts' constant data are not part of the model. A text node
  \<open>{x}\<close> of an \<open>undefined\<close> value renders nothing (\<open>js_or_empty\<close>); a number renders
  in decimal.
\<close>

subsection \<open>The customer screen (\<open>CustomerApp.tsx\<close> lines 59--251)\<close>

text \<open>The item modal (lines 102--139): the size section is shown when \<open>variations\<close>
  is defined; an empty array is truthy, so the section then shows with no option.\<close>

record item_modal =
  im_image :: string
  im_name :: string
  im_description :: string
  im_sizes :: "(bool \<times> string \<times> string) list option"

definition item_modal :: "menu_item \<Rightarrow> menu_item_variation option \<Rightarrow> item_modal" where
  "item_modal it sv =
     \<lparr>im_image = image it, im_name = item_name it, im_description = description it,
      im_sizes = map_option (map (variation_option sv)) (variations it)\<rparr>"

text \<open>The checkout tray (lines 142--181): its header, and the four payment buttons,
  the one of the chosen method highlighted (line 168).\<close>

record tray =
  tr_items :: string
  tr_total :: string
  tr_payments :: "(string \<times> bool) list"

definition checkout_tray :: "restaurant \<Rightarrow> customer_ui \<Rightarrow> app_state \<Rightarrow> tray" where
  "checkout_tray r u s =
     \<lparr>tr_items = fst (tray_header r s), tr_total = snd (tray_header r s),
      tr_payments = map (\<lambda>(m, l). (l, payment_choice u = m)) payment_options\<rparr>"

datatype customer_page =
    HomePage "string list" "(string \<times> string \<times> bool \<times> string) list"
  | MenuPage "bool \<times> string \<times> string \<times> string" "(string \<times> string \<times> string) list"
      "item_modal option" "tray option"

definition customer_page :: "customer_ui \<Rightarrow> app_state \<Rightarrow> customer_page" where
  "customer_page u s =
     (case selected_rest u of
        None \<Rightarrow> HomePage category_strip (map home_card (restaurants s))
      | Some r \<Rightarrow> MenuPage (rest_header r) (map menu_card (rest_menu r s))
          (map_option (\<lambda>it. item_modal it (selected_var u)) (selected_item u))
          (if cart s = [] then None else Some (checkout_tray r u s)))"

subsection \<open>The kitchen screens\<close>

text \<open>
  Both restaurant screens have the same layout: a title and subtitle, three stat
  tiles, the pending tickets (or a message when there is none) and the active queue
  (or a message), each queue card with its Prep and Ready buttons, the one of the
  order's status highlighted (\<open>RestaurantAdminDashboard.tsx\<close> lines 103--104,
  \<open>RestaurantDashboard.tsx\<close> lines 106--107). Both buttons stay enabled.
\<close>

record 'p kitchen_page =
  kp_title :: string
  kp_subtitle :: string
  kp_stats :: "(string \<times> string) list"
  kp_badge :: "string option"
  kp_pending :: "'p list"
  kp_pending_empty :: "string option"
  kp_active :: "((string \<times> string) \<times> (string \<times> bool) list) list"
  kp_active_empty :: "string option"

definition queue_buttons :: "order \<Rightarrow> (string \<times> bool) list" where
  "queue_buttons od = [(''Prep'', status od = PREPARING), (''Ready'', status od = READY_FOR_PICKUP)]"

definition rad_stats :: "restaurant_view \<Rightarrow> (string \<times> string) list" where
  "rad_stats v =
     [(''Today Orders'', decimal (rv_today_orders v)), (''Net Earnings'', CURRENCY @ ''4,850''),
      (''Avg Prep Time'', ''12m'')]"

definition rad_page :: "restaurant_view \<Rightarrow> pending_card kitchen_page" where
  "rad_page v =
     \<lparr>kp_title = js_or_empty (map_option rest_name (rv_rest v)),
      kp_subtitle = ''Branch Ops'' @ BULLET_SEP @ js_or_empty (map_option zone (rv_rest v)),
      kp_stats = rad_stats v,
      kp_badge = Some (decimal (length (rv_pending v)) @ '' New''),
      kp_pending = map admin_pending_card (rv_pending v),
      kp_pending_empty = (if rv_pending v = [] then Some ''Kitchen Quiet'' else None),
      kp_active = map (\<lambda>od. (admin_active_card od, queue_buttons od)) (rv_active v),
      kp_active_empty = (if rv_active v = [] then Some ''No active prep.'' else None)\<rparr>"

definition rd_stats :: "app_state \<Rightarrow> (string \<times> string) list" where
  "rd_stats s =
     [(''Unchecked Orders'', decimal (length (rd_pending_orders s))),
      (''Kitchen Prep'', decimal (length (rd_active_orders s))),
      (''Today'' @ [CHR 0x27] @ ''s Payout'', CURRENCY @ ''4,850'')]"

definition rd_page ::
  "app_state \<Rightarrow> (string \<times> string \<times> string \<times> (string \<times> string \<times> string option) list) kitchen_page" where
  "rd_page s =
     \<lparr>kp_title = js_or_empty (map_option rest_name (rd_my_rest s)) @ '' Kitchen'',
      kp_subtitle = ''Orders flowing from '' @ js_or_empty (map_option zone (rd_my_rest s)) @ ''.'',
      kp_stats = rd_stats s,
      kp_badge = None,
      kp_pending = map rd_pending_card (rd_pending_orders s),
      kp_pending_empty = (if rd_pending_orders s = [] then Some ''No New Orders'' else None),
      kp_active = map (\<lambda>od. (rd_active_card od, queue_buttons od)) (rd_active_orders s),
      kp_active_empty = (if rd_active_orders s = [] then Some ''Queue is empty.'' else None)\<rparr>"

subsection \<open>The driver screen's lists (\<open>DriverApp.tsx\<close> lines 51--141)\<close>

record driver_page =
  dpg_active :: "driver_card list"
  dpg_active_empty :: "string option"
  dpg_available :: "((string \<times> string) \<times> string \<times> string) list"

definition driver_page :: "restaurant list \<Rightarrow> driver_view \<Rightarrow> driver_page" where
  "driver_page rs v =
     \<lparr>dpg_active = map driver_active_card (dv_active v),
      dpg_active_empty = (if dv_active v = [] then Some ''No Active Tasks'' else None),
      dpg_available = map (\<lambda>od. (driver_available_card rs od, ''+'' @ CURRENCY @ ''18.00'', ''Accept Task''))
                        (dv_available v)\<rparr>"

subsection \<open>Vendor tables and the login screen\<close>

text \<open>\<open>PlatformOwnerDashboard.tsx\<close>: the period tabs (lines 42--44, \<open>Monthly\<close>
  highlighted) and the vendor table (lines 139--149).\<close>

definition period_tabs :: "(string \<times> bool) list" where
  "period_tabs = map (\<lambda>t. (t, t = ''Monthly'')) [''Daily'', ''Weekly'', ''Monthly'']"

definition owner_vendor_row :: "restaurant \<Rightarrow> string \<times> string \<times> string \<times> string \<times> string" where
  "owner_vendor_row r = (rest_name r, owner_id r, zone r, ''20.0%'', ''Verified'')"

text \<open>\<open>AdminDashboard.tsx\<close>: the registered count and the vendor table (lines 125--158).\<close>

definition admin_vendor_table ::
  "restaurant list \<Rightarrow> string \<times> (string \<times> string \<times> string \<times> string \<times> string \<times> string) list" where
  "admin_vendor_table rs =
     (decimal (length rs) @ '' Registered'',
      map (\<lambda>r. (logo r, rest_name r, zone r, CURRENCY @ ''145.00'', ''75/20/5 Approved'', ''Verified'')) rs)"

text \<open>\<open>Login.tsx\<close> lines 9--48: the title, the subtitle and one button per demo user.\<close>

definition login_page :: "string \<times> string \<times> (string \<times> string) list" where
  "login_page = (''SwiftDrop SA'', ''Enterprise Marketplace Portal'', map login_button MOCK_USERS)"

subsection \<open>Lemmas\<close>

lemma tray_one_payment_highlighted:
  "\<exists>l. filter snd (tr_payments (checkout_tray r u s)) = [(l, True)]
     \<and> (payment_choice u, l) \<in> set payment_options"
  by (cases "payment_choice u") (simp_all add: checkout_tray_def payment_options_def)

lemma queue_buttons_highlight:
  "length (filter snd (queue_buttons od)) \<le> 1"
  "status od = RESTAURANT_ACCEPTED \<Longrightarrow> filter snd (queue_buttons od) = []"
  by (simp_all add: queue_buttons_def)

lemma login_page_title: "fst login_page = APP_NAME"
  by (simp add: login_page_def APP_NAME_def)

lemma today_orders_counts_every_order:
  "kp_stats (rad_page (projr (restaurant_admin_render (store two_orders_state)))) ! 0 = (''Today Orders'', decimal 2)
   \<and> status (orders (store two_orders_state) ! 1) = CANCELLED"
  by (simp add: rad_page_def rad_stats_def restaurant_admin_render_def two_orders_state_def my_orders_def
      my_rest_def kota_order_def new_order_def MOCK_RESTAURANTS_def MOCK_USERS_def init_state_def numeral_2_eq_2)

lemma owner_table_lists_unknown_owner:
  "fst (snd (owner_vendor_row (MOCK_RESTAURANTS ! 1))) = ''deb-corp''
   \<and> snd (snd (snd (snd (owner_vendor_row (MOCK_RESTAURANTS ! 1))))) = ''Verified''
   \<and> ''deb-corp'' \<notin> user_id ` set MOCK_USERS"
  by (simp add: owner_vendor_row_def MOCK_RESTAURANTS_def MOCK_USERS_def)

subsection \<open>Properties\<close>

text \<open>
  C39. The checkout tray shows what the order will charge: on a restaurant's menu with a
  non-empty cart the screen shows the tray, its total is the printed \<open>totalFee\<close> of the
  order that its Place Order button creates, and exactly one payment button is
  highlighted, the one of the method the order records.
\<close>

theorem checkout_tray_shows_charge:
  assumes r: "selected_rest u = Some r" and ne: "cart s \<noteq> []"
  shows "\<exists>md t. customer_page u s = MenuPage (rest_header r) (map menu_card (rest_menu r s)) md (Some t)
     \<and> tr_total t = money (total_fee (hd (orders (snd (handle_place_order k now (u, s))))))
     \<and> (\<exists>l. filter snd (tr_payments t) = [(l, True)]
            \<and> (payment (hd (orders (snd (handle_place_order k now (u, s))))), l) \<in> set payment_options)"
proof -
  have od: "hd (orders (snd (handle_place_order k now (u, s)))) = new_order k now u s"
    using ne by (simp add: handle_place_order_def place_order_def)
  let ?md = "map_option (\<lambda>it. item_modal it (selected_var u)) (selected_item u)"
  let ?t = "checkout_tray r u s"
  have p: "customer_page u s = MenuPage (rest_header r) (map menu_card (rest_menu r s)) ?md (Some ?t)"
    using r ne by (simp add: customer_page_def)
  have t: "tr_total ?t = money (total_fee (new_order k now u s))"
    by (simp add: checkout_tray_def tray_header_def new_order_def)
  have pm: "payment (new_order k now u s) = payment_choice u" by (simp add: new_order_def)
  obtain l where l: "filter snd (tr_payments ?t) = [(l, True)]" and lm: "(payment_choice u, l) \<in> set payment_options"
    using tray_one_payment_highlighted by blast
  show ?thesis unfolding od
  proof (intro exI conjI)
    show "customer_page u s = MenuPage (rest_header r) (map menu_card (rest_menu r s)) ?md (Some ?t)" by (rule p)
    show "tr_total ?t = money (total_fee (new_order k now u s))" by (rule t)
    show "filter snd (tr_payments ?t) = [(l, True)]" by (rule l)
    show "(payment (new_order k now u s), l) \<in> set payment_options" using lm pm by simp
  qed
qed

theorem checkout_tray_shows_charge_witness:
  "selected_rest (ui customer_state) = Some (MOCK_RESTAURANTS ! 0) \<and> cart (store customer_state) \<noteq> []
   \<and> (\<exists>md t. customer_page (ui customer_state) (store customer_state)
          = MenuPage (rest_header (MOCK_RESTAURANTS ! 0)) (map menu_card (rest_menu (MOCK_RESTAURANTS ! 0) (store customer_state))) md (Some t)
        \<and> tr_total t = money (total_fee (kota_order 5 1)))"
proof -
  have h1: "selected_rest (ui customer_state) = Some (MOCK_RESTAURANTS ! 0)" by (simp add: customer_state_def)
  have h2: "cart (store customer_state) \<noteq> []" by (simp add: customer_state_def)
  have o: "hd (orders (snd (handle_place_order 5 1 (ui customer_state, store customer_state)))) = kota_order 5 1"
    by (simp add: customer_state_def handle_place_order_def place_order_def kota_order_def new_order_def)
  from checkout_tray_shows_charge [OF h1 h2, of 5 1] h1 h2 o show ?thesis by auto
qed

end
