(* ===== verification/Integrity.thy ===== *)
theory Integrity
  imports System
begin

text \<open>
  Referential integrity of the order set. \<open>Order\<close> (\<open>src/types.ts\<close> lines 76--92)
  refers to other records by identifier only: \<open>customerId\<close>, \<open>restaurantId\<close>,
  the \<open>menuItemId\<close> of each line, and it copies the restaurant's address into
  \<open>pickupAddress\<close>; \<open>restaurantId\<close> and \<open>items\<close> are optional members. Nothing in the
  code checks these references. This theory shows that in every reachable state they
  are nevertheless well-typed in the sense of the catalogue: every order names a
  restaurant of the catalogue and carries its address, was placed by a customer
  account, and has a non-empty list of lines for items of the catalogue. The
  invariant \<open>refs_ok\<close> adds what the customer screen keeps on its way to an order: the
  cart lines name catalogue items, and the selected restaurant and item are
  catalogue entries. The invariant \<open>prices_ok\<close> shows in the same way that every line
  and every order is priced from the catalogue (\<open>CustomerApp.tsx\<close> lines 15, 22).
\<close>

definition order_refs_ok :: "order \<Rightarrow> bool" where
  "order_refs_ok od \<longleftrightarrow>
     (\<exists>r \<in> set MOCK_RESTAURANTS. restaurant_id od = Some (rest_id r) \<and> pickup_address od = address r)
     \<and> (\<exists>u \<in> set MOCK_USERS. role u = CUSTOMER \<and> customer_id od = user_id u)
     \<and> (case items od of
          None \<Rightarrow> False
        | Some ls \<Rightarrow> ls \<noteq> [] \<and> list_all (\<lambda>li. ci_menu_item_id li \<in> item_id ` set MOCK_MENU_ITEMS) ls)"

definition refs_ok :: "sys \<Rightarrow> bool" where
  "refs_ok \<sigma> \<longleftrightarrow>
     list_all order_refs_ok (orders (store \<sigma>))
     \<and> list_all (\<lambda>li. ci_menu_item_id li \<in> item_id ` set MOCK_MENU_ITEMS) (cart (store \<sigma>))
     \<and> (case selected_rest (ui \<sigma>) of None \<Rightarrow> True | Some r \<Rightarrow> r \<in> set MOCK_RESTAURANTS)
     \<and> (case selected_item (ui \<sigma>) of None \<Rightarrow> True | Some it \<Rightarrow> it \<in> set MOCK_MENU_ITEMS)"

text \<open>
  Prices of the lines the application stores. A line is priced from the catalogue: the
  base price of the menu item it names plus the price of the variation it records
  (\<open>CustomerApp.tsx\<close> line 22, \<open>selectedMods\<close> is always empty and the quantity 1); an
  order's \<open>foodSubtotal\<close> is the sum of its lines (line 15). The variation a line
  records need not be one of its item's (closing the modal keeps it).
\<close>

definition line_price_ok :: "cart_item \<Rightarrow> bool" where
  "line_price_ok li \<longleftrightarrow> quantity li = 1 \<and> ci_modifiers li = Some []
     \<and> (\<exists>it \<in> set MOCK_MENU_ITEMS. item_id it = ci_menu_item_id li
          \<and> total_price li = base_price it + (case ci_variation li of None \<Rightarrow> 0 | Some v \<Rightarrow> var_price v))"

definition order_price_ok :: "order \<Rightarrow> bool" where
  "order_price_ok od \<longleftrightarrow>
     (case items od of None \<Rightarrow> False
      | Some ls \<Rightarrow> list_all line_price_ok ls \<and> food_subtotal od = food_subtotal_of ls)"

definition prices_ok :: "sys \<Rightarrow> bool" where
  "prices_ok \<sigma> \<longleftrightarrow> list_all order_price_ok (orders (store \<sigma>)) \<and> list_all line_price_ok (cart (store \<sigma>))"

subsection \<open>Lemmas\<close>

lemma order_refs_ok_set_order_status [simp]:
  "order_refs_ok (set_order_status st d now od) = order_refs_ok od"
  by (simp add: order_refs_ok_def)

lemma list_all_map_where_refs:
  "list_all order_refs_ok (map_where P (set_order_status st d now) os) = list_all order_refs_ok os"
  by (induction os) auto

lemma refs_ok_init: "refs_ok init_sys"
  by (simp add: refs_ok_def init_sys_def init_state_def customer_ui_init_def)

lemma customer_screen_user:
  assumes "app_screen s = CustomerScreen"
  obtains u where "current_user s = Some u" and "role u = CUSTOMER"
proof -
  from assms obtain u where u: "current_user s = Some u" and "dashboard_by_role (role u) = CustomerScreen"
    by (auto simp: app_screen_def split: option.splits)
  then have "role u = CUSTOMER" by (cases "role u") simp_all
  with u show ?thesis by (rule that)
qed

lemma new_order_refs_ok:
  assumes ci: "core_inv \<sigma>" and ro: "refs_ok \<sigma>" and scr: "app_screen (store \<sigma>) = CustomerScreen"
    and r: "selected_rest (ui \<sigma>) = Some r" and ne: "cart (store \<sigma>) \<noteq> []"
  shows "order_refs_ok (new_order k now (ui \<sigma>) (store \<sigma>))"
proof -
  obtain u where u: "current_user (store \<sigma>) = Some u" and cu: "role u = CUSTOMER"
    using scr by (rule customer_screen_user)
  have "u \<in> set MOCK_USERS" using ci u by (simp add: core_inv_def)
  moreover have "r \<in> set MOCK_RESTAURANTS" using ro r by (simp add: refs_ok_def)
  ultimately show ?thesis using ro u cu r ne by (auto simp: order_refs_ok_def refs_ok_def new_order_def)
qed

lemma refs_ok_customer_event:
  assumes ci: "core_inv \<sigma>" and ro: "refs_ok \<sigma>" and scr: "app_screen (store \<sigma>) = CustomerScreen"
    and ev: "customer_event \<sigma> e = Some \<tau>"
  shows "refs_ok \<tau>"
proof (cases e)
  case (EvSelectRest r)
  with ev have "r \<in> set (restaurants (store \<sigma>))" and "\<tau> = \<sigma>\<lparr>ui := (ui \<sigma>)\<lparr>selected_rest := Some r\<rparr>\<rparr>"
    by (simp_all split: if_splits)
  with ci ro show ?thesis by (auto simp: core_inv_def refs_ok_def)
next
  case EvBack
  with ev ro show ?thesis by (auto simp: refs_ok_def split: if_splits)
next
  case (EvSelectItem it)
  with ev obtain r where "it \<in> set (rest_menu r (store \<sigma>))"
    and \<tau>: "\<tau> = \<sigma>\<lparr>ui := (ui \<sigma>)\<lparr>selected_item := Some it\<rparr>\<rparr>"
    by (auto split: option.splits if_splits)
  with ci ro show ?thesis by (auto simp: core_inv_def refs_ok_def rest_menu_def)
next
  case EvCloseItem
  with ev ro show ?thesis by (auto simp: refs_ok_def split: if_splits)
next
  case (EvSelectVar v)
  with ev ro show ?thesis by (auto simp: refs_ok_def split: if_splits option.splits)
next
  case EvAddToCart
  with ev obtain it where it: "selected_item (ui \<sigma>) = Some it"
    and \<tau>: "\<tau> = \<sigma>\<lparr>ui := (ui \<sigma>)\<lparr>selected_item := None, selected_var := None, selected_mods := []\<rparr>,
               store := (store \<sigma>)\<lparr>cart := cart (store \<sigma>) @ [cart_line_of it (selected_var (ui \<sigma>)) (selected_mods (ui \<sigma>))]\<rparr>\<rparr>"
    by (auto simp: handle_add_to_cart_Some split: if_splits)
  with ro show ?thesis by (auto simp: refs_ok_def cart_line_of_def)
next
  case (EvSetPayment pm)
  with ev ro show ?thesis by (auto simp: refs_ok_def split: if_splits)
next
  case (EvPlaceOrder k)
  with ev obtain r where r: "selected_rest (ui \<sigma>) = Some r" and ne: "cart (store \<sigma>) \<noteq> []"
    and \<tau>: "\<tau> = \<sigma>\<lparr>ui := (ui \<sigma>)\<lparr>selected_rest := None\<rparr>,
               store := (store \<sigma>)\<lparr>orders := new_order k (clock \<sigma>) (ui \<sigma>) (store \<sigma>) # orders (store \<sigma>), cart := []\<rparr>\<rparr>"
    by (auto simp: handle_place_order_nonempty split: if_splits)
  with new_order_refs_ok [OF ci ro scr r ne, of k "clock \<sigma>"] ro show ?thesis
    by (simp add: refs_ok_def)
qed (use ev in simp_all)

lemma refs_ok_ui_event:
  assumes ci: "core_inv \<sigma>" and ro: "refs_ok \<sigma>" and ev: "ui_event \<sigma> e = Some \<tau>"
  shows "refs_ok \<tau>"
proof (cases e)
  case (EvLogin em)
  with ev ro show ?thesis
    by (auto simp: refs_ok_def login_def customer_ui_init_def split: if_splits option.splits)
next
  case EvLogout
  with ev ro show ?thesis by (auto simp: refs_ok_def logout_def split: if_splits)
next
  case (EvRestaurant a od)
  with ev ro show ?thesis
    by (auto simp: refs_ok_def restaurant_click_def update_order_status_def list_all_map_where_refs split: if_splits)
next
  case (EvDriver a od)
  with ev ro show ?thesis
    by (cases a) (auto simp: refs_ok_def handle_accept_def handle_status_update_def
        update_order_status_def list_all_map_where_refs split: if_splits)
next
  case EvTick
  with ev ro show ?thesis by (auto simp: refs_ok_def)
qed (use ev ci ro refs_ok_customer_event in \<open>auto simp del: customer_event.simps split: if_splits\<close>)

lemma reachable_refs_ok: "reachable \<sigma> \<Longrightarrow> refs_ok \<sigma>"
proof (induction rule: reachable.induct)
  case init
  show ?case by (rule refs_ok_init)
next
  case (step \<sigma> e \<sigma>')
  from step.hyps(2) obtain \<tau> where ev: "ui_event \<sigma> e = Some \<tau>"
    and \<sigma>': "\<sigma>' = \<tau>\<lparr>crashed := \<not> screen_renders (app_screen (store \<tau>))\<rparr>"
    by (auto simp: sys_step_Some)
  have "core_inv \<sigma>" using reachable_sys_inv [OF step.hyps(1)] by (simp add: sys_inv_def)
  from refs_ok_ui_event [OF this step.IH ev] \<sigma>' show ?case by (simp add: refs_ok_def)
qed

lemma order_price_ok_set_order_status [simp]:
  "order_price_ok (set_order_status st d now od) = order_price_ok od"
  by (simp add: order_price_ok_def split: option.splits)

lemma list_all_map_where_prices:
  "list_all order_price_ok (map_where P (set_order_status st d now) os) = list_all order_price_ok os"
  by (induction os) auto

lemma cart_line_of_price_ok:
  "it \<in> set MOCK_MENU_ITEMS \<Longrightarrow> line_price_ok (cart_line_of it v [])"
  by (auto simp: line_price_ok_def cart_line_of_def final_price_sum_list)

lemma prices_ok_customer_event:
  assumes ci: "core_inv \<sigma>" and ro: "refs_ok \<sigma>" and po: "prices_ok \<sigma>"
    and ev: "customer_event \<sigma> e = Some \<tau>"
  shows "prices_ok \<tau>"
proof (cases e)
  case EvAddToCart
  with ev obtain it where it: "selected_item (ui \<sigma>) = Some it"
    and \<tau>: "\<tau> = \<sigma>\<lparr>ui := (ui \<sigma>)\<lparr>selected_item := None, selected_var := None, selected_mods := []\<rparr>,
               store := (store \<sigma>)\<lparr>cart := cart (store \<sigma>) @ [cart_line_of it (selected_var (ui \<sigma>)) (selected_mods (ui \<sigma>))]\<rparr>\<rparr>"
    by (auto simp: handle_add_to_cart_Some split: if_splits)
  have "it \<in> set MOCK_MENU_ITEMS" using ro it by (simp add: refs_ok_def)
  moreover have "selected_mods (ui \<sigma>) = []" using ci by (simp add: core_inv_def)
  ultimately show ?thesis using po \<tau> cart_line_of_price_ok by (simp add: prices_ok_def)
next
  case (EvPlaceOrder k)
  with ev have \<tau>: "\<tau> = \<sigma>\<lparr>ui := (ui \<sigma>)\<lparr>selected_rest := None\<rparr>,
               store := (store \<sigma>)\<lparr>orders := new_order k (clock \<sigma>) (ui \<sigma>) (store \<sigma>) # orders (store \<sigma>), cart := []\<rparr>\<rparr>"
    by (auto simp: handle_place_order_nonempty split: if_splits)
  with po show ?thesis by (simp add: prices_ok_def order_price_ok_def new_order_def)
qed (use ev po in \<open>auto simp: prices_ok_def split: if_splits option.splits\<close>)

lemma prices_ok_ui_event:
  assumes ci: "core_inv \<sigma>" and ro: "refs_ok \<sigma>" and po: "prices_ok \<sigma>" and ev: "ui_event \<sigma> e = Some \<tau>"
  shows "prices_ok \<tau>"
proof (cases e)
  case (EvLogin em)
  with ev po show ?thesis by (auto simp: prices_ok_def login_def split: if_splits option.splits)
next
  case EvLogout
  with ev po show ?thesis by (auto simp: prices_ok_def logout_def split: if_splits)
next
  case (EvRestaurant a od)
  with ev po show ?thesis
    by (auto simp: prices_ok_def restaurant_click_def update_order_status_def list_all_map_where_prices split: if_splits)
next
  case (EvDriver a od)
  with ev po show ?thesis
    by (cases a) (auto simp: prices_ok_def handle_accept_def handle_status_update_def
        update_order_status_def list_all_map_where_prices split: if_splits)
next
  case EvTick
  with ev po show ?thesis by (auto simp: prices_ok_def)
qed (use ev ci ro po prices_ok_customer_event in \<open>auto simp del: customer_event.simps split: if_splits\<close>)

lemma reachable_prices_ok: "reachable \<sigma> \<Longrightarrow> prices_ok \<sigma>"
proof (induction rule: reachable.induct)
  case init
  show ?case by (simp add: prices_ok_def init_sys_def init_state_def)
next
  case (step \<sigma> e \<sigma>')
  from step.hyps(2) obtain \<tau> where ev: "ui_event \<sigma> e = Some \<tau>"
    and \<sigma>': "\<sigma>' = \<tau>\<lparr>crashed := \<not> screen_renders (app_screen (store \<tau>))\<rparr>"
    by (auto simp: sys_step_Some)
  have "core_inv \<sigma>" using reachable_sys_inv [OF step.hyps(1)] by (simp add: sys_inv_def)
  from prices_ok_ui_event [OF this reachable_refs_ok [OF step.hyps(1)] step.IH ev] \<sigma>' show ?case
    by (simp add: prices_ok_def)
qed

subsection \<open>Properties\<close>

text \<open>
  C11. Referential integrity (the typing of the identifiers an order holds): in every
  reachable state each order names a restaurant of the catalogue and carries that
  restaurant's address as pickup address, was placed by a customer account, and has a
  defined, non-empty list of lines each of which names a menu item of the catalogue.
\<close>

theorem reachable_orders_referential_integrity:
  assumes "reachable \<sigma>" and "od \<in> set (orders (store \<sigma>))"
  shows "order_refs_ok od"
  using reachable_refs_ok [OF assms(1)] assms(2) by (simp add: refs_ok_def list_all_iff)

theorem reachable_orders_referential_integrity_witness:
  "reachable two_orders_state \<and> kota_order 8 3 \<in> set (orders (store two_orders_state))
   \<and> order_refs_ok (kota_order 8 3)"
proof -
  have r: "reachable two_orders_state" using reachable_fresh_distinct [OF reachable_fresh_two_orders] by simp
  have m: "kota_order 8 3 \<in> set (orders (store two_orders_state))" by (simp add: two_orders_state_def)
  from reachable_orders_referential_integrity [OF r m] r m show ?thesis by simp
qed

text \<open>
  C35. Every order the application reaches is priced from the catalogue, as the
  specification's \<open>priceOrder\<close> prices it: its lines are defined, each names a menu
  item of the catalogue and costs that item's base price plus the price of the
  variation the line records, with quantity 1 and no modifier, and \<open>foodSubtotal\<close> is the
  sum of the line prices.
\<close>

theorem reachable_orders_priced_from_catalogue:
  assumes "reachable \<sigma>" and "od \<in> set (orders (store \<sigma>))"
  shows "\<exists>ls. items od = Some ls \<and> food_subtotal od = sum_list (map total_price ls)
    \<and> list_all (\<lambda>li. quantity li = 1 \<and> ci_modifiers li = Some []
         \<and> (\<exists>it \<in> set MOCK_MENU_ITEMS. item_id it = ci_menu_item_id li
              \<and> total_price li = base_price it + (case ci_variation li of None \<Rightarrow> 0 | Some v \<Rightarrow> var_price v))) ls"
proof -
  have "order_price_ok od"
    using reachable_prices_ok [OF assms(1)] assms(2) by (simp add: prices_ok_def list_all_iff)
  then obtain ls where i: "items od = Some ls" and l: "list_all line_price_ok ls"
    and f: "food_subtotal od = food_subtotal_of ls"
    by (auto simp: order_price_ok_def split: option.splits)
  show ?thesis
  proof (intro exI conjI)
    show "items od = Some ls" by (rule i)
    show "food_subtotal od = sum_list (map total_price ls)" using f by (simp add: food_subtotal_of_sum_list)
    show "list_all (\<lambda>li. quantity li = 1 \<and> ci_modifiers li = Some []
         \<and> (\<exists>it \<in> set MOCK_MENU_ITEMS. item_id it = ci_menu_item_id li
              \<and> total_price li = base_price it + (case ci_variation li of None \<Rightarrow> 0 | Some v \<Rightarrow> var_price v))) ls"
      using l unfolding line_price_ok_def [abs_def] .
  qed
qed

theorem reachable_orders_priced_from_catalogue_witness:
  "reachable two_orders_state \<and> kota_order 8 3 \<in> set (orders (store two_orders_state))
   \<and> (\<exists>ls. items (kota_order 8 3) = Some ls \<and> food_subtotal (kota_order 8 3) = sum_list (map total_price ls))"
proof -
  have r: "reachable two_orders_state" using reachable_fresh_distinct [OF reachable_fresh_two_orders] by simp
  have m: "kota_order 8 3 \<in> set (orders (store two_orders_state))" by (simp add: two_orders_state_def)
  from reachable_orders_priced_from_catalogue [OF r m] r m show ?thesis by blast
qed

end
