(* ===== verification/Progress.thy ===== *)
theory Progress
  imports System
begin

text \<open>
  Progress of orders. The delivery loop of the driver screen
  (\<open>DriverApp.tsx\<close> lines 55--96): the card of an active order shows one button that
  calls \<open>handleStatusUpdate(order.id, order.status)\<close> with the order as rendered, and
  the card disappears once the order is \<open>DELIVERED\<close>. \<open>deliver_clicks n\<close> is a driver
  pressing that button as long as the card is shown, at most \<open>n\<close> times: \<open>None\<close> when
  the card is still shown after \<open>n\<close> presses. Three presses are enough for every order
  in a driver status; without that assumption \<open>next_status\<close> is the identity and the
  card never disappears.

  The kitchen side of the lifecycle at the level of the whole application: the events
  \<open>kitchen_events\<close> log out whoever is logged in, log in The Kota King's admin and press
  Accept, Prep and Ready on the order as it is rendered after each press.
  \<open>checkout_events\<close> are the customer's side: log out whoever is logged in, log in as
  Thabo, and order one plain Kota at The Kota King (\<open>CustomerApp.tsx\<close> lines 20--58).
  The login screen is only reached with an empty cart (\<open>logout\<close> clears it,
  \<open>store.ts\<close> line 31), so the new order holds exactly that line.
\<close>

fun deliver_clicks :: "nat \<Rightarrow> ident \<Rightarrow> timestamp \<Rightarrow> app_state \<Rightarrow> app_state option" where
  "deliver_clicks 0 oid now s =
     (case find (\<lambda>od. order_id od = oid) (my_active_orders (current_user s) (orders s)) of
        None \<Rightarrow> Some s
      | Some _ \<Rightarrow> None)"
| "deliver_clicks (Suc n) oid now s =
     (case find (\<lambda>od. order_id od = oid) (my_active_orders (current_user s) (orders s)) of
        None \<Rightarrow> Some s
      | Some od \<Rightarrow> deliver_clicks n oid now (driver_click DrvAdvance od now s))"

definition kitchen_events :: "sys \<Rightarrow> order \<Rightarrow> event list" where
  "kitchen_events \<sigma> od =
     (if current_user (store \<sigma>) = None then [] else [EvLogout])
     @ [EvLogin ''kota@business.co.za'', EvRestaurant RAccept od,
        EvRestaurant RPrep (od\<lparr>status := RESTAURANT_ACCEPTED, updated_at := clock \<sigma>\<rparr>),
        EvRestaurant RReady (od\<lparr>status := PREPARING, updated_at := clock \<sigma>\<rparr>)]"

definition checkout_events :: "sys \<Rightarrow> nat \<Rightarrow> event list" where
  "checkout_events \<sigma> k =
     (if current_user (store \<sigma>) = None then [] else [EvLogout])
     @ [EvLogin ''thabo@gmail.com'', EvSelectRest (MOCK_RESTAURANTS ! 0), EvSelectItem (MOCK_MENU_ITEMS ! 0),
        EvAddToCart, EvPlaceOrder k]"

text \<open>
  A customer fills the cart at The Kota King, goes back and checks out from the page
  of Debonairs (owned by \<open>deb-corp\<close>, which is no demo user): the order is sent to
  \<open>rest-2\<close>.
\<close>

definition deb_events :: "event list" where
  "deb_events = [EvTick, EvLogin ''thabo@gmail.com'', EvSelectRest (MOCK_RESTAURANTS ! 0),
     EvSelectItem (MOCK_MENU_ITEMS ! 0), EvAddToCart, EvBack, EvSelectRest (MOCK_RESTAURANTS ! 1),
     EvPlaceOrder 5, EvLogout]"

definition deb_order :: order where
  "deb_order = new_order 5 1 (customer_ui_init\<lparr>selected_rest := Some (MOCK_RESTAURANTS ! 1)\<rparr>)
     (init_state\<lparr>current_user := Some (MOCK_USERS ! 3), cart := [kota_line]\<rparr>)"

definition deb_state :: sys where
  "deb_state = \<lparr>store = init_state\<lparr>orders := [deb_order]\<rparr>, ui = customer_ui_init, clock = 1, crashed = False\<rparr>"

subsection \<open>Lemmas\<close>

lemma find_filter_distinct:
  assumes "distinct (map order_id os)" and "od \<in> set os"
  shows "find (\<lambda>x. order_id x = order_id od) (filter P os) = (if P od then Some od else None)"
  using assms by (induction os) (auto simp: find_None_iff image_iff)

lemma set_order_status_None:
  "set_order_status st None now od = od\<lparr>status := st, updated_at := now\<rparr>"
  by (simp add: set_order_status_def Let_def)

lemma advance_click_orders:
  assumes "distinct (map order_id (orders s))" and "od \<in> set (orders s)"
  shows "orders (driver_click DrvAdvance od now s)
           = map (\<lambda>x. if x = od then od\<lparr>status := next_status (status od), updated_at := now\<rparr> else x) (orders s)"
  using map_where_order_id_distinct [OF assms]
  by (auto simp: handle_status_update_def update_order_status_def set_order_status_None intro!: map_cong)

lemma deliver_click_step:
  assumes d: "distinct (map order_id (orders s))" and m: "od \<in> set (orders s)"
    and drv: "driver_id od = map_option user_id (current_user s)" and nd: "status od \<noteq> DELIVERED"
  obtains s1 where "deliver_clicks (Suc n) (order_id od) now s = deliver_clicks n (order_id od) now s1"
    and "distinct (map order_id (orders s1))"
    and "od\<lparr>status := next_status (status od), updated_at := now\<rparr> \<in> set (orders s1)"
    and "current_user s1 = current_user s"
proof
  let ?s1 = "driver_click DrvAdvance od now s"
  show "deliver_clicks (Suc n) (order_id od) now s = deliver_clicks n (order_id od) now ?s1"
    using find_filter_distinct [OF d m] drv nd by (simp add: my_active_orders_def)
  have eq: "orders ?s1 = map (\<lambda>x. if x = od then od\<lparr>status := next_status (status od), updated_at := now\<rparr> else x) (orders s)"
    by (rule advance_click_orders [OF d m])
  have "map order_id (orders ?s1) = map order_id (orders s)" unfolding eq by (induction "orders s") auto
  with d show "distinct (map order_id (orders ?s1))" by simp
  show "od\<lparr>status := next_status (status od), updated_at := now\<rparr> \<in> set (orders ?s1)"
    using m unfolding eq by (auto simp: image_iff intro: bexI [of _ od])
  show "current_user ?s1 = current_user s" by (simp add: handle_status_update_def)
qed

lemma deliver_clicks_delivered:
  assumes "distinct (map order_id (orders s))" and "od \<in> set (orders s)" and "status od = DELIVERED"
  shows "deliver_clicks n (order_id od) now s = Some s"
  using find_filter_distinct [OF assms(1,2)] assms(3) by (cases n) (simp_all add: my_active_orders_def)

lemma deliver_in_transit:
  assumes d: "distinct (map order_id (orders s))" and m: "od \<in> set (orders s)"
    and drv: "driver_id od = map_option user_id (current_user s)" and st: "status od = IN_TRANSIT"
  shows "\<exists>s'. deliver_clicks (Suc n) (order_id od) now s = Some s'
    \<and> od\<lparr>status := DELIVERED, updated_at := now\<rparr> \<in> set (orders s') \<and> distinct (map order_id (orders s'))"
proof -
  have nd: "status od \<noteq> DELIVERED" using st by simp
  obtain s1 where e: "deliver_clicks (Suc n) (order_id od) now s = deliver_clicks n (order_id od) now s1"
    and d1: "distinct (map order_id (orders s1))"
    and m1: "od\<lparr>status := next_status (status od), updated_at := now\<rparr> \<in> set (orders s1)"
    and "current_user s1 = current_user s"
    by (rule deliver_click_step [OF d m drv nd, where n = n and now = now])
  from m1 st have m1': "od\<lparr>status := DELIVERED, updated_at := now\<rparr> \<in> set (orders s1)" by simp
  from deliver_clicks_delivered [OF d1 m1', of n now] e d1 m1' show ?thesis by simp
qed

lemma deliver_picked_up:
  assumes d: "distinct (map order_id (orders s))" and m: "od \<in> set (orders s)"
    and drv: "driver_id od = map_option user_id (current_user s)" and st: "status od = PICKED_UP"
  shows "\<exists>s'. deliver_clicks (Suc (Suc n)) (order_id od) now s = Some s'
    \<and> od\<lparr>status := DELIVERED, updated_at := now\<rparr> \<in> set (orders s') \<and> distinct (map order_id (orders s'))"
proof -
  have nd: "status od \<noteq> DELIVERED" using st by simp
  obtain s1 where e: "deliver_clicks (Suc (Suc n)) (order_id od) now s = deliver_clicks (Suc n) (order_id od) now s1"
    and d1: "distinct (map order_id (orders s1))"
    and m1: "od\<lparr>status := next_status (status od), updated_at := now\<rparr> \<in> set (orders s1)"
    and u1: "current_user s1 = current_user s"
    by (rule deliver_click_step [OF d m drv nd, where n = "Suc n" and now = now])
  from m1 st have m1': "od\<lparr>status := IN_TRANSIT, updated_at := now\<rparr> \<in> set (orders s1)" by simp
  have "driver_id (od\<lparr>status := IN_TRANSIT, updated_at := now\<rparr>) = map_option user_id (current_user s1)"
    using drv u1 by simp
  from deliver_in_transit [OF d1 m1' this, of n now] e show ?thesis by simp
qed

lemma deliver_accepted:
  assumes d: "distinct (map order_id (orders s))" and m: "od \<in> set (orders s)"
    and drv: "driver_id od = map_option user_id (current_user s)" and st: "status od = ACCEPTED"
  shows "\<exists>s'. deliver_clicks (Suc (Suc (Suc n))) (order_id od) now s = Some s'
    \<and> od\<lparr>status := DELIVERED, updated_at := now\<rparr> \<in> set (orders s') \<and> distinct (map order_id (orders s'))"
proof -
  have nd: "status od \<noteq> DELIVERED" using st by simp
  obtain s1 where e: "deliver_clicks (Suc (Suc (Suc n))) (order_id od) now s = deliver_clicks (Suc (Suc n)) (order_id od) now s1"
    and d1: "distinct (map order_id (orders s1))"
    and m1: "od\<lparr>status := next_status (status od), updated_at := now\<rparr> \<in> set (orders s1)"
    and u1: "current_user s1 = current_user s"
    by (rule deliver_click_step [OF d m drv nd, where n = "Suc (Suc n)" and now = now])
  from m1 st have m1': "od\<lparr>status := PICKED_UP, updated_at := now\<rparr> \<in> set (orders s1)" by simp
  have "driver_id (od\<lparr>status := PICKED_UP, updated_at := now\<rparr>) = map_option user_id (current_user s1)"
    using drv u1 by simp
  from deliver_picked_up [OF d1 m1' this, of n now] e show ?thesis by simp
qed

lemma my_rest_not_debonairs:
  assumes "my_rest s = Some r" and "restaurants s = MOCK_RESTAURANTS"
    and "\<forall>u. current_user s = Some u \<longrightarrow> u \<in> set MOCK_USERS"
  shows "rest_id r \<noteq> ''rest-2''"
proof
  assume r2: "rest_id r = ''rest-2''"
  from assms(1) have rin: "r \<in> set (restaurants s)"
    and own: "Some (owner_id r) = map_option user_id (current_user s)"
    by (auto simp: my_rest_def dest: find_Some_mem)
  then obtain u where u: "current_user s = Some u" and uid: "owner_id r = user_id u"
    by (cases "current_user s") auto
  have "u \<in> set MOCK_USERS" using assms(3) u by simp
  moreover have "\<forall>u \<in> set MOCK_USERS. user_id u \<noteq> ''deb-corp''" by (simp add: MOCK_USERS_def)
  moreover have "\<forall>r \<in> set MOCK_RESTAURANTS. rest_id r = ''rest-2'' \<longrightarrow> owner_id r = ''deb-corp''"
    by (simp add: MOCK_RESTAURANTS_def)
  ultimately show False using rin assms(2) r2 uid by auto
qed

lemma debonairs_step:
  assumes f: "reachable_fresh \<sigma>" and st: "sys_step \<sigma> e = Some \<sigma>'"
    and m: "od \<in> set (orders (store \<sigma>))" and r2: "restaurant_id od = Some ''rest-2''"
  shows "od \<in> set (orders (store \<sigma>'))"
proof -
  have r: "reachable \<sigma>" and d: "distinct (map order_id (orders (store \<sigma>)))"
    using reachable_fresh_distinct [OF f] by simp_all
  have inv: "sys_inv \<sigma>" using reachable_sys_inv [OF r] .
  from sys_step_orders_cases [OF st inv] show ?thesis
  proof (elim disjE exE conjE)
    fix a od' assume off: "restaurant_offers a od' (store \<sigma>)"
      and eq: "orders (store \<sigma>') = orders (restaurant_click a od' (clock \<sigma>) (store \<sigma>))"
    have "od' \<noteq> od"
    proof
      assume "od' = od"
      with off r2 have mr: "map_option rest_id (my_rest (store \<sigma>)) = Some ''rest-2''"
        using restaurant_offers_status [OF off] by simp
      then obtain rr where "my_rest (store \<sigma>) = Some rr" and "rest_id rr = ''rest-2''" by auto
      with my_rest_not_debonairs inv show False by (auto simp: sys_inv_def core_inv_def)
    qed
    with m show ?thesis
      by (auto simp: eq restaurant_click_orders_distinct [OF d off] image_iff intro!: bexI [of _ od])
  qed (use m in auto)
qed

lemma dashboard_not_login [simp]: "dashboard_by_role r \<noteq> LoginScreen"
  by (cases r) simp_all

lemma logout_step:
  "\<not> crashed \<sigma> \<Longrightarrow> current_user (store \<sigma>) \<noteq> None
   \<Longrightarrow> sys_step \<sigma> EvLogout = Some (\<sigma>\<lparr>store := logout (store \<sigma>), crashed := False\<rparr>)"
  by (auto simp: sys_step_def app_screen_def logout_def split: option.splits)

lemma kota_login_step:
  "\<not> crashed \<sigma> \<Longrightarrow> current_user (store \<sigma>) = None
   \<Longrightarrow> sys_step \<sigma> (EvLogin ''kota@business.co.za'')
       = Some (\<sigma>\<lparr>store := (store \<sigma>)\<lparr>current_user := Some (MOCK_USERS ! 1)\<rparr>, ui := customer_ui_init, crashed := False\<rparr>)"
  by (simp add: sys_step_def app_screen_def login_def MOCK_USERS_def)

lemma kitchen_press_step:
  assumes "\<not> crashed \<sigma>" and "current_user (store \<sigma>) = Some (MOCK_USERS ! 1)"
    and "restaurant_offers a od (store \<sigma>)" and "distinct (map order_id (orders (store \<sigma>)))"
  shows "sys_step \<sigma> (EvRestaurant a od)
    = Some (\<sigma>\<lparr>store := (store \<sigma>)\<lparr>orders := map (\<lambda>x. if x = od then od\<lparr>status := restaurant_target a, updated_at := clock \<sigma>\<rparr> else x)
                                              (orders (store \<sigma>))\<rparr>, crashed := False\<rparr>)"
proof -
  have scr: "app_screen (store \<sigma>) = RestaurantAdminScreen"
    using assms(2) by (simp add: app_screen_def MOCK_USERS_def)
  have "orders (restaurant_click a od (clock \<sigma>) (store \<sigma>))
     = map (\<lambda>x. if x = od then od\<lparr>status := restaurant_target a, updated_at := clock \<sigma>\<rparr> else x) (orders (store \<sigma>))"
    using restaurant_click_orders_distinct [OF assms(4,3)] by (auto simp: set_order_status_None)
  moreover have "restaurant_click a od (clock \<sigma>) (store \<sigma>)
     = (store \<sigma>)\<lparr>orders := orders (restaurant_click a od (clock \<sigma>) (store \<sigma>))\<rparr>"
    by (simp add: restaurant_click_def update_order_status_def)
  ultimately show ?thesis using assms(1,3) scr by (simp add: sys_step_def)
qed

lemma replace_one:
  assumes "distinct (map order_id os)" and "od \<in> set os" and "order_id od' = order_id od"
  shows "distinct (map order_id (map (\<lambda>x. if x = od then od' else x) os))
    \<and> od' \<in> set (map (\<lambda>x. if x = od then od' else x) os)"
proof -
  have "map order_id (map (\<lambda>x. if x = od then od' else x) os) = map order_id os"
    using assms(3) by (induction os) auto
  with assms(1) have "distinct (map order_id (map (\<lambda>x. if x = od then od' else x) os))"
    by (simp del: map_map)
  moreover have "od' \<in> set (map (\<lambda>x. if x = od then od' else x) os)"
    using assms(2) by (auto simp: image_iff intro: bexI [of _ od])
  ultimately show ?thesis ..
qed

lemma kota_lists:
  assumes "restaurants s = MOCK_RESTAURANTS" and "current_user s = Some (MOCK_USERS ! 1)"
    and "od \<in> set (orders s)" and "restaurant_id od = Some ''rest-1''"
  shows "od \<in> set (pending_orders s) \<longleftrightarrow> status od = PENDING"
    and "od \<in> set (active_orders s) \<longleftrightarrow> status od \<in> {RESTAURANT_ACCEPTED, PREPARING, READY_FOR_PICKUP}"
  using assms by (simp_all add: pending_orders_def active_orders_def my_orders_def my_rest_def
      MOCK_RESTAURANTS_def MOCK_USERS_def)

lemma deb_run: "fresh_run init_sys deb_events \<and> run init_sys deb_events = Some deb_state"
  by (simp add: run_simps deb_events_def deb_state_def deb_order_def decimal.simps)

lemma reachable_fresh_deb: "reachable_fresh deb_state"
  using deb_run run_reachable_fresh [OF reachable_fresh.init] by blast

lemma login_screen_cart_step:
  assumes "ui_event \<sigma> e = Some \<tau>" and "current_user (store \<sigma>) = None \<longrightarrow> cart (store \<sigma>) = []"
  shows "current_user (store \<tau>) = None \<longrightarrow> cart (store \<tau>) = []"
proof (cases e)
  case (EvLogin em)
  with assms show ?thesis by (auto simp: login_def app_screen_def split: if_splits option.splits)
next
  case EvLogout
  with assms show ?thesis by (auto simp: logout_def split: if_splits)
next
  case (EvRestaurant a od)
  with assms show ?thesis
    by (auto simp: app_screen_def restaurant_click_def update_order_status_def split: if_splits option.splits)
next
  case (EvDriver a od)
  with assms show ?thesis
    by (cases a) (auto simp: app_screen_def handle_accept_def handle_status_update_def update_order_status_def
        split: if_splits option.splits)
qed (use assms in \<open>auto simp: app_screen_def handle_add_to_cart_def handle_place_order_def add_to_cart_def
       place_order_def split: if_splits option.splits prod.splits\<close>)

lemma reachable_login_cart_empty:
  "reachable \<sigma> \<Longrightarrow> current_user (store \<sigma>) = None \<Longrightarrow> cart (store \<sigma>) = []"
proof (induction rule: reachable.induct)
  case init
  then show ?case by (simp add: init_sys_def init_state_def)
next
  case (step \<sigma> e \<sigma>')
  from step.hyps(2) obtain \<tau> where ev: "ui_event \<sigma> e = Some \<tau>"
    and \<sigma>': "\<sigma>' = \<tau>\<lparr>crashed := \<not> screen_renders (app_screen (store \<tau>))\<rparr>"
    by (auto simp: sys_step_Some)
  from login_screen_cart_step [OF ev] step.IH step.prems \<sigma>' show ?case by simp
qed

lemma thabo_login_step:
  "\<not> crashed \<sigma> \<Longrightarrow> current_user (store \<sigma>) = None
   \<Longrightarrow> sys_step \<sigma> (EvLogin ''thabo@gmail.com'')
       = Some (\<sigma>\<lparr>store := (store \<sigma>)\<lparr>current_user := Some (MOCK_USERS ! 3)\<rparr>, ui := customer_ui_init, crashed := False\<rparr>)"
  by (simp add: sys_step_def app_screen_def login_def MOCK_USERS_def)

lemma kota_king_catalog:
  "MOCK_RESTAURANTS ! 0 \<in> set MOCK_RESTAURANTS" "MOCK_MENU_ITEMS ! 0 \<in> set MOCK_MENU_ITEMS"
  "item_restaurant_id (MOCK_MENU_ITEMS ! 0) = rest_id (MOCK_RESTAURANTS ! 0)"
  by (simp_all add: MOCK_RESTAURANTS_def MOCK_MENU_ITEMS_def)

lemma kota_checkout_run:
  assumes "\<not> crashed \<sigma>" and "current_user (store \<sigma>) = Some (MOCK_USERS ! 3)" and "ui \<sigma> = customer_ui_init"
    and "restaurants (store \<sigma>) = MOCK_RESTAURANTS" and "menu_items (store \<sigma>) = MOCK_MENU_ITEMS"
    and "cart (store \<sigma>) = []" and "k < 90000"
  shows "run \<sigma> [EvSelectRest (MOCK_RESTAURANTS ! 0), EvSelectItem (MOCK_MENU_ITEMS ! 0), EvAddToCart, EvPlaceOrder k]
    = Some (\<sigma>\<lparr>store := (store \<sigma>)\<lparr>orders := kota_order k (clock \<sigma>) # orders (store \<sigma>), cart := []\<rparr>,
              ui := customer_ui_init, crashed := False\<rparr>)"
  using assms
  by (simp add: sys_step_def app_screen_def MOCK_USERS_def rest_menu_def handle_add_to_cart_def add_to_cart_def
      handle_place_order_def place_order_def kota_order_def kota_line_def new_order_def customer_ui_init_def kota_king_catalog)

subsection \<open>Properties\<close>

text \<open>
  C28. The driver's delivery loop terminates: for an order whose card the driver
  screen shows and which is in a driver status, pressing the card's button as long as
  it is shown ends after at most three presses, with the order \<open>DELIVERED\<close> (stamped
  with the time of the presses) and its card gone.
\<close>

theorem deliver_clicks_terminate:
  assumes d: "distinct (map order_id (orders s))" and off: "driver_offers DrvAdvance od s"
    and ph: "driver_phase (status od)"
  shows "\<exists>s'. deliver_clicks 3 (order_id od) now s = Some s'
    \<and> od\<lparr>status := DELIVERED, updated_at := now\<rparr> \<in> set (orders s')
    \<and> \<not> driver_offers DrvAdvance (od\<lparr>status := DELIVERED, updated_at := now\<rparr>) s'"
proof -
  from driver_offers_status [OF off] have m: "od \<in> set (orders s)"
    and drv: "driver_id od = map_option user_id (current_user s)" and nd: "status od \<noteq> DELIVERED" by auto
  have three: "(3::nat) = Suc (Suc (Suc 0))" by simp
  from ph nd consider "status od = ACCEPTED" | "status od = PICKED_UP" | "status od = IN_TRANSIT"
    by (cases "status od") auto
  then have "\<exists>s'. deliver_clicks 3 (order_id od) now s = Some s'
    \<and> od\<lparr>status := DELIVERED, updated_at := now\<rparr> \<in> set (orders s')"
  proof cases
    case 1
    from deliver_accepted [OF d m drv 1, of 0 now] show ?thesis unfolding three by blast
  next
    case 2
    from deliver_picked_up [OF d m drv 2, of "Suc 0" now] show ?thesis unfolding three by blast
  next
    case 3
    from deliver_in_transit [OF d m drv 3, of "Suc (Suc 0)" now] show ?thesis unfolding three by blast
  qed
  then show ?thesis by (auto simp: my_active_orders_def)
qed

theorem deliver_clicks_terminate_witness:
  "distinct (map order_id (orders (driver_state\<lparr>orders := [sample_order\<lparr>status := ACCEPTED, driver_id := Some ''3''\<rparr>]\<rparr>)))
   \<and> driver_offers DrvAdvance (sample_order\<lparr>status := ACCEPTED, driver_id := Some ''3''\<rparr>)
       (driver_state\<lparr>orders := [sample_order\<lparr>status := ACCEPTED, driver_id := Some ''3''\<rparr>]\<rparr>)
   \<and> driver_phase (status (sample_order\<lparr>status := ACCEPTED, driver_id := Some ''3''\<rparr>))
   \<and> deliver_clicks 3 ''ORD-1'' 9 (driver_state\<lparr>orders := [sample_order\<lparr>status := ACCEPTED, driver_id := Some ''3''\<rparr>]\<rparr>)
       = Some (driver_state\<lparr>orders := [sample_order\<lparr>status := DELIVERED, driver_id := Some ''3'', updated_at := 9\<rparr>]\<rparr>)"
proof -
  let ?od = "sample_order\<lparr>status := ACCEPTED, driver_id := Some ''3''\<rparr>"
  let ?s = "driver_state\<lparr>orders := [?od]\<rparr>"
  have h1: "distinct (map order_id (orders ?s))" by simp
  have h2: "driver_offers DrvAdvance ?od ?s"
    by (simp add: driver_state_def my_active_orders_def MOCK_USERS_def)
  have h3: "driver_phase (status ?od)" by simp
  from deliver_clicks_terminate [OF h1 h2 h3, of 9] have "deliver_clicks 3 (order_id ?od) 9 ?s \<noteq> None" by auto
  moreover have "deliver_clicks 3 ''ORD-1'' 9 ?s
       = Some (driver_state\<lparr>orders := [sample_order\<lparr>status := DELIVERED, driver_id := Some ''3'', updated_at := 9\<rparr>]\<rparr>)"
    by (simp add: numeral_3_eq_3 driver_state_def my_active_orders_def MOCK_USERS_def sample_order_def
        handle_status_update_def update_order_status_def set_order_status_def)
  ultimately show ?thesis using h1 h2 h3 by simp
qed

text \<open>
  C8. Liveness of the kitchen: from every state the application reaches (with fresh
  order numbers) and in which it has not crashed, every pending order of The Kota King
  can be brought to \<open>READY_FOR_PICKUP\<close> by clicks the screens offer: log out, log in as
  its admin, and press Accept, Prep and Ready. The clicks all happen at the current
  time, which the order carries as its update time.
\<close>

theorem pending_order_progress:
  assumes f: "reachable_fresh \<sigma>" and nc: "\<not> crashed \<sigma>" and m: "od \<in> set (orders (store \<sigma>))"
    and p: "status od = PENDING" and r1: "restaurant_id od = Some ''rest-1''"
  shows "\<exists>\<sigma>'. run \<sigma> (kitchen_events \<sigma> od) = Some \<sigma>' \<and> \<not> crashed \<sigma>'
    \<and> od\<lparr>status := READY_FOR_PICKUP, updated_at := clock \<sigma>\<rparr> \<in> set (orders (store \<sigma>'))"
proof -
  have r: "reachable \<sigma>" and d: "distinct (map order_id (orders (store \<sigma>)))"
    using reachable_fresh_distinct [OF f] by simp_all
  have rs: "restaurants (store \<sigma>) = MOCK_RESTAURANTS"
    using reachable_sys_inv [OF r] by (simp add: sys_inv_def core_inv_def)
  let ?os = "orders (store \<sigma>)"
  let ?od1 = "od\<lparr>status := RESTAURANT_ACCEPTED, updated_at := clock \<sigma>\<rparr>"
  let ?od2 = "od\<lparr>status := PREPARING, updated_at := clock \<sigma>\<rparr>"
  let ?od3 = "od\<lparr>status := READY_FOR_PICKUP, updated_at := clock \<sigma>\<rparr>"
  define \<sigma>0 where "\<sigma>0 = (if current_user (store \<sigma>) = None then \<sigma>
                          else \<sigma>\<lparr>store := logout (store \<sigma>), crashed := False\<rparr>)"
  have run0: "run \<sigma> (kitchen_events \<sigma> od)
      = run \<sigma>0 [EvLogin ''kota@business.co.za'', EvRestaurant RAccept od, EvRestaurant RPrep ?od1,
                EvRestaurant RReady ?od2]"
    using nc by (simp add: kitchen_events_def \<sigma>0_def logout_step)
  have c0: "\<not> crashed \<sigma>0" "current_user (store \<sigma>0) = None" "orders (store \<sigma>0) = ?os"
    "restaurants (store \<sigma>0) = MOCK_RESTAURANTS" "clock \<sigma>0 = clock \<sigma>"
    using nc rs by (simp_all add: \<sigma>0_def logout_def)
  define \<sigma>1 where "\<sigma>1 = \<sigma>0\<lparr>store := (store \<sigma>0)\<lparr>current_user := Some (MOCK_USERS ! 1)\<rparr>,
                             ui := customer_ui_init, crashed := False\<rparr>"
  have s1: "sys_step \<sigma>0 (EvLogin ''kota@business.co.za'') = Some \<sigma>1"
    unfolding \<sigma>1_def by (rule kota_login_step [OF c0(1,2)])
  have c1: "\<not> crashed \<sigma>1" "current_user (store \<sigma>1) = Some (MOCK_USERS ! 1)" "orders (store \<sigma>1) = ?os"
    "restaurants (store \<sigma>1) = MOCK_RESTAURANTS" "clock \<sigma>1 = clock \<sigma>"
    using c0 by (simp_all add: \<sigma>1_def)
  have off1: "restaurant_offers RAccept od (store \<sigma>1)"
    using kota_lists(1) [OF c1(4,2)] c1(3) m r1 p by simp
  define \<sigma>2 where "\<sigma>2 = \<sigma>1\<lparr>store := (store \<sigma>1)\<lparr>orders := map (\<lambda>x. if x = od then ?od1 else x) ?os\<rparr>, crashed := False\<rparr>"
  have s2: "sys_step \<sigma>1 (EvRestaurant RAccept od) = Some \<sigma>2"
    using kitchen_press_step [OF c1(1,2) off1] d c1(3,5) by (simp add: \<sigma>2_def)
  from replace_one [OF d m, of ?od1] have d2: "distinct (map order_id (orders (store \<sigma>2)))"
    and m2: "?od1 \<in> set (orders (store \<sigma>2))" by (simp_all add: \<sigma>2_def)
  have c2: "\<not> crashed \<sigma>2" "current_user (store \<sigma>2) = Some (MOCK_USERS ! 1)"
    "restaurants (store \<sigma>2) = MOCK_RESTAURANTS" "clock \<sigma>2 = clock \<sigma>"
    using c1 by (simp_all add: \<sigma>2_def)
  have off2: "restaurant_offers RPrep ?od1 (store \<sigma>2)"
    using kota_lists(2) [OF c2(3,2) m2] r1 by simp
  define \<sigma>3 where "\<sigma>3 = \<sigma>2\<lparr>store := (store \<sigma>2)\<lparr>orders := map (\<lambda>x. if x = ?od1 then ?od2 else x) (orders (store \<sigma>2))\<rparr>, crashed := False\<rparr>"
  have s3: "sys_step \<sigma>2 (EvRestaurant RPrep ?od1) = Some \<sigma>3"
    using kitchen_press_step [OF c2(1,2) off2 d2] c2(4) by (simp add: \<sigma>3_def)
  from replace_one [OF d2 m2, of ?od2] have d3: "distinct (map order_id (orders (store \<sigma>3)))"
    and m3: "?od2 \<in> set (orders (store \<sigma>3))" by (simp_all add: \<sigma>3_def)
  have c3: "\<not> crashed \<sigma>3" "current_user (store \<sigma>3) = Some (MOCK_USERS ! 1)"
    "restaurants (store \<sigma>3) = MOCK_RESTAURANTS" "clock \<sigma>3 = clock \<sigma>"
    using c2 by (simp_all add: \<sigma>3_def)
  have off3: "restaurant_offers RReady ?od2 (store \<sigma>3)"
    using kota_lists(2) [OF c3(3,2) m3] r1 by simp
  define \<sigma>4 where "\<sigma>4 = \<sigma>3\<lparr>store := (store \<sigma>3)\<lparr>orders := map (\<lambda>x. if x = ?od2 then ?od3 else x) (orders (store \<sigma>3))\<rparr>, crashed := False\<rparr>"
  have s4: "sys_step \<sigma>3 (EvRestaurant RReady ?od2) = Some \<sigma>4"
    using kitchen_press_step [OF c3(1,2) off3 d3] c3(4) by (simp add: \<sigma>4_def)
  from replace_one [OF d3 m3, of ?od3] have m4: "?od3 \<in> set (orders (store \<sigma>4))" by (simp add: \<sigma>4_def)
  have "run \<sigma> (kitchen_events \<sigma> od) = Some \<sigma>4" by (simp add: run0 s1 s2 s3 s4)
  with m4 show ?thesis by (auto simp: \<sigma>4_def)
qed

theorem pending_order_progress_witness:
  "reachable_fresh two_orders_state \<and> \<not> crashed two_orders_state
   \<and> kota_order 8 3 \<in> set (orders (store two_orders_state))
   \<and> status (kota_order 8 3) = PENDING \<and> restaurant_id (kota_order 8 3) = Some ''rest-1''
   \<and> (\<exists>\<sigma>'. run two_orders_state (kitchen_events two_orders_state (kota_order 8 3)) = Some \<sigma>'
        \<and> (kota_order 8 3)\<lparr>status := READY_FOR_PICKUP, updated_at := 4\<rparr> \<in> set (orders (store \<sigma>')))"
proof -
  have h1: "reachable_fresh two_orders_state" by (rule reachable_fresh_two_orders)
  have h2: "\<not> crashed two_orders_state" by (simp add: two_orders_state_def)
  have h3: "kota_order 8 3 \<in> set (orders (store two_orders_state))" by (simp add: two_orders_state_def)
  have h4: "status (kota_order 8 3) = PENDING" by (simp add: kota_order_def)
  have h5: "restaurant_id (kota_order 8 3) = Some ''rest-1''" by (simp add: kota_order_def MOCK_RESTAURANTS_def)
  have c: "clock two_orders_state = 4" by (simp add: two_orders_state_def)
  from pending_order_progress [OF h1 h2 h3 h4 h5] h1 h2 h3 h4 h5 c show ?thesis by auto
qed

text \<open>
  C9. Liveness of checkout: from every state the application reaches and in which it
  has not crashed, a customer can place an order, by clicks the screens offer: log out
  whoever is logged in, log in as Thabo, open The Kota King, open its first item, add
  it to the cart and press Place Order with any draw of \<open>Math.random\<close>. The run
  ends on a rendered screen with exactly one new order in front of the existing ones,
  the plain Kota stamped with the current time, and an empty cart.
\<close>

theorem checkout_progress:
  assumes r: "reachable \<sigma>" and nc: "\<not> crashed \<sigma>" and k: "k < 90000"
  shows "\<exists>\<sigma>'. run \<sigma> (checkout_events \<sigma> k) = Some \<sigma>' \<and> \<not> crashed \<sigma>'
    \<and> orders (store \<sigma>') = kota_order k (clock \<sigma>) # orders (store \<sigma>) \<and> cart (store \<sigma>') = []"
proof -
  have ci: "core_inv \<sigma>" using reachable_sys_inv [OF r] by (simp add: sys_inv_def)
  define \<sigma>0 where "\<sigma>0 = (if current_user (store \<sigma>) = None then \<sigma>
                          else \<sigma>\<lparr>store := logout (store \<sigma>), crashed := False\<rparr>)"
  have run0: "run \<sigma> (checkout_events \<sigma> k)
      = run \<sigma>0 [EvLogin ''thabo@gmail.com'', EvSelectRest (MOCK_RESTAURANTS ! 0), EvSelectItem (MOCK_MENU_ITEMS ! 0),
                EvAddToCart, EvPlaceOrder k]"
    using nc by (simp add: checkout_events_def \<sigma>0_def logout_step)
  have c0: "\<not> crashed \<sigma>0" "current_user (store \<sigma>0) = None" "cart (store \<sigma>0) = []"
    "orders (store \<sigma>0) = orders (store \<sigma>)" "restaurants (store \<sigma>0) = MOCK_RESTAURANTS"
    "menu_items (store \<sigma>0) = MOCK_MENU_ITEMS" "clock \<sigma>0 = clock \<sigma>"
    using nc ci reachable_login_cart_empty [OF r] by (simp_all add: \<sigma>0_def logout_def core_inv_def)
  define \<sigma>1 where "\<sigma>1 = \<sigma>0\<lparr>store := (store \<sigma>0)\<lparr>current_user := Some (MOCK_USERS ! 3)\<rparr>,
                             ui := customer_ui_init, crashed := False\<rparr>"
  have s1: "sys_step \<sigma>0 (EvLogin ''thabo@gmail.com'') = Some \<sigma>1"
    unfolding \<sigma>1_def by (rule thabo_login_step [OF c0(1,2)])
  have "run \<sigma>1 [EvSelectRest (MOCK_RESTAURANTS ! 0), EvSelectItem (MOCK_MENU_ITEMS ! 0), EvAddToCart, EvPlaceOrder k]
    = Some (\<sigma>1\<lparr>store := (store \<sigma>1)\<lparr>orders := kota_order k (clock \<sigma>1) # orders (store \<sigma>1), cart := []\<rparr>,
              ui := customer_ui_init, crashed := False\<rparr>)"
    by (rule kota_checkout_run) (use c0 k in \<open>simp_all add: \<sigma>1_def\<close>)
  then show ?thesis using run0 s1 c0 by (simp add: \<sigma>1_def)
qed

theorem checkout_progress_witness:
  "reachable two_orders_state \<and> \<not> crashed two_orders_state \<and> (9 :: nat) < 90000
   \<and> run two_orders_state (checkout_events two_orders_state 9) \<noteq> None
   \<and> (\<exists>\<sigma>'. run two_orders_state (checkout_events two_orders_state 9) = Some \<sigma>'
        \<and> orders (store \<sigma>') = [kota_order 9 4, kota_order 8 3, (kota_order 7 1)\<lparr>status := CANCELLED, updated_at := 2\<rparr>])"
proof -
  have h1: "reachable two_orders_state" using reachable_fresh_distinct [OF reachable_fresh_two_orders] by simp
  have h2: "\<not> crashed two_orders_state" by (simp add: two_orders_state_def)
  have h3: "(9 :: nat) < 90000" by simp
  from checkout_progress [OF h1 h2 h3] h1 h2 h3 show ?thesis by (auto simp: two_orders_state_def)
qed

text \<open>
  C10. Orders sent to Debonairs never progress: Debonairs is owned by \<open>deb-corp\<close>, an
  account that does not exist, so no admin screen lists its orders, and with fresh
  order numbers no later run of the application changes such an order in any way.
  Together with C8 this separates the restaurants the demo can serve from the one
  whose orders stay \<open>PENDING\<close> forever.
\<close>

theorem debonairs_orders_never_progress:
  "reachable_fresh \<sigma> \<Longrightarrow> fresh_run \<sigma> es \<Longrightarrow> run \<sigma> es = Some \<sigma>'
   \<Longrightarrow> od \<in> set (orders (store \<sigma>)) \<Longrightarrow> restaurant_id od = Some ''rest-2''
   \<Longrightarrow> od \<in> set (orders (store \<sigma>'))"
proof (induction es arbitrary: \<sigma>)
  case Nil
  then show ?case by simp
next
  case (Cons e es)
  from Cons.prems(2,3) obtain \<tau> where fe: "fresh_event \<sigma> e" and st: "sys_step \<sigma> e = Some \<tau>"
    and fr: "fresh_run \<tau> es" and ru: "run \<tau> es = Some \<sigma>'"
    by (auto split: option.splits)
  have "reachable_fresh \<tau>" using reachable_fresh.step [OF Cons.prems(1) fe st] .
  moreover have "od \<in> set (orders (store \<tau>))" using debonairs_step [OF Cons.prems(1) st Cons.prems(4,5)] .
  ultimately show ?case using Cons.IH fr ru Cons.prems(5) by blast
qed

theorem debonairs_orders_never_progress_witness:
  "reachable_fresh deb_state \<and> fresh_run deb_state [EvTick, EvLogin ''kota@business.co.za'']
   \<and> run deb_state [EvTick, EvLogin ''kota@business.co.za'']
       = Some (deb_state\<lparr>store := (store deb_state)\<lparr>current_user := Some (MOCK_USERS ! 1)\<rparr>, clock := 2\<rparr>)
   \<and> deb_order \<in> set (orders (store deb_state)) \<and> restaurant_id deb_order = Some ''rest-2''
   \<and> deb_order \<in> set (orders (store (deb_state\<lparr>store := (store deb_state)\<lparr>current_user := Some (MOCK_USERS ! 1)\<rparr>, clock := 2\<rparr>)))"
proof -
  have h1: "reachable_fresh deb_state" by (rule reachable_fresh_deb)
  have h2: "fresh_run deb_state [EvTick, EvLogin ''kota@business.co.za'']
    \<and> run deb_state [EvTick, EvLogin ''kota@business.co.za'']
       = Some (deb_state\<lparr>store := (store deb_state)\<lparr>current_user := Some (MOCK_USERS ! 1)\<rparr>, clock := 2\<rparr>)"
    by (simp add: deb_state_def sys_step_def app_screen_def login_def MOCK_USERS_def init_state_def)
  have h4: "deb_order \<in> set (orders (store deb_state))" by (simp add: deb_state_def)
  have h5: "restaurant_id deb_order = Some ''rest-2''" by (simp add: deb_order_def MOCK_RESTAURANTS_def)
  from debonairs_orders_never_progress [OF h1 conjunct1 [OF h2] conjunct2 [OF h2] h4 h5] h1 h2 h4 h5
  show ?thesis by simp
qed

end
