(* ===== verification/Spec2Isabelle.thy ===== *)
theory Spec2Isabelle
  imports Pages Integrity Progress
begin

text \<open>
  \<^bold>\<open>A verification development of the SwiftDrop delivery marketplace\<close>
  (the TypeScript/React application under \<open>src/\<close>).

  \<^bold>\<open>The program.\<close> One zustand store (\<open>src/store.ts\<close>) holds the current user, the
  catalogue, the orders and the cart, and offers seven setters. \<open>src/App.tsx\<close> shows a
  screen chosen by the current user's role; the screens read the store and call its
  setters from button handlers. The customer screen (\<open>src/views/CustomerApp.tsx\<close>)
  prices a selection, fills the cart and places orders; the restaurant admin screen
  (\<open>src/views/RestaurantAdminDashboard.tsx\<close>) accepts, declines, prepares and readies
  its orders; the driver screen (\<open>src/views/DriverApp.tsx\<close>) accepts ready orders and
  advances its own. The order lifecycle is nowhere a component of its own: the store
  writes any status, and what keeps orders on the intended path are the lists the
  screens render.

  \<^bold>\<open>Theories, in import order.\<close>
  \<^item> \<open>Prelude\<close>: the JavaScript idioms the code uses (truthiness, \<open>x || ''\<close>,
    \<open>filter\<close> with an index, \<open>map\<close> with a conditional spread) and their lemmas.
  \<^item> \<open>Types\<close>: \<open>src/types.ts\<close> -- the enums as datatypes, the interfaces as records;
    money in whole cents (\<^typ>\<open>int\<close>), timestamps as \<^typ>\<open>nat\<close>.
  \<^item> \<open>Catalog\<close>: \<open>src/constants.tsx\<close> -- the demo users, restaurants and menu items.
  \<^item> \<open>Store\<close>: \<open>src/store.ts\<close> -- \<open>app_state\<close> and \<open>login\<close>, \<open>logout\<close>,
    \<open>add_to_cart\<close>, \<open>remove_from_cart\<close>, \<open>clear_cart\<close>, \<open>place_order\<close>,
    \<open>update_order_status\<close>; the dictionary view \<open>order_map\<close> of the order list.
  \<^item> \<open>Pricing\<close>: \<open>CustomerApp.tsx\<close> lines 15--22 -- \<open>final_price\<close>,
    \<open>food_subtotal_of\<close>, the flat fees, \<open>total_order_amount\<close>.
  \<^item> \<open>Customer\<close>: the customer screen's React state \<open>customer_ui\<close> and its handlers
    \<open>handle_add_to_cart\<close>, \<open>handle_place_order\<close> (the order built by \<open>new_order\<close>,
    its identifier by \<open>order_number\<close>).
  \<^item> \<open>Lifecycle\<close>: the two working screens' lists (\<open>available_orders\<close>,
    \<open>my_active_orders\<close>, \<open>pending_orders\<close>, \<open>active_orders\<close>), their handlers
    (\<open>handle_accept\<close>, \<open>handle_status_update\<close>, \<open>restaurant_click\<close>,
    \<open>driver_click\<close>), the status changes they make (\<open>ui_edge\<close>), the specification's
    table (\<open>spec_edge\<close>), and the order invariant \<open>order_ok\<close>.
  \<^item> \<open>System\<close>: the application as one state machine: \<open>sys\<close> (store, customer
    state, clock, crashed), \<open>event\<close> (one constructor per button), \<open>sys_step\<close>,
    the runs \<open>run\<close>, and the reachable states \<open>reachable\<close> and
    \<open>reachable_fresh\<close> (all random order numbers fresh).
  \<^item> \<open>Dashboards\<close> (imports \<open>System\<close>): what each screen computes when it
    renders, as a value or the \<open>TypeError\<close> it throws (\<open>js_error\<close>, \<open>js_bind\<close> of
    \<open>Prelude\<close>): \<open>driver_render\<close> (\<open>DriverApp.tsx\<close>), \<open>owner_render\<close> with the
    GMV \<open>owner_gmv\<close> (\<open>PlatformOwnerDashboard.tsx\<close>), \<open>admin_render\<close> with
    \<open>status_distribution\<close> (\<open>AdminDashboard.tsx\<close>, not routed),
    \<open>restaurant_admin_render\<close>, \<open>customer_render\<close>, \<open>login_render\<close> with
    \<open>login_buttons\<close> (\<open>Login.tsx\<close>), and \<open>screen_render\<close>, the screen \<open>App.tsx\<close>
    routes to. The store has no member \<open>drivers\<close>: \<open>store_drivers\<close> is \<open>None\<close>.
  \<^item> \<open>RestaurantDashboard\<close> (imports \<open>Lifecycle\<close>): the unrouted
    \<open>RestaurantDashboard.tsx\<close>, its lists, \<open>handleUpdate\<close> and buttons.
  \<^item> \<open>Integrity\<close> (imports \<open>System\<close>): the referential integrity of orders
    (\<open>order_refs_ok\<close>) and the invariant \<open>refs_ok\<close> that carries it.
  \<^item> \<open>Progress\<close> (imports \<open>System\<close>): the driver's delivery loop
    \<open>deliver_clicks\<close> (fuel: the number of presses), the kitchen run
    \<open>kitchen_events\<close>, the customer's checkout run \<open>checkout_events\<close>, and the
    Debonairs scenario.
  \<^item> \<open>Display\<close> (imports \<open>Dashboards\<close>, \<open>RestaurantDashboard\<close>): the text the
    screens print: amounts through \<open>money\<close> (\<open>CURRENCY\<close> and \<open>toFixed(2)\<close>), enum
    labels through \<open>replace_first\<close> (\<open>String.prototype.replace\<close>), and the cards
    and headers of every screen (\<open>admin_pending_card\<close>, \<open>driver_active_card\<close>,
    \<open>tray_header\<close>, \<open>home_card\<close>, \<open>login_button\<close>, \<open>layout_header\<close>, ...).
  \<^item> \<open>Pages\<close> (imports \<open>Display\<close>): whole screens composed from those cards, with
    the conditions the JSX tests: \<open>customer_page\<close> (home page, or menu with the item
    modal \<open>item_modal\<close> and the tray \<open>checkout_tray\<close>), the two kitchen screens
    \<open>rad_page\<close> and \<open>rd_page\<close> with their stat tiles and highlighted queue buttons
    (\<open>queue_buttons\<close>), the driver lists \<open>driver_page\<close>, the vendor tables of the
    two analytics dashboards, and \<open>login_page\<close>.
  \<^item> \<open>Spec2Isabelle\<close> (this theory): the specification's Scenario A run from every
    reachable state (\<open>scenario_A_events\<close>), and the two customer-screen defects as
    statements over every customer-screen state: a closed item's variation carried
    to the next item, and a cart checked out at whichever restaurant is open.

  \<^bold>\<open>What is proved.\<close> Each component's operations are characterised on every branch,
  including the silent no-ops the code has where the specification asks for errors
  (unknown order, index out of range, empty cart, unknown e-mail). On the dictionary
  view of the orders, \<open>updateOrderStatus\<close> refines the effect of the specification's
  \<open>applyTransition\<close> (\<open>apply_transition_effect\<close>), doing nothing where that raises
  \<open>NotFoundError\<close>. In every reachable state each
  order's money fields satisfy \<open>totalFee = foodSubtotal + deliveryFee + serviceFee\<close>
  with no negative amount, and timestamps are ordered; under fresh identifiers the
  reachable states refine a per-order status machine whose transitions are \<open>ui_edge\<close>,
  and cancelled or delivered orders never change. The status changes the offered
  buttons make are exactly \<open>ui_edge\<close> (each of its edges is made by some click), which
  differs from the specification's table in five edges, and the driver handlers are verified at the
  component level (they keep the order invariant and follow \<open>ui_edge\<close>).
  The crash flag of the application model is derived from the screens' code: a screen
  renders exactly when its render computation does not throw (\<open>Dashboards\<close>). The
  owner's GMV never decreases; the pie chart of the admin dashboard partitions the
  orders; the unrouted restaurant screen is equivalent to the routed one; each login
  button logs in its user. Every reachable order refers to catalogue entries and a
  customer account, and is priced from the catalogue: each line costs its item's base
  price plus the price of the variation it records, and \<open>foodSubtotal\<close> is their sum
  (\<open>Integrity\<close>). Liveness (\<open>Progress\<close>): every pending order of
  The Kota King can be brought to \<open>READY_FOR_PICKUP\<close> by offered clicks from any
  reachable state that has not crashed, and from every such state a customer can place
  a new order (the login screen is only ever reached with an empty cart); orders sent
  to Debonairs never change; the driver's delivery loop ends within three presses.
  Every printed amount reads back as the amount it prints (\<open>Display\<close>), and the
  checkout tray prints the total the order it creates will charge, with the payment
  button of the recorded method highlighted (\<open>Pages\<close>).

  \<^bold>\<open>What the model shows about the code.\<close> The driver and owner screens crash on
  render (they read a store member \<open>drivers\<close> that does not exist), so no order ever
  reaches a driver status in the running application. Order identifiers are random
  numbers below 90000 and may collide; a collision lets a restaurant button reopen a
  cancelled order. Closing an item without adding it keeps its variation selected, so
  the next item is priced with it. The cart is not tied to a restaurant, so an order
  can go to a restaurant that sells none of its items. Concurrent clicks are not
  serialised: the second of two accepts or two Ready presses silently wins. Debonairs
  belongs to an owner that is no account, so its orders stay \<open>PENDING\<close> forever.

  \<^bold>\<open>Choices of the model.\<close> Money is whole cents: every price and fee is a whole
  number of cents and JavaScript adds such numbers exactly below \<open>2^53\<close>. The clock is
  a natural number advanced by an \<open>EvTick\<close> event; both \<open>new Date()\<close> calls of one
  checkout are one instant. \<open>Math.random()\<close> is the event parameter \<open>k < 90000\<close>. No
  loop of the code is unbounded (all are \<open>map\<close>, \<open>filter\<close>, \<open>find\<close>, \<open>reduce\<close> over
  finite lists), so no fuel is needed; \<open>decimal\<close> terminates by \<open>n div 10 < n\<close>.
  The only loop that may not end is a user's: pressing the driver's advance button while
  the card is shown. It is \<open>deliver_clicks\<close> with fuel, and three presses are proved
  enough for every order in a driver status. The owner's commission \<open>gmv * 0.20\<close> is
  an exact rational; the dashboards' historical offsets are converted to cents.
  While the item modal is open the customer controls below it are disabled, as for a
  mouse (the overlay covers them); the \<open>Layout\<close> header's Logout button is kept
  enabled, being reachable with the keyboard, so the liveness runs, which begin with a
  Logout, apply from every state.
  \<open>toFixed(2)\<close> is modelled on whole cents, the only values the code formats; its
  exponent notation from \<open>10^21\<close> on is out of reach of any order total.

  \<^bold>\<open>Not modelled.\<close> Markup and styling, emoji icons, and the constant figures
  the dashboards display (city sales, weekly revenue, \<open>Net Earnings\<close>, payouts),
  which no code computes; the charts of the two analytics dashboards, which only pass
  constant arrays to a charting library; \<open>toLocaleString\<close>, whose output depends on
  the browser's locale; the navigation of \<open>App.tsx\<close> beyond the choice of screen;
  page reloads, which recreate the in-memory store from scratch. The stat tiles of the
  two analytics dashboards and the driver screen's header (\<open>driverData?.ratingAvg\<close>,
  \<open>totalTrips\<close>) are not modelled: they format with \<open>toLocaleString\<close> or read
  fields of a driver record that never exists, and all three screens throw before
  rendering them; their vendor tables and order lists are modelled as what the code
  would print. The footer of \<open>Layout.tsx\<close> and the logo and SVG icons are constant
  markup.
\<close>

definition scenario_A_events :: "sys \<Rightarrow> nat \<Rightarrow> event list" where
  "scenario_A_events \<sigma> k =
     (if current_user (store \<sigma>) = None then [] else [EvLogout])
     @ [EvLogin ''thabo@gmail.com'', EvSelectRest (MOCK_RESTAURANTS ! 0), EvSelectItem (MOCK_MENU_ITEMS ! 0),
        EvSelectVar (item_variations (MOCK_MENU_ITEMS ! 0) ! 1), EvAddToCart, EvPlaceOrder k]"

text \<open>The customer's screen with The Full House Kota open and Double Cheese chosen.\<close>

definition stale_var_state :: sys where
  "stale_var_state = customer_state\<lparr>ui := (ui customer_state)\<lparr>selected_item := Some (MOCK_MENU_ITEMS ! 0),
     selected_var := Some (item_variations (MOCK_MENU_ITEMS ! 0) ! 1)\<rparr>\<rparr>"

subsection \<open>Lemmas\<close>

lemma scenario_A_run:
  assumes "\<not> crashed \<sigma>" and "current_user (store \<sigma>) = Some (MOCK_USERS ! 3)" and "ui \<sigma> = customer_ui_init"
    and "restaurants (store \<sigma>) = MOCK_RESTAURANTS" and "menu_items (store \<sigma>) = MOCK_MENU_ITEMS"
    and "cart (store \<sigma>) = []" and "k < 90000"
  shows "\<exists>\<sigma>'. run \<sigma> [EvSelectRest (MOCK_RESTAURANTS ! 0), EvSelectItem (MOCK_MENU_ITEMS ! 0),
      EvSelectVar (item_variations (MOCK_MENU_ITEMS ! 0) ! 1), EvAddToCart, EvPlaceOrder k] = Some \<sigma>'
    \<and> \<not> crashed \<sigma>' \<and> cart (store \<sigma>') = []
    \<and> (\<exists>od. orders (store \<sigma>') = od # orders (store \<sigma>) \<and> order_id od = order_number k \<and> status od = PENDING
         \<and> food_subtotal od = 5500 \<and> delivery_fee od = 2500 \<and> service_fee od = 500 \<and> total_fee od = 8500)"
  using assms
  by (simp add: sys_step_def app_screen_def MOCK_USERS_def rest_menu_def handle_add_to_cart_def add_to_cart_def
      handle_place_order_def place_order_def new_order_def customer_ui_init_def kota_king_catalog
      item_variations_def MOCK_MENU_ITEMS_def cart_line_of_def final_price_def total_order_amount_def
      food_subtotal_of_def DELIVERY_FEE_def SERVICE_FEE_def MOCK_RESTAURANTS_def)

lemma customer_events_step:
  assumes "\<not> crashed \<sigma>" and "app_screen (store \<sigma>) = CustomerScreen" and "customer_event \<sigma> e = Some \<tau>"
    and "current_user (store \<tau>) = current_user (store \<sigma>)"
    and "e \<in> {EvCloseItem, EvAddToCart, EvBack} \<or> (\<exists>it. e = EvSelectItem it) \<or> (\<exists>r. e = EvSelectRest r)
         \<or> (\<exists>k. e = EvPlaceOrder k)"
  shows "sys_step \<sigma> e = Some (\<tau>\<lparr>crashed := False\<rparr>)"
  using assms by (auto simp: sys_step_def app_screen_def)

subsection \<open>Properties\<close>

text \<open>
  C12. Scenario A of the specification, from every state the application reaches and
  in which it has not crashed: whoever is logged in logs out, the customer logs in,
  opens The Kota King, picks The Full House Kota (45.00) with Double Cheese (+10.00),
  adds it and checks out with any draw \<open>k\<close>. The run succeeds and the store gains
  exactly one \<open>PENDING\<close> order, \<open>ORD-k\<close>, with subtotal 55.00, fees 25.00 and 5.00, and
  total 85.00, and the cart is empty.
\<close>

theorem scenario_A_checkout:
  assumes r: "reachable \<sigma>" and nc: "\<not> crashed \<sigma>" and k: "k < 90000"
  shows "\<exists>\<sigma>'. run \<sigma> (scenario_A_events \<sigma> k) = Some \<sigma>' \<and> \<not> crashed \<sigma>' \<and> cart (store \<sigma>') = []
    \<and> (\<exists>od. orders (store \<sigma>') = od # orders (store \<sigma>) \<and> order_id od = order_number k \<and> status od = PENDING
         \<and> food_subtotal od = 5500 \<and> delivery_fee od = 2500 \<and> service_fee od = 500 \<and> total_fee od = 8500)"
proof -
  have ci: "core_inv \<sigma>" using reachable_sys_inv [OF r] by (simp add: sys_inv_def)
  define \<sigma>0 where "\<sigma>0 = (if current_user (store \<sigma>) = None then \<sigma>
                          else \<sigma>\<lparr>store := logout (store \<sigma>), crashed := False\<rparr>)"
  have c0: "\<not> crashed \<sigma>0" "current_user (store \<sigma>0) = None" "cart (store \<sigma>0) = []"
    "orders (store \<sigma>0) = orders (store \<sigma>)" "restaurants (store \<sigma>0) = MOCK_RESTAURANTS"
    "menu_items (store \<sigma>0) = MOCK_MENU_ITEMS"
    using nc ci reachable_login_cart_empty [OF r] by (simp_all add: \<sigma>0_def logout_def core_inv_def)
  define \<sigma>1 where "\<sigma>1 = \<sigma>0\<lparr>store := (store \<sigma>0)\<lparr>current_user := Some (MOCK_USERS ! 3)\<rparr>,
                             ui := customer_ui_init, crashed := False\<rparr>"
  have run0: "run \<sigma> (scenario_A_events \<sigma> k)
      = run \<sigma>0 [EvLogin ''thabo@gmail.com'', EvSelectRest (MOCK_RESTAURANTS ! 0), EvSelectItem (MOCK_MENU_ITEMS ! 0),
                EvSelectVar (item_variations (MOCK_MENU_ITEMS ! 0) ! 1), EvAddToCart, EvPlaceOrder k]"
    using nc by (simp add: scenario_A_events_def \<sigma>0_def logout_step)
  have s1: "sys_step \<sigma>0 (EvLogin ''thabo@gmail.com'') = Some \<sigma>1"
    unfolding \<sigma>1_def by (rule thabo_login_step [OF c0(1,2)])
  have "run \<sigma> (scenario_A_events \<sigma> k)
      = run \<sigma>1 [EvSelectRest (MOCK_RESTAURANTS ! 0), EvSelectItem (MOCK_MENU_ITEMS ! 0),
                EvSelectVar (item_variations (MOCK_MENU_ITEMS ! 0) ! 1), EvAddToCart, EvPlaceOrder k]"
    by (simp add: run0 s1)
  moreover have "orders (store \<sigma>1) = orders (store \<sigma>)" using c0 by (simp add: \<sigma>1_def)
  moreover have "\<exists>\<sigma>'. run \<sigma>1 [EvSelectRest (MOCK_RESTAURANTS ! 0), EvSelectItem (MOCK_MENU_ITEMS ! 0),
      EvSelectVar (item_variations (MOCK_MENU_ITEMS ! 0) ! 1), EvAddToCart, EvPlaceOrder k] = Some \<sigma>'
    \<and> \<not> crashed \<sigma>' \<and> cart (store \<sigma>') = []
    \<and> (\<exists>od. orders (store \<sigma>') = od # orders (store \<sigma>1) \<and> order_id od = order_number k \<and> status od = PENDING
         \<and> food_subtotal od = 5500 \<and> delivery_fee od = 2500 \<and> service_fee od = 500 \<and> total_fee od = 8500)"
    by (rule scenario_A_run) (use c0 k in \<open>simp_all add: \<sigma>1_def\<close>)
  ultimately show ?thesis by simp
qed

theorem scenario_A_checkout_witness:
  "reachable init_sys \<and> \<not> crashed init_sys \<and> (42 :: nat) < 90000
   \<and> (\<exists>\<sigma>'. run init_sys (scenario_A_events init_sys 42) = Some \<sigma>'
        \<and> (\<exists>od. orders (store \<sigma>') = [od] \<and> total_fee od = 8500))"
proof -
  have h1: "reachable init_sys" by (rule reachable.init)
  have h2: "\<not> crashed init_sys" by (simp add: init_sys_def)
  have h3: "(42 :: nat) < 90000" by simp
  have o: "orders (store init_sys) = []" by (simp add: init_sys_def init_state_def)
  from scenario_A_checkout [OF h1 h2 h3] h1 h2 h3 o show ?thesis by auto
qed

text \<open>
  C26. Closing an item without adding it keeps the chosen variation: on the customer
  screen with an item open and a variation \<open>v\<close> chosen, closing it, opening any other
  item of the restaurant and adding it appends a line for that item with variation
  \<open>v\<close>, priced with \<open>v\<close>, whether or not the item offers \<open>v\<close>. In the witness the Kota's
  Double Cheese ends up on Slap Chips, priced 20.00 + 10.00.
\<close>

theorem stale_variation_priced:
  assumes nc: "\<not> crashed \<sigma>" and scr: "app_screen (store \<sigma>) = CustomerScreen"
    and r: "selected_rest (ui \<sigma>) = Some r" and it: "selected_item (ui \<sigma>) = Some it"
    and v: "selected_var (ui \<sigma>) = Some v" and m: "it' \<in> set (rest_menu r (store \<sigma>))"
  shows "\<exists>\<sigma>'. run \<sigma> [EvCloseItem, EvSelectItem it', EvAddToCart] = Some \<sigma>' \<and> \<not> crashed \<sigma>'
    \<and> cart (store \<sigma>') = cart (store \<sigma>) @ [cart_line_of it' (Some v) (selected_mods (ui \<sigma>))]"
proof -
  have \<sigma>c: "\<sigma>\<lparr>crashed := False\<rparr> = \<sigma>" using nc by (cases \<sigma>) simp
  let ?\<tau>1 = "\<sigma>\<lparr>ui := (ui \<sigma>)\<lparr>selected_item := None\<rparr>\<rparr>"
  let ?\<tau>2 = "?\<tau>1\<lparr>ui := (ui ?\<tau>1)\<lparr>selected_item := Some it'\<rparr>\<rparr>"
  have s1: "sys_step \<sigma> EvCloseItem = Some (?\<tau>1\<lparr>crashed := False\<rparr>)"
    by (rule customer_events_step) (use nc scr r it in simp_all)
  have s2: "sys_step (?\<tau>1\<lparr>crashed := False\<rparr>) (EvSelectItem it') = Some (?\<tau>2\<lparr>crashed := False\<rparr>)"
    by (rule customer_events_step) (use scr r m \<sigma>c in simp_all)
  have s3: "sys_step (?\<tau>2\<lparr>crashed := False\<rparr>) EvAddToCart
      = Some ((?\<tau>2\<lparr>ui := (ui ?\<tau>2)\<lparr>selected_item := None, selected_var := None, selected_mods := []\<rparr>,
                 store := (store \<sigma>)\<lparr>cart := cart (store \<sigma>) @ [cart_line_of it' (Some v) (selected_mods (ui \<sigma>))]\<rparr>\<rparr>)
               \<lparr>crashed := False\<rparr>)"
    by (rule customer_events_step) (use scr r v \<sigma>c in \<open>simp_all add: handle_add_to_cart_def add_to_cart_def\<close>)
  show ?thesis using s1 s2 s3 by simp
qed

theorem stale_variation_priced_witness:
  "\<not> crashed stale_var_state \<and> app_screen (store stale_var_state) = CustomerScreen
   \<and> selected_rest (ui stale_var_state) = Some (MOCK_RESTAURANTS ! 0)
   \<and> selected_item (ui stale_var_state) = Some (MOCK_MENU_ITEMS ! 0)
   \<and> selected_var (ui stale_var_state) = Some (item_variations (MOCK_MENU_ITEMS ! 0) ! 1)
   \<and> MOCK_MENU_ITEMS ! 1 \<in> set (rest_menu (MOCK_RESTAURANTS ! 0) (store stale_var_state))
   \<and> (\<exists>\<sigma>'. run stale_var_state [EvCloseItem, EvSelectItem (MOCK_MENU_ITEMS ! 1), EvAddToCart] = Some \<sigma>'
        \<and> cart (store \<sigma>') = [kota_line, cart_line_of (MOCK_MENU_ITEMS ! 1) (Some (item_variations (MOCK_MENU_ITEMS ! 0) ! 1)) []])
   \<and> item_variations (MOCK_MENU_ITEMS ! 0) ! 1 \<notin> set (item_variations (MOCK_MENU_ITEMS ! 1))
   \<and> final_price (MOCK_MENU_ITEMS ! 1) (Some (item_variations (MOCK_MENU_ITEMS ! 0) ! 1)) [] = 3000"
proof -
  have h1: "\<not> crashed stale_var_state" by (simp add: stale_var_state_def customer_state_def)
  have h2: "app_screen (store stale_var_state) = CustomerScreen"
    by (simp add: stale_var_state_def customer_state_def app_screen_def MOCK_USERS_def)
  have h3: "selected_rest (ui stale_var_state) = Some (MOCK_RESTAURANTS ! 0)"
    by (simp add: stale_var_state_def customer_state_def customer_ui_init_def)
  have h4: "selected_item (ui stale_var_state) = Some (MOCK_MENU_ITEMS ! 0)" by (simp add: stale_var_state_def)
  have h5: "selected_var (ui stale_var_state) = Some (item_variations (MOCK_MENU_ITEMS ! 0) ! 1)"
    by (simp add: stale_var_state_def)
  have h6: "MOCK_MENU_ITEMS ! 1 \<in> set (rest_menu (MOCK_RESTAURANTS ! 0) (store stale_var_state))"
    by (simp add: stale_var_state_def customer_state_def init_state_def rest_menu_def MOCK_MENU_ITEMS_def
        MOCK_RESTAURANTS_def)
  have c: "cart (store stale_var_state) = [kota_line]" "selected_mods (ui stale_var_state) = []"
    by (simp_all add: stale_var_state_def customer_state_def customer_ui_init_def)
  have n: "item_variations (MOCK_MENU_ITEMS ! 0) ! 1 \<notin> set (item_variations (MOCK_MENU_ITEMS ! 1))
     \<and> final_price (MOCK_MENU_ITEMS ! 1) (Some (item_variations (MOCK_MENU_ITEMS ! 0) ! 1)) [] = 3000"
    by (simp add: item_variations_def MOCK_MENU_ITEMS_def final_price_def)
  from stale_variation_priced [OF h1 h2 h3 h4 h5 h6] c have
    "\<exists>\<sigma>'. run stale_var_state [EvCloseItem, EvSelectItem (MOCK_MENU_ITEMS ! 1), EvAddToCart] = Some \<sigma>'
        \<and> cart (store \<sigma>') = [kota_line, cart_line_of (MOCK_MENU_ITEMS ! 1) (Some (item_variations (MOCK_MENU_ITEMS ! 0) ! 1)) []]"
    by auto
  with h1 h2 h3 h4 h5 h6 n show ?thesis by blast
qed

text \<open>
  C27. The cart is not tied to a restaurant: on the customer screen with a non-empty
  cart, going back, opening any restaurant \<open>r'\<close> and checking out sends the order to
  \<open>r'\<close>, with \<open>r'\<close>'s address as pickup address, and with the whole cart as its lines,
  whichever restaurants those lines come from. In the witness a Kota of \<open>rest-1\<close> is
  ordered from Debonairs (\<open>rest-2\<close>).
\<close>

theorem order_restaurant_mismatch:
  assumes nc: "\<not> crashed \<sigma>" and scr: "app_screen (store \<sigma>) = CustomerScreen"
    and r: "selected_rest (ui \<sigma>) = Some r" and ni: "selected_item (ui \<sigma>) = None"
    and ne: "cart (store \<sigma>) \<noteq> []" and r': "r' \<in> set (restaurants (store \<sigma>))" and k: "k < 90000"
  shows "\<exists>\<sigma>'. run \<sigma> [EvBack, EvSelectRest r', EvPlaceOrder k] = Some \<sigma>' \<and> \<not> crashed \<sigma>'
    \<and> orders (store \<sigma>') = new_order k (clock \<sigma>) ((ui \<sigma>)\<lparr>selected_rest := Some r'\<rparr>) (store \<sigma>) # orders (store \<sigma>)
    \<and> restaurant_id (hd (orders (store \<sigma>'))) = Some (rest_id r')
    \<and> pickup_address (hd (orders (store \<sigma>'))) = address r'
    \<and> items (hd (orders (store \<sigma>'))) = Some (cart (store \<sigma>))"
proof -
  have \<sigma>c: "\<sigma>\<lparr>crashed := False\<rparr> = \<sigma>" using nc by (cases \<sigma>) simp
  let ?\<tau>1 = "\<sigma>\<lparr>ui := (ui \<sigma>)\<lparr>selected_rest := None\<rparr>\<rparr>"
  let ?\<tau>2 = "?\<tau>1\<lparr>ui := (ui ?\<tau>1)\<lparr>selected_rest := Some r'\<rparr>\<rparr>"
  have s1: "sys_step \<sigma> EvBack = Some (?\<tau>1\<lparr>crashed := False\<rparr>)"
    by (rule customer_events_step) (use nc scr r ni in simp_all)
  have s2: "sys_step (?\<tau>1\<lparr>crashed := False\<rparr>) (EvSelectRest r') = Some (?\<tau>2\<lparr>crashed := False\<rparr>)"
    by (rule customer_events_step) (use scr r' \<sigma>c in simp_all)
  have s3: "sys_step (?\<tau>2\<lparr>crashed := False\<rparr>) (EvPlaceOrder k)
      = Some ((?\<tau>2\<lparr>ui := (ui \<sigma>)\<lparr>selected_rest := None\<rparr>,
                 store := (store \<sigma>)\<lparr>orders := new_order k (clock \<sigma>) ((ui \<sigma>)\<lparr>selected_rest := Some r'\<rparr>) (store \<sigma>)
                   # orders (store \<sigma>), cart := []\<rparr>\<rparr>) \<lparr>crashed := False\<rparr>)"
    by (rule customer_events_step) (use scr ni ne k \<sigma>c in \<open>simp_all add: handle_place_order_def place_order_def new_order_def\<close>)
  show ?thesis using s1 s2 s3 by (simp add: new_order_def)
qed

theorem order_restaurant_mismatch_witness:
  "\<not> crashed customer_state \<and> app_screen (store customer_state) = CustomerScreen
   \<and> selected_rest (ui customer_state) = Some (MOCK_RESTAURANTS ! 0) \<and> selected_item (ui customer_state) = None
   \<and> cart (store customer_state) \<noteq> [] \<and> MOCK_RESTAURANTS ! 1 \<in> set (restaurants (store customer_state))
   \<and> (5 :: nat) < 90000
   \<and> (\<exists>\<sigma>'. run customer_state [EvBack, EvSelectRest (MOCK_RESTAURANTS ! 1), EvPlaceOrder 5] = Some \<sigma>'
        \<and> restaurant_id (hd (orders (store \<sigma>'))) = Some ''rest-2''
        \<and> items (hd (orders (store \<sigma>'))) = Some [kota_line])
   \<and> item_restaurant_id (MOCK_MENU_ITEMS ! 0) = ''rest-1''"
proof -
  have h1: "\<not> crashed customer_state" by (simp add: customer_state_def)
  have h2: "app_screen (store customer_state) = CustomerScreen"
    by (simp add: customer_state_def app_screen_def MOCK_USERS_def)
  have h3: "selected_rest (ui customer_state) = Some (MOCK_RESTAURANTS ! 0)"
    by (simp add: customer_state_def customer_ui_init_def)
  have h4: "selected_item (ui customer_state) = None" by (simp add: customer_state_def customer_ui_init_def)
  have h5: "cart (store customer_state) \<noteq> []" by (simp add: customer_state_def)
  have h6: "MOCK_RESTAURANTS ! 1 \<in> set (restaurants (store customer_state))"
    by (simp add: customer_state_def init_state_def MOCK_RESTAURANTS_def)
  have h7: "(5 :: nat) < 90000" by simp
  have c: "cart (store customer_state) = [kota_line]" by (simp add: customer_state_def)
  have r2: "rest_id (MOCK_RESTAURANTS ! 1) = ''rest-2''" "item_restaurant_id (MOCK_MENU_ITEMS ! 0) = ''rest-1''"
    by (simp_all add: MOCK_RESTAURANTS_def MOCK_MENU_ITEMS_def)
  from order_restaurant_mismatch [OF h1 h2 h3 h4 h5 h6 h7] c r2 h1 h2 h3 h4 h5 h6 h7 show ?thesis by auto
qed

end
